theory Spec2Isabelle
  imports Main "HOL-Library.Word"
begin

unbundle bit_operations_syntax

section \<open>Liberation Circuit: the LAN network module (n_network.h, n_network.c)\<close>

text \<open>
  A shallow embedding of the network module. The module keeps its state in the globals
  \<open>g_network\<close>, \<open>g_network_callbacks\<close>, \<open>network_initialized\<close> and the static
  \<open>counter\<close> of \<open>_network_generate_player_id\<close>; here they are the fields of one record,
  \<open>world\<close>, passed to and returned by every function. What the module asks of the
  operating system (the clock, \<open>socket\<close>, \<open>bind\<close>, \<open>sendto\<close>, \<open>recvfrom\<close>, \<open>errno\<close>, the
  resolver), and what it finds in the one array it reads without having initialised it,
  is read from a record \<open>env\<close>; what it does to the outside (datagrams handed to
  \<open>sendto\<close>, sockets closed, callbacks invoked) is appended, in order, to the \<open>effects\<close>
  trace of the world. The functions whose C name starts with an underscore carry the
  same name without it.
\<close>

subsection \<open>Constants and types of n_network.h\<close>

type_synonym byte = "8 word"
type_synonym uint8_t = "8 word"
type_synonym uint16_t = "16 word"
type_synonym uint32_t = "32 word"
type_synonym socket_t = int

definition INVALID_SOCKET_VALUE :: socket_t where "INVALID_SOCKET_VALUE = -1"
definition SOCKET_WOULD_BLOCK :: int where "SOCKET_WOULD_BLOCK = 11"

definition NETWORK_MAX_PLAYERS :: nat where "NETWORK_MAX_PLAYERS = 8"
definition NETWORK_DEFAULT_PORT :: uint16_t where "NETWORK_DEFAULT_PORT = 7777"
definition NETWORK_BROADCAST_PORT :: uint16_t where "NETWORK_BROADCAST_PORT = 7778"
definition NETWORK_BUFFER_SIZE :: nat where "NETWORK_BUFFER_SIZE = 4096"
definition NETWORK_MAX_MESSAGE_SIZE :: nat where "NETWORK_MAX_MESSAGE_SIZE = 1024"
definition NETWORK_DISCOVERY_INTERVAL :: uint32_t where "NETWORK_DISCOVERY_INTERVAL = 1000"
definition NETWORK_MAX_HOSTNAME :: nat where "NETWORK_MAX_HOSTNAME = 256"
definition NETWORK_MAX_GAME_NAME :: nat where "NETWORK_MAX_GAME_NAME = 64"
definition NETWORK_PROTOCOL_VERSION :: uint16_t where "NETWORK_PROTOCOL_VERSION = 1"
definition NETWORK_MAGIC :: uint32_t where "NETWORK_MAGIC = 0x4C494243"
definition INADDR_BROADCAST :: uint32_t where "INADDR_BROADCAST = 0xFFFFFFFF"
definition INADDR_LOOPBACK :: uint32_t where "INADDR_LOOPBACK = 0x7F000001"

datatype network_state_t =
    NETWORK_STATE_DISCONNECTED
  | NETWORK_STATE_HOSTING
  | NETWORK_STATE_CONNECTING
  | NETWORK_STATE_CONNECTED
  | NETWORK_STATE_ERROR

text \<open>
  \<open>message_type_t\<close> is a C enum: an integer that the receiver obtains by casting the
  16-bit type field of the header, so it can hold values that name no message. It is a
  32-bit word here, with the fourteen enumerators as constants.
\<close>

type_synonym message_type_t = "32 word"

definition MSG_DISCOVERY_REQUEST :: message_type_t where "MSG_DISCOVERY_REQUEST = 1"
definition MSG_DISCOVERY_RESPONSE :: message_type_t where "MSG_DISCOVERY_RESPONSE = 2"
definition MSG_JOIN_REQUEST :: message_type_t where "MSG_JOIN_REQUEST = 3"
definition MSG_JOIN_RESPONSE :: message_type_t where "MSG_JOIN_RESPONSE = 4"
definition MSG_PLAYER_LIST :: message_type_t where "MSG_PLAYER_LIST = 5"
definition MSG_GAME_START :: message_type_t where "MSG_GAME_START = 6"
definition MSG_GAME_DATA :: message_type_t where "MSG_GAME_DATA = 7"
definition MSG_PLAYER_DISCONNECT :: message_type_t where "MSG_PLAYER_DISCONNECT = 8"
definition MSG_PING :: message_type_t where "MSG_PING = 9"
definition MSG_PONG :: message_type_t where "MSG_PONG = 10"
definition MSG_CHAT :: message_type_t where "MSG_CHAT = 11"
definition MSG_GAME_STATE_SYNC :: message_type_t where "MSG_GAME_STATE_SYNC = 12"
definition MSG_TURN_DATA :: message_type_t where "MSG_TURN_DATA = 13"
definition MSG_ERROR :: message_type_t where "MSG_ERROR = 14"

definition message_types :: "message_type_t list" where
  "message_types =
     [MSG_DISCOVERY_REQUEST, MSG_DISCOVERY_RESPONSE, MSG_JOIN_REQUEST, MSG_JOIN_RESPONSE,
      MSG_PLAYER_LIST, MSG_GAME_START, MSG_GAME_DATA, MSG_PLAYER_DISCONNECT, MSG_PING,
      MSG_PONG, MSG_CHAT, MSG_GAME_STATE_SYNC, MSG_TURN_DATA, MSG_ERROR]"

text \<open>
  \<open>struct sockaddr_in\<close>: \<open>sin_addr\<close> is \<open>s_addr\<close> as the C code reads and writes it;
  \<open>sin_port\<close> is the port number itself, so that \<open>ntohs(addr->sin_port)\<close> and
  \<open>addr.sin_port = htons(p)\<close> of the source are both the plain field here.
\<close>

record sockaddr_in =
  sin_addr :: uint32_t
  sin_port :: uint16_t

record network_player_t =
  player_id :: uint32_t
  name :: "byte list"
  hostname :: "byte list"
  ip_address :: uint32_t
  port :: uint16_t
  last_ping :: uint32_t
  connected :: bool

record game_info_t =
  game_name :: "byte list"
  host_name :: "byte list"
  host_ip :: uint32_t
  host_port :: uint16_t
  current_players :: uint8_t
  max_players :: uint8_t
  game_id :: uint32_t
  last_seen :: uint32_t

text \<open>
  \<open>network_context_t\<close>. The arrays \<open>players\<close> (8 slots) and \<open>discovered_games\<close>
  (16 slots) are lists of that fixed length, the live entries being the first
  \<open>player_count\<close> and \<open>discovered_game_count\<close>. The scratch buffers \<open>receive_buffer\<close> and
  \<open>send_buffer\<close> are not fields: the first is overwritten by \<open>recvfrom\<close> before every
  read, the second is never used.
\<close>

record network_context_t =
  state :: network_state_t
  server_socket :: socket_t
  broadcast_socket :: socket_t
  local_port :: uint16_t
  players :: "network_player_t list"
  player_count :: nat
  local_player_id :: uint32_t
  ctx_game_name :: "byte list"
  ctx_game_id :: uint32_t
  is_host :: bool
  discovered_games :: "game_info_t list"
  discovered_game_count :: nat
  last_discovery_time :: uint32_t
  next_sequence :: uint32_t
  bytes_sent :: uint32_t
  bytes_received :: uint32_t
  messages_sent :: uint32_t
  messages_received :: uint32_t
  errors :: uint32_t

text \<open>\<open>network_callbacks_t\<close>: a function pointer is either NULL or registered.\<close>

record network_callbacks_t =
  on_player_joined :: bool
  on_player_left :: bool
  on_game_data :: bool
  on_chat :: bool
  on_error :: bool

text \<open>What the module does to the outside, in the order it does it.\<close>

datatype effect =
    Sendto socket_t sockaddr_in "byte list" int
  | Close socket_t
  | Player_joined uint32_t "byte list"
  | Player_left uint32_t
  | Game_data uint32_t "byte list"
  | Chat uint32_t "byte list"

record world =
  g_network :: network_context_t
  g_network_callbacks :: network_callbacks_t
  network_initialized :: bool
  counter :: uint32_t
  effects :: "effect list"

text \<open>
  What the operating system answers during one call of the module.
  \<^item> \<open>env_time\<close>: the value of \<open>get_timestamp()\<close>, that is \<open>(uint32_t)(time(NULL) * 1000)\<close>;
    \<open>time\<close> counts whole seconds and one call of the module reads it as one value.
  \<^item> \<open>env_sendto sock addr msg\<close>: the return value of \<open>sendto\<close> (\<open>-1\<close> on failure).
  \<^item> \<open>env_recvfrom sock\<close>: \<open>recvfrom\<close> either fails with an \<open>errno\<close>, or delivers the
    next datagram of the socket with its sender; \<open>env_errno\<close> is the value \<open>errno\<close> holds
    from earlier calls, which a successful \<open>recvfrom\<close> leaves as it is.
  \<^item> \<open>env_socket k\<close>: the return value of the \<open>k\<close>-th call of \<open>socket\<close>; \<open>env_nonblocking\<close>
    and \<open>env_bind\<close>: whether \<open>fcntl\<close> and \<open>bind\<close> succeed.
  \<^item> \<open>env_gethostbyname\<close>: the resolver; \<open>env_local_ip\<close>: \<open>network_get_local_ip()\<close>.
  \<^item> \<open>env_message_data\<close>: the bytes that the local array \<open>message_data\<close> of
    \<open>network_update\<close>, which is not initialised, holds when the call begins: whatever
    earlier calls have left on the stack.
\<close>

datatype recv_result = Recv_Fail int | Recv_Datagram sockaddr_in "byte list"

record env =
  env_time :: uint32_t
  env_sendto :: "socket_t \<Rightarrow> sockaddr_in \<Rightarrow> byte list \<Rightarrow> int"
  env_recvfrom :: "socket_t \<Rightarrow> recv_result"
  env_errno :: int
  env_socket :: "nat \<Rightarrow> socket_t"
  env_nonblocking :: "socket_t \<Rightarrow> bool"
  env_bind :: "socket_t \<Rightarrow> uint16_t \<Rightarrow> bool"
  env_gethostbyname :: "byte list \<Rightarrow> uint32_t option"
  env_local_ip :: uint32_t
  env_message_data :: "byte list"

definition get_timestamp :: "env \<Rightarrow> uint32_t" where
  "get_timestamp e = env_time e"

subsection \<open>The wire format of the header\<close>

text \<open>
  \<open>message_header_t\<close> is packed: 4 + 2 + 2 + 4 + 4 + 4 = 20 bytes. The sender stores
  every field through \<open>htonl\<close>/\<open>htons\<close> and copies the struct into the datagram, the
  receiver reads the fields back through \<open>ntohl\<close>/\<open>ntohs\<close>: on any host the bytes of the
  datagram are the fields in big-endian order.
\<close>

definition sizeof_message_header_t :: nat where "sizeof_message_header_t = 20"

definition store_be16 :: "uint16_t \<Rightarrow> byte list" where
  "store_be16 v = [ucast (drop_bit 8 v), ucast v]"

definition store_be32 :: "uint32_t \<Rightarrow> byte list" where
  "store_be32 v = [ucast (drop_bit 24 v), ucast (drop_bit 16 v), ucast (drop_bit 8 v), ucast v]"

definition load_be16 :: "byte list \<Rightarrow> nat \<Rightarrow> uint16_t" where
  "load_be16 buf off = push_bit 8 (ucast (buf ! off)) OR ucast (buf ! (off + 1))"

definition load_be32 :: "byte list \<Rightarrow> nat \<Rightarrow> uint32_t" where
  "load_be32 buf off =
     push_bit 24 (ucast (buf ! off)) OR push_bit 16 (ucast (buf ! (off + 1))) OR
     push_bit 8 (ucast (buf ! (off + 2))) OR ucast (buf ! (off + 3))"

record message_header_t =
  h_magic :: uint32_t
  h_version :: uint16_t
  h_type :: uint16_t
  h_size :: uint32_t
  h_sequence :: uint32_t
  h_timestamp :: uint32_t

definition header_bytes :: "message_header_t \<Rightarrow> byte list" where
  "header_bytes h =
     store_be32 (h_magic h) @ store_be16 (h_version h) @ store_be16 (h_type h) @
     store_be32 (h_size h) @ store_be32 (h_sequence h) @ store_be32 (h_timestamp h)"

definition header_of_buffer :: "byte list \<Rightarrow> message_header_t" where
  "header_of_buffer buf =
     \<lparr>h_magic = load_be32 buf 0, h_version = load_be16 buf 4, h_type = load_be16 buf 6,
      h_size = load_be32 buf 8, h_sequence = load_be32 buf 12, h_timestamp = load_be32 buf 16\<rparr>"

subsection \<open>Sending and receiving one message\<close>

text \<open>
  The datagram \<open>_network_send_message\<close> assembles in its local buffer: the header, then
  \<open>size\<close> bytes of payload. The pair \<open>(data, size)\<close> of the C signature is the byte list
  \<open>data\<close> here, \<open>size\<close> being its length; the callers in this module pass a NULL
  \<open>data\<close> only with \<open>size = 0\<close>, which is the empty list.
\<close>

definition build_message :: "message_type_t \<Rightarrow> byte list \<Rightarrow> uint32_t \<Rightarrow> uint32_t \<Rightarrow> byte list" where
  "build_message type data seq ts =
     header_bytes
       \<lparr>h_magic = NETWORK_MAGIC, h_version = NETWORK_PROTOCOL_VERSION, h_type = ucast type,
        h_size = of_nat (length data), h_sequence = seq, h_timestamp = ts\<rparr> @ data"

definition network_send_message ::
  "env \<Rightarrow> socket_t \<Rightarrow> sockaddr_in \<Rightarrow> message_type_t \<Rightarrow> byte list \<Rightarrow> world \<Rightarrow> int \<times> world" where
  "network_send_message e sock addr type data w =
     (if length data > NETWORK_MAX_MESSAGE_SIZE then (0, w)
      else
        let g = g_network w;
            message = build_message type data (next_sequence g) (get_timestamp e);
            g1 = g\<lparr>next_sequence := next_sequence g + 1\<rparr>;
            total_size = sizeof_message_header_t + length data;
            sent = env_sendto e sock addr (take total_size message);
            w1 = w\<lparr>effects := effects w @ [Sendto sock addr (take total_size message) sent]\<rparr>
        in if sent = int total_size
           then (1, w1\<lparr>g_network := g1\<lparr>bytes_sent := bytes_sent g1 + word_of_int sent,
                                          messages_sent := messages_sent g1 + 1\<rparr>\<rparr>)
           else (0, w1\<lparr>g_network := g1\<lparr>errors := errors g1 + 1\<rparr>\<rparr>))"

text \<open>
  \<open>_network_receive_message\<close> returns its \<open>int\<close> result and writes through the
  pointers \<open>from_addr\<close>, \<open>type\<close>, \<open>data\<close> and \<open>size\<close>. Each out-parameter is an option
  here: \<open>None\<close> when the call has not written it. \<open>data\<close> and \<open>size\<close> are written
  together and are one byte list; the only caller, \<open>network_update\<close>, passes both
  non-NULL. \<open>recvfrom\<close> is given \<open>NETWORK_BUFFER_SIZE\<close> bytes of room and cuts a longer
  datagram to that length.
\<close>

definition count_error :: "world \<Rightarrow> world" where
  "count_error w = w\<lparr>g_network := (g_network w)\<lparr>errors := errors (g_network w) + 1\<rparr>\<rparr>"

definition count_received :: "nat \<Rightarrow> world \<Rightarrow> world" where
  "count_received received w =
     w\<lparr>g_network := (g_network w)
         \<lparr>bytes_received := bytes_received (g_network w) + of_nat received,
          messages_received := messages_received (g_network w) + 1\<rparr>\<rparr>"

definition network_receive_message ::
  "env \<Rightarrow> socket_t \<Rightarrow> world \<Rightarrow>
     int \<times> sockaddr_in option \<times> message_type_t option \<times> byte list option \<times> world" where
  "network_receive_message e sock w =
     (case env_recvfrom e sock of
        Recv_Fail err \<Rightarrow>
          if err = SOCKET_WOULD_BLOCK then (0, None, None, None, w)
          else (-1, None, None, None, count_error w)
      | Recv_Datagram from_addr dgram \<Rightarrow>
          let receive_buffer = take NETWORK_BUFFER_SIZE dgram;
              received = length receive_buffer
          in if received \<le> 0 then
               (if env_errno e = SOCKET_WOULD_BLOCK then (0, Some from_addr, None, None, w)
                else (-1, Some from_addr, None, None, count_error w))
             else if received < sizeof_message_header_t then
               (-1, Some from_addr, None, None, count_error w)
             else
               let header = header_of_buffer receive_buffer in
               if h_magic header \<noteq> NETWORK_MAGIC then
                 (-1, Some from_addr, None, None, count_error w)
               else if h_version header \<noteq> NETWORK_PROTOCOL_VERSION then
                 (-1, Some from_addr, None, None, count_error w)
               else
                 let type = ucast (h_type header);
                     payload_size = unat (h_size header)
                 in if payload_size > NETWORK_MAX_MESSAGE_SIZE \<or>
                       received \<noteq> sizeof_message_header_t + payload_size then
                      (-1, Some from_addr, Some type, None, count_error w)
                    else
                      (1, Some from_addr, Some type,
                       Some (take payload_size (drop sizeof_message_header_t receive_buffer)),
                       count_received received w))"

subsection \<open>C strings and raw structs\<close>

text \<open>
  A \<open>char\<close> array is the list of its bytes. \<open>c_str\<close> is the string a \<open>const char *\<close>
  denotes, without its terminator; \<open>overwrite\<close> is \<open>memcpy\<close> to the start of an array.
  \<open>strncpy\<close> pads with zero bytes up to \<open>n\<close>, \<open>strcpy\<close> and \<open>sprintf\<close> write the string and
  one terminator and leave the rest of the array as it was.
\<close>

definition c_str :: "byte list \<Rightarrow> byte list" where
  "c_str buf = takeWhile (\<lambda>b. b \<noteq> 0) buf"

definition overwrite :: "byte list \<Rightarrow> byte list \<Rightarrow> byte list" where
  "overwrite src dst = src @ drop (length src) dst"

definition strcpy :: "byte list \<Rightarrow> byte list \<Rightarrow> byte list" where
  "strcpy dst src = overwrite (c_str src @ [0]) dst"

definition strncpy :: "byte list \<Rightarrow> byte list \<Rightarrow> nat \<Rightarrow> byte list" where
  "strncpy dst src n =
     overwrite (take n (c_str src) @ replicate (n - length (c_str src)) 0) dst"

definition literal :: "string \<Rightarrow> byte list" where
  "literal cs = map of_char cs"

fun decimal :: "nat \<Rightarrow> byte list" where
  "decimal n = (if n < 10 then [of_nat (48 + n)]
                else decimal (n div 10) @ [of_nat (48 + n mod 10)])"

declare decimal.simps [simp del]

text \<open>
  Two payloads are raw memory of the sending host: the \<open>uint32_t\<close> of a join response
  and the \<open>game_info_t\<close> of a discovery response. They are laid out as on the
  little-endian targets of the build scripts (x86, ARM): \<open>game_info_t\<close> is 112 bytes, its
  integer fields at offsets 96, 100, 102, 103, 104 and 108. \<open>inet_ntop\<close> prints the
  four bytes of \<open>s_addr\<close> in memory order.
\<close>

definition store_le16 :: "uint16_t \<Rightarrow> byte list" where
  "store_le16 v = [ucast v, ucast (drop_bit 8 v)]"

definition store_le32 :: "uint32_t \<Rightarrow> byte list" where
  "store_le32 v = [ucast v, ucast (drop_bit 8 v), ucast (drop_bit 16 v), ucast (drop_bit 24 v)]"

definition load_le16 :: "byte list \<Rightarrow> nat \<Rightarrow> uint16_t" where
  "load_le16 buf off = ucast (buf ! off) OR push_bit 8 (ucast (buf ! (off + 1)))"

definition load_le32 :: "byte list \<Rightarrow> nat \<Rightarrow> uint32_t" where
  "load_le32 buf off =
     ucast (buf ! off) OR push_bit 8 (ucast (buf ! (off + 1))) OR
     push_bit 16 (ucast (buf ! (off + 2))) OR push_bit 24 (ucast (buf ! (off + 3)))"

definition sizeof_game_info_t :: nat where "sizeof_game_info_t = 112"
definition sizeof_uint32_t :: nat where "sizeof_uint32_t = 4"

definition game_info_bytes :: "game_info_t \<Rightarrow> byte list" where
  "game_info_bytes gi =
     game_name gi @ host_name gi @ store_le32 (host_ip gi) @ store_le16 (host_port gi) @
     [current_players gi, max_players gi] @ store_le32 (game_id gi) @ store_le32 (last_seen gi)"

definition game_info_of_bytes :: "byte list \<Rightarrow> game_info_t" where
  "game_info_of_bytes d =
     \<lparr>game_name = take 64 d, host_name = take 32 (drop 64 d), host_ip = load_le32 d 96,
      host_port = load_le16 d 100, current_players = d ! 102, max_players = d ! 103,
      game_id = load_le32 d 104, last_seen = load_le32 d 108\<rparr>"

definition zero_game_info :: game_info_t where
  "zero_game_info =
     \<lparr>game_name = replicate NETWORK_MAX_GAME_NAME 0, host_name = replicate 32 0, host_ip = 0,
      host_port = 0, current_players = 0, max_players = 0, game_id = 0, last_seen = 0\<rparr>"

definition zero_player :: network_player_t where
  "zero_player =
     \<lparr>player_id = 0, name = replicate 32 0, hostname = replicate NETWORK_MAX_HOSTNAME 0,
      ip_address = 0, port = 0, last_ping = 0, connected = False\<rparr>"

definition inet_ntop :: "uint32_t \<Rightarrow> byte list \<Rightarrow> byte list" where
  "inet_ntop a dst =
     overwrite
       (decimal (unat (a AND 0xFF)) @ literal ''.'' @
        decimal (unat (drop_bit 8 a AND 0xFF)) @ literal ''.'' @
        decimal (unat (drop_bit 16 a AND 0xFF)) @ literal ''.'' @
        decimal (unat (drop_bit 24 a AND 0xFF)) @ [0]) dst"

subsection \<open>Identifiers, start-up and sockets\<close>

definition network_generate_player_id :: "env \<Rightarrow> world \<Rightarrow> uint32_t \<times> world" where
  "network_generate_player_id e w =
     ((get_timestamp e AND 0xFFFFFF00) OR (counter w AND 0xFF), w\<lparr>counter := counter w + 1\<rparr>)"

definition network_generate_game_id :: "env \<Rightarrow> uint32_t" where
  "network_generate_game_id e = get_timestamp e"

text \<open>
  The globals as the C runtime sets them up before \<open>main\<close>: zero, the static \<open>counter\<close>
  at 1, nothing done yet.
\<close>

definition zero_context :: network_context_t where
  "zero_context =
     \<lparr>state = NETWORK_STATE_DISCONNECTED, server_socket = 0, broadcast_socket = 0,
      local_port = 0, players = replicate NETWORK_MAX_PLAYERS zero_player, player_count = 0,
      local_player_id = 0, ctx_game_name = replicate NETWORK_MAX_GAME_NAME 0, ctx_game_id = 0,
      is_host = False, discovered_games = replicate 16 zero_game_info,
      discovered_game_count = 0, last_discovery_time = 0, next_sequence = 0, bytes_sent = 0,
      bytes_received = 0, messages_sent = 0, messages_received = 0, errors = 0\<rparr>"

definition zero_callbacks :: network_callbacks_t where
  "zero_callbacks =
     \<lparr>on_player_joined = False, on_player_left = False, on_game_data = False,
      on_chat = False, on_error = False\<rparr>"

definition program_start :: world where
  "program_start =
     \<lparr>g_network = zero_context, g_network_callbacks = zero_callbacks,
      network_initialized = False, counter = 1, effects = []\<rparr>"

text \<open>\<open>platform_network_init\<close> returns 1 outside Windows, so \<open>network_init\<close> cannot fail.\<close>

definition network_init :: "env \<Rightarrow> world \<Rightarrow> int \<times> world" where
  "network_init e w =
     (if network_initialized w then (1, w)
      else
        let (pid, w1) = network_generate_player_id e w in
        (1, w1\<lparr>g_network := zero_context
                  \<lparr>state := NETWORK_STATE_DISCONNECTED,
                   server_socket := INVALID_SOCKET_VALUE,
                   broadcast_socket := INVALID_SOCKET_VALUE,
                   local_port := NETWORK_DEFAULT_PORT,
                   next_sequence := 1,
                   ctx_game_id := network_generate_game_id e,
                   local_player_id := pid,
                   ctx_game_name :=
                     strcpy (replicate NETWORK_MAX_GAME_NAME 0) (literal ''Liberation Circuit Game'')\<rparr>,
                g_network_callbacks := zero_callbacks,
                network_initialized := True\<rparr>))"

text \<open>
  \<open>_network_create_socket\<close> stores the descriptor through \<open>sock\<close> before it reports
  whether the socket could be made non-blocking: the result is the pair of the return
  value and of what \<open>*sock\<close> holds afterwards. \<open>k\<close> counts the calls of \<open>socket\<close> within
  one call of the module.
\<close>

definition network_set_nonblocking :: "env \<Rightarrow> socket_t \<Rightarrow> int" where
  "network_set_nonblocking e sock = (if env_nonblocking e sock then 1 else 0)"

definition network_create_socket :: "env \<Rightarrow> nat \<Rightarrow> int \<times> socket_t" where
  "network_create_socket e k =
     (let sock = env_socket e k in
      if sock = INVALID_SOCKET_VALUE then (0, sock) else (network_set_nonblocking e sock, sock))"

definition network_bind_socket :: "env \<Rightarrow> socket_t \<Rightarrow> uint16_t \<Rightarrow> int" where
  "network_bind_socket e sock p = (if env_bind e sock p then 1 else 0)"

definition CLOSE_SOCKET :: "socket_t \<Rightarrow> world \<Rightarrow> world" where
  "CLOSE_SOCKET s w = w\<lparr>effects := effects w @ [Close s]\<rparr>"

definition set_server_socket :: "socket_t \<Rightarrow> world \<Rightarrow> world" where
  "set_server_socket s w = w\<lparr>g_network := (g_network w)\<lparr>server_socket := s\<rparr>\<rparr>"

definition set_broadcast_socket :: "socket_t \<Rightarrow> world \<Rightarrow> world" where
  "set_broadcast_socket s w = w\<lparr>g_network := (g_network w)\<lparr>broadcast_socket := s\<rparr>\<rparr>"

subsection \<open>Sending to the roster\<close>

text \<open>
  The loops of the module run an index up to \<open>player_count\<close> or
  \<open>discovered_game_count\<close>; each is a recursive function on the index. The three
  searches stop at the first hit, as the \<open>break\<close> and \<open>return\<close> of the source do.
\<close>

function find_player_by_id :: "network_player_t list \<Rightarrow> nat \<Rightarrow> uint32_t \<Rightarrow> nat \<Rightarrow> nat option" where
  "find_player_by_id ps n pid i =
     (if i < n then
        (if player_id (ps ! i) = pid then Some i else find_player_by_id ps n pid (i + 1))
      else None)"
  by pat_completeness auto
termination
  by (relation "measure (\<lambda>(ps, n, pid, i). n - i)") auto

function find_player_by_addr :: "network_player_t list \<Rightarrow> nat \<Rightarrow> sockaddr_in \<Rightarrow> nat \<Rightarrow> nat option" where
  "find_player_by_addr ps n from_addr i =
     (if i < n then
        (if ip_address (ps ! i) = sin_addr from_addr \<and> port (ps ! i) = sin_port from_addr
         then Some i else find_player_by_addr ps n from_addr (i + 1))
      else None)"
  by pat_completeness auto
termination
  by (relation "measure (\<lambda>(ps, n, from_addr, i). n - i)") auto

function find_game_by_id :: "game_info_t list \<Rightarrow> nat \<Rightarrow> uint32_t \<Rightarrow> nat \<Rightarrow> nat option" where
  "find_game_by_id gs n gid i =
     (if i < n then
        (if game_id (gs ! i) = gid then Some i else find_game_by_id gs n gid (i + 1))
      else None)"
  by pat_completeness auto
termination
  by (relation "measure (\<lambda>(gs, n, gid, i). n - i)") auto

declare find_player_by_id.simps [simp del]
declare find_player_by_addr.simps [simp del]
declare find_game_by_id.simps [simp del]

definition player_addr :: "network_player_t \<Rightarrow> sockaddr_in" where
  "player_addr p = \<lparr>sin_addr = ip_address p, sin_port = port p\<rparr>"

definition network_send_to_player ::
  "env \<Rightarrow> uint32_t \<Rightarrow> message_type_t \<Rightarrow> byte list \<Rightarrow> world \<Rightarrow> int \<times> world" where
  "network_send_to_player e pid type data w =
     (let g = g_network w in
      if server_socket g = INVALID_SOCKET_VALUE then (0, w)
      else case find_player_by_id (players g) (player_count g) pid 0 of
             Some i \<Rightarrow> network_send_message e (server_socket g) (player_addr (players g ! i)) type data w
           | None \<Rightarrow> (0, w))"

function send_to_all_loop ::
  "env \<Rightarrow> message_type_t \<Rightarrow> byte list \<Rightarrow> nat \<Rightarrow> int \<Rightarrow> world \<Rightarrow> int \<times> world" where
  "send_to_all_loop e type data i success_count w =
     (let g = g_network w in
      if i < player_count g then
        (if connected (players g ! i) then
           (let r = network_send_message e (server_socket g) (player_addr (players g ! i)) type data w
            in send_to_all_loop e type data (i + 1)
                 (if fst r \<noteq> 0 then success_count + 1 else success_count) (snd r))
         else send_to_all_loop e type data (i + 1) success_count w)
      else (success_count, w))"
  by pat_completeness auto
termination
  by (relation "measure (\<lambda>(e, type, data, i, c, w). player_count (g_network w) - i)")
     (auto simp: network_send_message_def Let_def)

declare send_to_all_loop.simps [simp del]

definition network_send_to_all :: "env \<Rightarrow> message_type_t \<Rightarrow> byte list \<Rightarrow> world \<Rightarrow> int \<times> world" where
  "network_send_to_all e type data w =
     (if server_socket (g_network w) = INVALID_SOCKET_VALUE then (0, w)
      else send_to_all_loop e type data 0 0 w)"

text \<open>\<open>message\<close> is \<open>None\<close> for a NULL pointer; the terminator is sent with the text.\<close>

definition network_send_chat :: "env \<Rightarrow> byte list option \<Rightarrow> world \<Rightarrow> int \<times> world" where
  "network_send_chat e message w =
     (case message of
        None \<Rightarrow> (0, w)
      | Some m \<Rightarrow> network_send_to_all e MSG_CHAT (c_str m @ [0]) w)"

definition network_send_game_state :: "env \<Rightarrow> byte list \<Rightarrow> world \<Rightarrow> int \<times> world" where
  "network_send_game_state e game_state w = network_send_to_all e MSG_GAME_STATE_SYNC game_state w"

definition network_send_turn_data :: "env \<Rightarrow> byte list \<Rightarrow> world \<Rightarrow> int \<times> world" where
  "network_send_turn_data e turn_data w = network_send_to_all e MSG_TURN_DATA turn_data w"

subsection \<open>Hosting, joining, leaving, discovery\<close>

text \<open>\<open>game_name\<close> and \<open>player_name\<close> are \<open>None\<close> for a NULL pointer.\<close>

definition network_host_game :: "env \<Rightarrow> byte list option \<Rightarrow> uint16_t \<Rightarrow> world \<Rightarrow> int \<times> world" where
  "network_host_game e game_name_arg port_arg w =
     (if state (g_network w) \<noteq> NETWORK_STATE_DISCONNECTED then (0, w)
      else
        let (ok1, s1) = network_create_socket e 0;
            w1 = set_server_socket s1 w
        in if ok1 = 0 then (0, w1)
           else if network_bind_socket e s1 port_arg = 0 then
             (0, set_server_socket INVALID_SOCKET_VALUE (CLOSE_SOCKET s1 w1))
           else
             let (ok2, s2) = network_create_socket e 1;
                 w2 = set_broadcast_socket s2 w1
             in if ok2 = 0 then
                  (0, set_server_socket INVALID_SOCKET_VALUE (CLOSE_SOCKET s1 w2))
                else if network_bind_socket e s2 NETWORK_BROADCAST_PORT = 0 then
                  (0, set_broadcast_socket INVALID_SOCKET_VALUE
                        (set_server_socket INVALID_SOCKET_VALUE
                          (CLOSE_SOCKET s2 (CLOSE_SOCKET s1 w2))))
                else
                  (1, w2\<lparr>g_network := (g_network w2)
                          \<lparr>local_port := port_arg,
                           is_host := True,
                           state := NETWORK_STATE_HOSTING,
                           player_count := 0,
                           ctx_game_name :=
                             (case game_name_arg of
                                None \<Rightarrow> ctx_game_name (g_network w2)
                              | Some n \<Rightarrow>
                                  (strncpy (ctx_game_name (g_network w2)) n (NETWORK_MAX_GAME_NAME - 1))
                                    [NETWORK_MAX_GAME_NAME - 1 := 0])\<rparr>\<rparr>))"

definition network_join_game ::
  "env \<Rightarrow> byte list \<Rightarrow> uint16_t \<Rightarrow> byte list option \<Rightarrow> world \<Rightarrow> int \<times> world" where
  "network_join_game e hostname_arg port_arg player_name w =
     (if state (g_network w) \<noteq> NETWORK_STATE_DISCONNECTED then (0, w)
      else
        let (ok, s) = network_create_socket e 0;
            w1 = set_server_socket s w
        in if ok = 0 then (0, w1)
           else case env_gethostbyname e hostname_arg of
             None \<Rightarrow> (0, set_server_socket INVALID_SOCKET_VALUE (CLOSE_SOCKET s w1))
           | Some ip \<Rightarrow>
               let server_addr = \<lparr>sin_addr = ip, sin_port = port_arg\<rparr>;
                   join_data =
                     (case player_name of
                        Some n \<Rightarrow> take 63 (c_str n)
                      | None \<Rightarrow> literal ''Player'');
                   (r, w2) = network_send_message e s server_addr MSG_JOIN_REQUEST (join_data @ [0]) w1
               in if r = 0 then (0, set_server_socket INVALID_SOCKET_VALUE (CLOSE_SOCKET s w2))
                  else (1, w2\<lparr>g_network := (g_network w2)
                               \<lparr>is_host := False, state := NETWORK_STATE_CONNECTING\<rparr>\<rparr>))"

definition network_disconnect :: "env \<Rightarrow> world \<Rightarrow> world" where
  "network_disconnect e w =
     (if state (g_network w) = NETWORK_STATE_DISCONNECTED then w
      else
        let w1 = (if state (g_network w) = NETWORK_STATE_CONNECTED \<or>
                     state (g_network w) = NETWORK_STATE_HOSTING
                  then snd (network_send_to_all e MSG_PLAYER_DISCONNECT [] w) else w);
            w2 = (if server_socket (g_network w1) \<noteq> INVALID_SOCKET_VALUE
                  then set_server_socket INVALID_SOCKET_VALUE
                         (CLOSE_SOCKET (server_socket (g_network w1)) w1)
                  else w1);
            w3 = (if broadcast_socket (g_network w2) \<noteq> INVALID_SOCKET_VALUE
                  then set_broadcast_socket INVALID_SOCKET_VALUE
                         (CLOSE_SOCKET (broadcast_socket (g_network w2)) w2)
                  else w2)
        in w3\<lparr>g_network := (g_network w3)
                \<lparr>state := NETWORK_STATE_DISCONNECTED,
                 player_count := 0,
                 is_host := False,
                 players := replicate NETWORK_MAX_PLAYERS zero_player\<rparr>\<rparr>)"

definition network_shutdown :: "env \<Rightarrow> world \<Rightarrow> world" where
  "network_shutdown e w =
     (if \<not> network_initialized w then w
      else (network_disconnect e w)\<lparr>network_initialized := False\<rparr>)"

definition network_broadcast_discovery :: "env \<Rightarrow> world \<Rightarrow> int \<times> world" where
  "network_broadcast_discovery e w =
     (if broadcast_socket (g_network w) = INVALID_SOCKET_VALUE then (0, w)
      else network_send_message e (broadcast_socket (g_network w))
             \<lparr>sin_addr = INADDR_BROADCAST, sin_port = NETWORK_BROADCAST_PORT\<rparr>
             MSG_DISCOVERY_REQUEST [] w)"

definition network_start_discovery :: "env \<Rightarrow> world \<Rightarrow> int \<times> world" where
  "network_start_discovery e w =
     (let (ok, s) = network_create_socket e 0;
          w1 = set_broadcast_socket s w
      in if ok = 0 then (0, w1)
         else network_broadcast_discovery e
                (w1\<lparr>g_network := (g_network w1)
                       \<lparr>discovered_game_count := 0, last_discovery_time := get_timestamp e\<rparr>\<rparr>))"

definition network_stop_discovery :: "world \<Rightarrow> world" where
  "network_stop_discovery w =
     (if broadcast_socket (g_network w) \<noteq> INVALID_SOCKET_VALUE
      then set_broadcast_socket INVALID_SOCKET_VALUE
             (CLOSE_SOCKET (broadcast_socket (g_network w)) w)
      else w)"

subsection \<open>The dispatcher and the per-tick update\<close>

text \<open>
  The pointer \<open>data\<close> of the dispatcher points to the array \<open>message_data\<close> of
  \<open>network_update\<close>, of which the codec has written the first \<open>size\<close> bytes. Here \<open>data\<close>
  is the payload, those \<open>size\<close> bytes, and \<open>rest\<close> the bytes that follow it in the array.
  Two cases read a C string at the pointer, and neither stops at \<open>size\<close>: \<open>strncpy\<close> of the
  player name reads up to 31 bytes or to the first zero byte, and the chat callback
  receives the pointer alone. Both read \<open>data @ rest\<close>; a string that finds no zero byte
  in all of the array ends here with the array. The discovery-response case writes
  \<open>last_seen\<close> through the pointer, into bytes 108 to 111 of the array:
  \<open>message_data_after\<close> is the array as the dispatcher leaves it. The compaction loop of
  the disconnect case copies each slot from its right-hand neighbour and leaves the
  last live slot as it was.
\<close>

function compact_players :: "network_player_t list \<Rightarrow> nat \<Rightarrow> nat \<Rightarrow> network_player_t list" where
  "compact_players ps n j =
     (if j < n - 1 then compact_players (ps[j := ps ! (j + 1)]) n (j + 1) else ps)"
  by pat_completeness auto
termination
  by (relation "measure (\<lambda>(ps, n, j). n - j)") auto

declare compact_players.simps [simp del]

definition sender_id_of :: "network_context_t \<Rightarrow> sockaddr_in \<Rightarrow> uint32_t" where
  "sender_id_of g from_addr =
     (case find_player_by_addr (players g) (player_count g) from_addr 0 of
        Some i \<Rightarrow> player_id (players g ! i)
      | None \<Rightarrow> 0)"

definition fire :: "effect \<Rightarrow> world \<Rightarrow> world" where
  "fire ev w = w\<lparr>effects := effects w @ [ev]\<rparr>"

definition handle_discovery_request :: "env \<Rightarrow> sockaddr_in \<Rightarrow> world \<Rightarrow> world" where
  "handle_discovery_request e from_addr w =
     (let g = g_network w in
      if is_host g \<and> state g = NETWORK_STATE_HOSTING then
        (let game_info = zero_game_info
               \<lparr>game_name := strcpy (game_name zero_game_info) (ctx_game_name g),
                host_name := strcpy (host_name zero_game_info) (literal ''Host''),
                host_ip := env_local_ip e,
                host_port := local_port g,
                current_players := of_nat (player_count g),
                max_players := of_nat NETWORK_MAX_PLAYERS,
                game_id := ctx_game_id g\<rparr>
         in snd (network_send_message e (broadcast_socket g) from_addr
                   MSG_DISCOVERY_RESPONSE (game_info_bytes game_info) w))
      else w)"

definition handle_discovery_response :: "env \<Rightarrow> byte list \<Rightarrow> world \<Rightarrow> world" where
  "handle_discovery_response e data w =
     (let g = g_network w in
      if length data = sizeof_game_info_t \<and> discovered_game_count g < 16 then
        (let game_info = (game_info_of_bytes data)\<lparr>last_seen := get_timestamp e\<rparr> in
         case find_game_by_id (discovered_games g) (discovered_game_count g) (game_id game_info) 0 of
           Some i \<Rightarrow>
             w\<lparr>g_network := g\<lparr>discovered_games := (discovered_games g)[i := game_info]\<rparr>\<rparr>
         | None \<Rightarrow>
             w\<lparr>g_network := g
                 \<lparr>discovered_games := (discovered_games g)[discovered_game_count g := game_info],
                  discovered_game_count := discovered_game_count g + 1\<rparr>\<rparr>)
      else w)"

text \<open>
  The assignments of the join case to the roster slot \<open>player\<close>, \<open>count\<close> being
  \<open>g_network.player_count\<close> before the increment and \<open>pid\<close> the generated id.
\<close>

definition fill_player_slot ::
  "env \<Rightarrow> sockaddr_in \<Rightarrow> byte list \<Rightarrow> byte list \<Rightarrow> nat \<Rightarrow> uint32_t \<Rightarrow> network_player_t \<Rightarrow>
     network_player_t" where
  "fill_player_slot e from_addr data rest count pid slot =
     slot\<lparr>player_id := pid,
          ip_address := sin_addr from_addr,
          port := sin_port from_addr,
          connected := True,
          last_ping := get_timestamp e,
          name :=
            (if length data > 0
             then (strncpy (name slot) (data @ rest) (32 - 1))[32 - 1 := 0]
             else overwrite (literal ''Player'' @ decimal (count + 1) @ [0]) (name slot)),
          hostname := inet_ntop (sin_addr from_addr) (hostname slot)\<rparr>"

definition handle_join_request ::
  "env \<Rightarrow> sockaddr_in \<Rightarrow> byte list \<Rightarrow> byte list \<Rightarrow> world \<Rightarrow> world" where
  "handle_join_request e from_addr data rest w =
     (let g = g_network w in
      if is_host g \<and> player_count g < NETWORK_MAX_PLAYERS then
        (let (pid, w1) = network_generate_player_id e w;
             player = fill_player_slot e from_addr data rest (player_count g) pid
                        (players g ! player_count g);
             w2 = w1\<lparr>g_network := g
                       \<lparr>players := (players g)[player_count g := player],
                        player_count := player_count g + 1\<rparr>\<rparr>;
             w3 = snd (network_send_message e (server_socket g) from_addr
                         MSG_JOIN_RESPONSE (store_le32 (player_id player)) w2)
         in if on_player_joined (g_network_callbacks w3)
            then fire (Player_joined (player_id player) (c_str (name player))) w3
            else w3)
      else w)"

definition handle_join_response :: "byte list \<Rightarrow> world \<Rightarrow> world" where
  "handle_join_response data w =
     (let g = g_network w in
      if state g = NETWORK_STATE_CONNECTING \<and> length data = sizeof_uint32_t then
        w\<lparr>g_network := g\<lparr>local_player_id := load_le32 data 0,
                             state := NETWORK_STATE_CONNECTED\<rparr>\<rparr>
      else w)"

definition handle_game_data :: "sockaddr_in \<Rightarrow> byte list \<Rightarrow> world \<Rightarrow> world" where
  "handle_game_data from_addr data w =
     (if on_game_data (g_network_callbacks w)
      then fire (Game_data (sender_id_of (g_network w) from_addr) data) w
      else w)"

definition handle_chat :: "sockaddr_in \<Rightarrow> byte list \<Rightarrow> byte list \<Rightarrow> world \<Rightarrow> world" where
  "handle_chat from_addr data rest w =
     (if on_chat (g_network_callbacks w) \<and> length data > 0
      then fire (Chat (sender_id_of (g_network w) from_addr) (c_str (data @ rest))) w
      else w)"

definition handle_player_disconnect :: "sockaddr_in \<Rightarrow> world \<Rightarrow> world" where
  "handle_player_disconnect from_addr w =
     (let g = g_network w in
      case find_player_by_addr (players g) (player_count g) from_addr 0 of
        Some i \<Rightarrow>
          (let w1 = (if on_player_left (g_network_callbacks w)
                     then fire (Player_left (player_id (players g ! i))) w else w)
           in w1\<lparr>g_network := g
                   \<lparr>players := compact_players (players g) (player_count g) i,
                    player_count := player_count g - 1\<rparr>\<rparr>)
      | None \<Rightarrow> w)"

definition network_handle_message ::
  "env \<Rightarrow> sockaddr_in \<Rightarrow> message_type_t \<Rightarrow> byte list \<Rightarrow> byte list \<Rightarrow> world \<Rightarrow> world" where
  "network_handle_message e from_addr type data rest w =
     (if type = MSG_DISCOVERY_REQUEST then handle_discovery_request e from_addr w
      else if type = MSG_DISCOVERY_RESPONSE then handle_discovery_response e data w
      else if type = MSG_JOIN_REQUEST then handle_join_request e from_addr data rest w
      else if type = MSG_JOIN_RESPONSE then handle_join_response data w
      else if type = MSG_GAME_DATA then handle_game_data from_addr data w
      else if type = MSG_CHAT then handle_chat from_addr data rest w
      else if type = MSG_PLAYER_DISCONNECT then handle_player_disconnect from_addr w
      else w)"

definition message_data_after ::
  "env \<Rightarrow> message_type_t \<Rightarrow> byte list \<Rightarrow> byte list \<Rightarrow> world \<Rightarrow> byte list" where
  "message_data_after e type data rest w =
     (if type = MSG_DISCOVERY_RESPONSE \<and> length data = sizeof_game_info_t \<and>
         discovered_game_count (g_network w) < 16
      then take 108 data @ store_le32 (get_timestamp e) @ rest
      else data @ rest)"

text \<open>
  One poll of a socket in \<open>network_update\<close>: receive into the array \<open>message_data\<close>, and
  dispatch when the result is positive. A positive result has written all three
  out-parameters, the payload over the first bytes of the array. The poll returns the
  array with the world: the second poll of a tick finds what the first has left.
\<close>

definition poll_socket :: "env \<Rightarrow> socket_t \<Rightarrow> byte list \<Rightarrow> world \<Rightarrow> byte list \<times> world" where
  "poll_socket e sock message_data w =
     (if sock \<noteq> INVALID_SOCKET_VALUE then
        (case network_receive_message e sock w of
           (result, Some from_addr, Some type, Some data, w1) \<Rightarrow>
             if result > 0
             then (let rest = drop (length data) message_data
                   in (message_data_after e type data rest w1,
                       network_handle_message e from_addr type data rest w1))
             else (message_data, w1)
         | (result, _, _, _, w1) \<Rightarrow> (message_data, w1))
      else (message_data, w))"

definition periodic_discovery :: "env \<Rightarrow> world \<Rightarrow> world" where
  "periodic_discovery e w =
     (let g = g_network w in
      if broadcast_socket g \<noteq> INVALID_SOCKET_VALUE \<and> \<not> is_host g \<and>
         get_timestamp e - last_discovery_time g > NETWORK_DISCOVERY_INTERVAL
      then
        (let w1 = snd (network_broadcast_discovery e w)
         in w1\<lparr>g_network := (g_network w1)\<lparr>last_discovery_time := get_timestamp e\<rparr>\<rparr>)
      else w)"

definition network_update :: "env \<Rightarrow> world \<Rightarrow> world" where
  "network_update e w =
     (if \<not> network_initialized w \<or> state (g_network w) = NETWORK_STATE_DISCONNECTED then w
      else
        let (message_data1, w1) =
              poll_socket e (server_socket (g_network w)) (env_message_data e) w;
            (message_data2, w2) = poll_socket e (broadcast_socket (g_network w1)) message_data1 w1
        in periodic_discovery e w2)"

subsection \<open>Callbacks and getters\<close>

definition network_set_callbacks :: "network_callbacks_t option \<Rightarrow> world \<Rightarrow> world" where
  "network_set_callbacks callbacks w =
     (case callbacks of
        Some c \<Rightarrow> w\<lparr>g_network_callbacks := c\<rparr>
      | None \<Rightarrow> w\<lparr>g_network_callbacks := zero_callbacks\<rparr>)"

definition network_get_discovered_games :: "nat \<Rightarrow> world \<Rightarrow> nat \<times> game_info_t list" where
  "network_get_discovered_games max_games w =
     (let count = (if discovered_game_count (g_network w) > max_games then max_games
                   else discovered_game_count (g_network w))
      in (count, take count (discovered_games (g_network w))))"

definition network_get_player_count :: "world \<Rightarrow> nat" where
  "network_get_player_count w = player_count (g_network w)"

definition network_get_local_player_id :: "world \<Rightarrow> uint32_t" where
  "network_get_local_player_id w = local_player_id (g_network w)"

subsection \<open>Example environments\<close>

text \<open>
  A network on which every \<open>sendto\<close> transmits the whole datagram, no datagram is
  waiting (every \<open>recvfrom\<close> fails with \<open>EWOULDBLOCK\<close>, which is also what \<open>errno\<close>
  holds from the poll before), and every socket call succeeds; the clock stands at
  5000 ms, and the stack holds the byte \<open>0x5A\<close> where \<open>network_update\<close> has its array.
\<close>

definition quiet_env :: env where
  "quiet_env =
     \<lparr>env_time = 5000,
      env_sendto = (\<lambda>sock addr msg. int (length msg)),
      env_recvfrom = (\<lambda>sock. Recv_Fail SOCKET_WOULD_BLOCK),
      env_errno = SOCKET_WOULD_BLOCK,
      env_socket = (\<lambda>k. 3 + int k),
      env_nonblocking = (\<lambda>sock. True),
      env_bind = (\<lambda>sock p. True),
      env_gethostbyname = (\<lambda>h. Some 0x0100007F),
      env_local_ip = 0x0100007F,
      env_message_data = replicate NETWORK_MAX_MESSAGE_SIZE 0x5A\<rparr>"

text \<open>What follows the payload \<open>data\<close> in the array, on that stack.\<close>

definition behind :: "byte list \<Rightarrow> byte list" where
  "behind data = drop (length data) (env_message_data quiet_env)"

text \<open>The same network with one datagram waiting on socket \<open>sock\<close>.\<close>

definition delivering :: "socket_t \<Rightarrow> sockaddr_in \<Rightarrow> byte list \<Rightarrow> env" where
  "delivering sock from_addr dgram =
     quiet_env\<lparr>env_recvfrom :=
       (\<lambda>s. if s = sock then Recv_Datagram from_addr dgram else Recv_Fail SOCKET_WOULD_BLOCK)\<rparr>"

definition peer_a :: sockaddr_in where
  "peer_a = \<lparr>sin_addr = 0x0A00000A, sin_port = 40001\<rparr>"

definition peer_b :: sockaddr_in where
  "peer_b = \<lparr>sin_addr = 0x0B00000A, sin_port = 40002\<rparr>"

subsection \<open>Attribution by address\<close>

text \<open>The test of the three address loops of the dispatcher.\<close>

definition sent_by :: "network_player_t \<Rightarrow> sockaddr_in \<Rightarrow> bool" where
  "sent_by p from_addr = (ip_address p = sin_addr from_addr \<and> port p = sin_port from_addr)"

subsection \<open>Discovery requests on the wire\<close>

text \<open>
  A discovery request on the wire is a datagram handed to \<open>sendto\<close> whose header carries
  the type \<open>MSG_DISCOVERY_REQUEST\<close>; \<open>discovery_requests\<close> counts them in the trace.
  \<open>rebroadcast_due\<close> is the conjunction of the tests \<open>network_update\<close> makes on its way
  to \<open>network_broadcast_discovery\<close>: the early return at its head and the condition of
  its last statement, whose subtraction is one of \<open>uint32_t\<close> values.
\<close>

definition is_discovery_request :: "effect \<Rightarrow> bool" where
  "is_discovery_request ef =
     (case ef of
        Sendto sock addr dgram r \<Rightarrow>
          sizeof_message_header_t \<le> length dgram \<and>
          h_type (header_of_buffer dgram) = ucast MSG_DISCOVERY_REQUEST
      | _ \<Rightarrow> False)"

definition discovery_requests :: "world \<Rightarrow> nat" where
  "discovery_requests w = length (filter is_discovery_request (effects w))"

definition rebroadcast_due :: "env \<Rightarrow> world \<Rightarrow> bool" where
  "rebroadcast_due e w =
     (network_initialized w \<and> state (g_network w) \<noteq> NETWORK_STATE_DISCONNECTED \<and>
      broadcast_socket (g_network w) \<noteq> INVALID_SOCKET_VALUE \<and> \<not> is_host (g_network w) \<and>
      get_timestamp e - last_discovery_time (g_network w) > NETWORK_DISCOVERY_INTERVAL)"

subsection \<open>What a call leaves alone\<close>

text \<open>
  Sending and receiving touch the sequence number and the statistics counters of the
  context and nothing else in it. \<open>session_part\<close> blanks those fields; two worlds are the
  \<open>same_session\<close> when they agree on everything else apart from the trace of effects.
\<close>

definition session_part :: "network_context_t \<Rightarrow> network_context_t" where
  "session_part g = g\<lparr>next_sequence := 0, bytes_sent := 0, messages_sent := 0, errors := 0,
      bytes_received := 0, messages_received := 0\<rparr>"

definition same_session :: "world \<Rightarrow> world \<Rightarrow> bool" where
  "same_session w w' =
     (session_part (g_network w') = session_part (g_network w) \<and>
      g_network_callbacks w' = g_network_callbacks w \<and>
      network_initialized w' = network_initialized w \<and>
      counter w' = counter w)"


text \<open>
  The dispatcher in turn leaves the sockets, the \<open>is_host\<close> flag, the time of the last
  discovery broadcast, the initialisation flag and the callbacks as they are: the
  \<open>wiring\<close> of the world.
\<close>

definition wiring :: "world \<Rightarrow> socket_t \<times> socket_t \<times> bool \<times> uint32_t \<times> bool \<times> network_callbacks_t" where
  "wiring w = (server_socket (g_network w), broadcast_socket (g_network w), is_host (g_network w),
               last_discovery_time (g_network w), network_initialized w, g_network_callbacks w)"


subsection \<open>Reachable worlds\<close>

text \<open>
  The application drives the module through its public functions, in any order and
  with any arguments, each call under some answer of the operating system. A world is
  reachable when such a sequence of calls leads to it from the start of the program.
  The callbacks of the application (\<open>multiplayer_on_player_joined\<close> and the others)
  update the menu and do not call back into the module.
\<close>

inductive reachable :: "world \<Rightarrow> bool" where
  r_start: "reachable program_start"
| r_init: "reachable w \<Longrightarrow> reachable (snd (network_init e w))"
| r_shutdown: "reachable w \<Longrightarrow> reachable (network_shutdown e w)"
| r_update: "reachable w \<Longrightarrow> reachable (network_update e w)"
| r_host_game: "reachable w \<Longrightarrow> reachable (snd (network_host_game e gname p w))"
| r_join_game: "reachable w \<Longrightarrow> reachable (snd (network_join_game e h p pname w))"
| r_disconnect: "reachable w \<Longrightarrow> reachable (network_disconnect e w)"
| r_start_discovery: "reachable w \<Longrightarrow> reachable (snd (network_start_discovery e w))"
| r_stop_discovery: "reachable w \<Longrightarrow> reachable (network_stop_discovery w)"
| r_broadcast_discovery: "reachable w \<Longrightarrow> reachable (snd (network_broadcast_discovery e w))"
| r_send_to_player: "reachable w \<Longrightarrow> reachable (snd (network_send_to_player e pid type data w))"
| r_send_to_all: "reachable w \<Longrightarrow> reachable (snd (network_send_to_all e type data w))"
| r_send_chat: "reachable w \<Longrightarrow> reachable (snd (network_send_chat e message w))"
| r_send_game_state: "reachable w \<Longrightarrow> reachable (snd (network_send_game_state e data w))"
| r_send_turn_data: "reachable w \<Longrightarrow> reachable (snd (network_send_turn_data e data w))"
| r_set_callbacks: "reachable w \<Longrightarrow> reachable (network_set_callbacks callbacks w)"

text \<open>
  What holds in every reachable world: the arrays keep their lengths, the counts stay
  within them, the \<open>is_host\<close> flag is set exactly in state Hosting, only a host has
  roster entries, and the live entries of the discovery list carry pairwise different
  game ids.
\<close>

definition session_inv :: "world \<Rightarrow> bool" where
  "session_inv w =
     (length (players (g_network w)) = NETWORK_MAX_PLAYERS \<and>
      player_count (g_network w) \<le> NETWORK_MAX_PLAYERS \<and>
      length (discovered_games (g_network w)) = 16 \<and>
      discovered_game_count (g_network w) \<le> 16 \<and>
      (is_host (g_network w) \<longleftrightarrow> state (g_network w) = NETWORK_STATE_HOSTING) \<and>
      (\<not> is_host (g_network w) \<longrightarrow> player_count (g_network w) = 0) \<and>
      distinct (map game_id (take (discovered_game_count (g_network w)) (discovered_games (g_network w)))))"

subsection \<open>Example sessions\<close>

text \<open>
  A host: the module is initialised, the application registers its five callbacks (as
  \<open>multiplayer_menu_init\<close> does) and hosts the game ``Arena'' on port 7777; its sockets
  are the descriptors 3 and 4. \<open>joined as\<close> is that host after one tick for each peer of the
  list \<open>as\<close>, last to first, each tick finding a join request of that peer on the
  session socket: \<open>full_roster\<close> after eight requests of one peer, \<open>twice_a\<close> after two,
  \<open>three_peers\<close> after one request of each of three peers.
\<close>

definition all_callbacks :: network_callbacks_t where
  "all_callbacks =
     \<lparr>on_player_joined = True, on_player_left = True, on_game_data = True,
      on_chat = True, on_error = True\<rparr>"

definition hosting_world :: world where
  "hosting_world =
     snd (network_host_game quiet_env (Some (literal ''Arena'')) 7777
            (network_set_callbacks (Some all_callbacks)
               (snd (network_init quiet_env program_start))))"

definition join_request_from :: "sockaddr_in \<Rightarrow> env" where
  "join_request_from a =
     delivering 3 a (build_message MSG_JOIN_REQUEST (literal ''Nova'' @ [0]) 1 5000)"

fun joined :: "sockaddr_in list \<Rightarrow> world" where
  "joined [] = hosting_world"
| "joined (a # as) = network_update (join_request_from a) (joined as)"

declare joined.simps [simp del]

definition peer_c :: sockaddr_in where
  "peer_c = \<lparr>sin_addr = 0x0C00000A, sin_port = 40003\<rparr>"

definition full_roster :: world where
  "full_roster = joined [peer_a, peer_a, peer_a, peer_a, peer_a, peer_a, peer_a, peer_a]"

definition twice_a :: world where
  "twice_a = joined [peer_a, peer_a]"

definition three_peers :: world where
  "three_peers = joined [peer_c, peer_b, peer_a]"


text \<open>The module after \<open>network_init\<close>, with nothing else done yet.\<close>

definition idle_world :: world where
  "idle_world = snd (network_init quiet_env program_start)"

text \<open>
  A client: it starts discovery (socket 3), sends its join request to the host at
  127.0.0.1:7777 from a second socket (5), and one tick later finds the host's join
  response, carrying the id \<open>0x1302\<close>, on that socket.
\<close>

definition second_sockets :: env where
  "second_sockets = quiet_env\<lparr>env_socket := (\<lambda>k. 5 + int k)\<rparr>"

definition host_addr :: sockaddr_in where
  "host_addr = \<lparr>sin_addr = 0x0100007F, sin_port = 7777\<rparr>"

definition connecting_client :: world where
  "connecting_client =
     snd (network_join_game second_sockets (literal ''127.0.0.1'') 7777 (Some (literal ''Nova''))
            (snd (network_start_discovery quiet_env idle_world)))"

definition connected_client :: world where
  "connected_client =
     network_update
       (delivering 5 host_addr (build_message MSG_JOIN_RESPONSE (store_le32 0x1302) 1 5000))
       connecting_client"

text \<open>The quiet network two seconds later.\<close>

definition two_seconds_later :: env where
  "two_seconds_later = quiet_env\<lparr>env_time := 7000\<rparr>"

text \<open>
  The quiet network with the clock one second behind: \<open>time(NULL)\<close> follows the
  system clock, which an administrator or a time service can set back.
\<close>

definition one_second_earlier :: env where
  "one_second_earlier = quiet_env\<lparr>env_time := 4000\<rparr>"

text \<open>
  \<open>restarts n\<close>: the application has initialised and shut down the module \<open>n\<close> times.
  Every \<open>network_init\<close> draws one id, so the static counter of the id generator stands
  at \<open>n + 1\<close>. \<open>rollover_host\<close> initialises once more after 254 restarts and hosts a game:
  its counter is 256, a multiple of 256. \<open>zero_hour\<close> delivers a join request at an instant
  whose millisecond timestamp is 0 in 32 bits, as it is when \<open>time(NULL)\<close> returns
  a multiple of \<open>2^29\<close> (2147483648, 19 January 2038 03:14:08 UTC, is the next one).
\<close>

fun restarts :: "nat \<Rightarrow> world" where
  "restarts 0 = program_start"
| "restarts (Suc n) = network_shutdown quiet_env (snd (network_init quiet_env (restarts n)))"

declare restarts.simps [simp del]

definition rollover_host :: world where
  "rollover_host =
     snd (network_host_game quiet_env (Some (literal ''Arena'')) 7777
            (network_set_callbacks (Some all_callbacks)
               (snd (network_init quiet_env (restarts 254)))))"

definition zero_hour :: env where
  "zero_hour = (join_request_from peer_a)\<lparr>env_time := 0\<rparr>"

text \<open>The addresses the datagrams of a trace were sent to, in order.\<close>

fun destinations :: "effect list \<Rightarrow> sockaddr_in list" where
  "destinations [] = []"
| "destinations (Sendto sock addr dgram r # efs) = addr # destinations efs"
| "destinations (ef # efs) = destinations efs"

text \<open>
  Discovery responses. \<open>advert gid cur\<close> is the \<open>game_info_t\<close> of an unnamed game with
  id \<open>gid\<close> and \<open>cur\<close> players, and \<open>discovery_response_from gid cur\<close> a network that
  delivers it, as a discovery response, on the client's discovery socket.
  \<open>discovered xs\<close> is the client of the example, still Connecting, after one tick for
  each pair (id, players) of the list \<open>xs\<close>, last to first; \<open>two_games\<close> has heard of the
  games 100 and 101, \<open>full_registry\<close> of the sixteen games 100 to 115.
\<close>

definition advert :: "uint32_t \<Rightarrow> uint8_t \<Rightarrow> game_info_t" where
  "advert gid cur =
     zero_game_info\<lparr>host_ip := 0x0100007F, host_port := 7777, current_players := cur,
                    max_players := 8, game_id := gid\<rparr>"

definition discovery_response_from :: "uint32_t \<Rightarrow> uint8_t \<Rightarrow> env" where
  "discovery_response_from gid cur =
     delivering 3 host_addr
       (build_message MSG_DISCOVERY_RESPONSE (game_info_bytes (advert gid cur)) 1 5000)"

fun discovered :: "(uint32_t \<times> uint8_t) list \<Rightarrow> world" where
  "discovered [] = connecting_client"
| "discovered (x # xs) =
     network_update (discovery_response_from (fst x) (snd x)) (discovered xs)"

declare discovered.simps [simp del]

definition two_games :: world where
  "two_games = discovered [(101, 2), (100, 1)]"

definition full_registry :: world where
  "full_registry =
     discovered [(115, 1), (114, 1), (113, 1), (112, 1), (111, 1), (110, 1), (109, 1), (108, 1),
                 (107, 1), (106, 1), (105, 1), (104, 1), (103, 1), (102, 1), (101, 1), (100, 1)]"

section \<open>Properties\<close>

subsection \<open>The codec\<close>

lemma load_store_be32: "load_be32 (xs @ store_be32 v @ ys) (length xs) = v"
proof -
  have "push_bit 24 (ucast (ucast (drop_bit 24 v) :: byte)) OR
        push_bit 16 (ucast (ucast (drop_bit 16 v) :: byte)) OR
        push_bit 8 (ucast (ucast (drop_bit 8 v) :: byte)) OR ucast (ucast v :: byte) = v"
  proof (rule bit_word_eqI)
    fix n assume "n < LENGTH(32)"
    then show "bit (push_bit 24 (ucast (ucast (drop_bit 24 v) :: byte)) OR
        push_bit 16 (ucast (ucast (drop_bit 16 v) :: byte)) OR
        push_bit 8 (ucast (ucast (drop_bit 8 v) :: byte)) OR
        (ucast (ucast v :: byte) :: uint32_t)) n = bit v n"
      by (cases "n < 8"; cases "n < 16"; cases "n < 24") (auto simp: bit_simps)
  qed
  then show ?thesis
    by (simp add: load_be32_def store_be32_def nth_append)
qed

lemma load_store_be16: "load_be16 (xs @ store_be16 v @ ys) (length xs) = v"
  unfolding load_be16_def store_be16_def
  apply (simp add: nth_append)
  apply (rule bit_word_eqI)
  apply (auto simp: bit_simps)
  done

lemma length_store_be32 [simp]: "length (store_be32 v) = 4"
  by (simp add: store_be32_def)

lemma length_store_be16 [simp]: "length (store_be16 v) = 2"
  by (simp add: store_be16_def)

lemma length_header_bytes [simp]: "length (header_bytes h) = 20"
  by (simp add: header_bytes_def)

lemma length_build_message [simp]:
  "length (build_message type data seq ts) = 20 + length data"
  by (simp add: build_message_def)

lemma header_of_buffer_bytes: "header_of_buffer (header_bytes h @ rest) = h"
proof -
  let ?m = "store_be32 (h_magic h)" and ?v = "store_be16 (h_version h)"
  and ?t = "store_be16 (h_type h)" and ?s = "store_be32 (h_size h)"
  and ?q = "store_be32 (h_sequence h)" and ?c = "store_be32 (h_timestamp h)"
  let ?buf = "header_bytes h @ rest"
  have 1: "load_be32 ?buf 0 = h_magic h"
    using load_store_be32 [of "[]" "h_magic h" "?v @ ?t @ ?s @ ?q @ ?c @ rest"]
    by (simp add: header_bytes_def)
  have 2: "load_be16 ?buf 4 = h_version h"
    using load_store_be16 [of "?m" "h_version h" "?t @ ?s @ ?q @ ?c @ rest"]
    by (simp add: header_bytes_def)
  have 3: "load_be16 ?buf 6 = h_type h"
    using load_store_be16 [of "?m @ ?v" "h_type h" "?s @ ?q @ ?c @ rest"]
    by (simp add: header_bytes_def)
  have 4: "load_be32 ?buf 8 = h_size h"
    using load_store_be32 [of "?m @ ?v @ ?t" "h_size h" "?q @ ?c @ rest"]
    by (simp add: header_bytes_def)
  have 5: "load_be32 ?buf 12 = h_sequence h"
    using load_store_be32 [of "?m @ ?v @ ?t @ ?s" "h_sequence h" "?c @ rest"]
    by (simp add: header_bytes_def)
  have 6: "load_be32 ?buf 16 = h_timestamp h"
    using load_store_be32 [of "?m @ ?v @ ?t @ ?s @ ?q" "h_timestamp h" "rest"]
    by (simp add: header_bytes_def)
  show ?thesis
    by (simp add: header_of_buffer_def 1 2 3 4 5 6)
qed

lemma message_types_fit: "type \<in> set message_types \<Longrightarrow> type \<le> 0xFFFF"
  by (auto simp: message_types_def MSG_DISCOVERY_REQUEST_def MSG_DISCOVERY_RESPONSE_def
      MSG_JOIN_REQUEST_def MSG_JOIN_RESPONSE_def MSG_PLAYER_LIST_def MSG_GAME_START_def
      MSG_GAME_DATA_def MSG_PLAYER_DISCONNECT_def MSG_PING_def MSG_PONG_def MSG_CHAT_def
      MSG_GAME_STATE_SYNC_def MSG_TURN_DATA_def MSG_ERROR_def)

lemma ucast_type_back:
  fixes type :: message_type_t
  assumes "type \<le> 0xFFFF"
  shows "(ucast (ucast type :: uint16_t) :: message_type_t) = type"
proof -
  have "unat type < 2 ^ 16" using assms by (simp add: word_le_nat_alt)
  then have "type < 2 ^ 16" by (simp add: word_less_nat_alt)
  then have "type AND mask 16 = type" by (rule less_mask_eq)
  then have "take_bit 16 type = type" by (simp only: take_bit_eq_mask)
  moreover have "(ucast (ucast type :: uint16_t) :: message_type_t) = take_bit 16 type"
    by (rule bit_word_eqI) (auto simp: bit_simps)
  ultimately show ?thesis by simp
qed

lemma unat_payload_size:
  "n \<le> NETWORK_MAX_MESSAGE_SIZE \<Longrightarrow> unat (of_nat n :: uint32_t) = n"
  by (simp add: NETWORK_MAX_MESSAGE_SIZE_def unat_of_nat)

lemma receive_built_message:
  assumes "length payload \<le> NETWORK_MAX_MESSAGE_SIZE" and "type \<le> 0xFFFF"
    and "env_recvfrom e sock = Recv_Datagram from_addr (build_message type payload seq ts)"
  shows "network_receive_message e sock w =
           (1, Some from_addr, Some type, Some payload,
            count_received (20 + length payload) w)"
proof -
  let ?dg = "build_message type payload seq ts"
  have len: "length ?dg = 20 + length payload" by simp
  have tk: "take NETWORK_BUFFER_SIZE ?dg = ?dg"
    using assms(1) by (simp add: NETWORK_BUFFER_SIZE_def NETWORK_MAX_MESSAGE_SIZE_def)
  have hd: "header_of_buffer ?dg =
     \<lparr>h_magic = NETWORK_MAGIC, h_version = NETWORK_PROTOCOL_VERSION, h_type = ucast type,
        h_size = of_nat (length payload), h_sequence = seq, h_timestamp = ts\<rparr>"
    by (simp add: build_message_def header_of_buffer_bytes)
  have pl: "take (length payload) (drop 20 ?dg) = payload"
    by (simp add: build_message_def)
  have ne: "?dg \<noteq> []" using len by (metis add_is_0 length_0_conv zero_neq_numeral)
  show ?thesis
    unfolding network_receive_message_def assms(3) recv_result.case Let_def tk
    using assms(1) ne
    by (simp add: hd pl sizeof_message_header_t_def unat_payload_size
        ucast_type_back [OF assms(2)])
qed

lemma send_message_effects:
  assumes "length data \<le> NETWORK_MAX_MESSAGE_SIZE"
    and "dgram = build_message type data (next_sequence (g_network w)) (get_timestamp e)"
  shows "effects (snd (network_send_message e sock addr type data w)) =
           effects w @ [Sendto sock addr dgram (env_sendto e sock addr dgram)]"
  using assms by (simp add: network_send_message_def Let_def sizeof_message_header_t_def)

text \<open>
  C1 (codec round-trip). For each of the fourteen message types and every payload of at
  most \<open>NETWORK_MAX_MESSAGE_SIZE\<close> bytes, \<open>_network_send_message\<close> hands to \<open>sendto\<close> the
  framed buffer \<open>dgram\<close>, and \<open>_network_receive_message\<close>, when \<open>recvfrom\<close> delivers that
  buffer, returns 1 and writes out the same type and the same payload bytes (and counts
  the datagram in the receive statistics).
\<close>

theorem codec_round_trip:
  assumes "length payload \<le> NETWORK_MAX_MESSAGE_SIZE"
    and "type \<in> set message_types"
    and "dgram = build_message type payload (next_sequence (g_network w)) (get_timestamp e)"
    and "env_recvfrom e' sock' = Recv_Datagram from_addr dgram"
  shows "effects (snd (network_send_message e sock addr type payload w)) =
           effects w @ [Sendto sock addr dgram (env_sendto e sock addr dgram)] \<and>
         network_receive_message e' sock' w' =
           (1, Some from_addr, Some type, Some payload,
            count_received (20 + length payload) w')"
proof
  show "effects (snd (network_send_message e sock addr type payload w)) =
          effects w @ [Sendto sock addr dgram (env_sendto e sock addr dgram)]"
    using assms(1,3) by (rule send_message_effects)
next
  have "type \<le> 0xFFFF" using assms(2) by (rule message_types_fit)
  with assms(1) show "network_receive_message e' sock' w' =
           (1, Some from_addr, Some type, Some payload,
            count_received (20 + length payload) w')"
    using assms(4) unfolding assms(3) by (rule receive_built_message)
qed

theorem codec_round_trip_witness:
  "length [104, 105, 0 :: byte] \<le> NETWORK_MAX_MESSAGE_SIZE \<and>
   MSG_CHAT \<in> set message_types \<and>
   [0x4C, 0x49, 0x42, 0x43, 0, 1, 0, 11, 0, 0, 0, 3, 0, 0, 0, 0, 0, 0, 0x13, 0x88, 104, 105, 0] =
     build_message MSG_CHAT [104, 105, 0] (next_sequence (g_network program_start))
       (get_timestamp quiet_env) \<and>
   effects (snd (network_send_message quiet_env 3 peer_a MSG_CHAT [104, 105, 0] program_start)) =
     [Sendto 3 peer_a
        [0x4C, 0x49, 0x42, 0x43, 0, 1, 0, 11, 0, 0, 0, 3, 0, 0, 0, 0, 0, 0, 0x13, 0x88, 104, 105, 0]
        23] \<and>
   network_receive_message
     (delivering 4 peer_b
        [0x4C, 0x49, 0x42, 0x43, 0, 1, 0, 11, 0, 0, 0, 3, 0, 0, 0, 0, 0, 0, 0x13, 0x88, 104, 105, 0])
     4 program_start =
     (1, Some peer_b, Some MSG_CHAT, Some [104, 105, 0],
      count_received 23 program_start)"
proof -
  let ?dg = "[0x4C, 0x49, 0x42, 0x43, 0, 1, 0, 11, 0, 0, 0, 3, 0, 0, 0, 0, 0, 0, 0x13, 0x88,
              104, 105, 0] :: byte list"
  have h1: "length [104, 105, 0 :: byte] \<le> NETWORK_MAX_MESSAGE_SIZE"
    by (simp add: NETWORK_MAX_MESSAGE_SIZE_def)
  have h2: "MSG_CHAT \<in> set message_types"
    by (simp add: message_types_def)
  have h3: "?dg = build_message MSG_CHAT [104, 105, 0] (next_sequence (g_network program_start))
                    (get_timestamp quiet_env)"
    by (simp add: build_message_def header_bytes_def store_be32_def store_be16_def
        program_start_def zero_context_def get_timestamp_def quiet_env_def MSG_CHAT_def
        NETWORK_MAGIC_def NETWORK_PROTOCOL_VERSION_def)
  have h4: "env_recvfrom (delivering 4 peer_b ?dg) 4 = Recv_Datagram peer_b ?dg"
    by (simp add: delivering_def)
  have "env_sendto quiet_env 3 peer_a ?dg = 23"
    by (simp add: quiet_env_def)
  moreover have "effects program_start = []"
    by (simp add: program_start_def)
  ultimately show ?thesis
    using codec_round_trip [OF h1 h2 h3 h4, of 3 peer_a program_start] h1 h2 h3
    by simp
qed

subsection \<open>Frames and the session invariant\<close>

lemma same_session_refl [simp]: "same_session w w"
  by (simp add: same_session_def)

lemma same_session_trans: "same_session a b \<Longrightarrow> same_session b c \<Longrightarrow> same_session a c"
  by (simp add: same_session_def)

lemma same_session_fields:
  assumes "same_session w w'"
  shows "players (g_network w') = players (g_network w)"
    and "player_count (g_network w') = player_count (g_network w)"
    and "discovered_games (g_network w') = discovered_games (g_network w)"
    and "discovered_game_count (g_network w') = discovered_game_count (g_network w)"
    and "is_host (g_network w') = is_host (g_network w)"
    and "state (g_network w') = state (g_network w)"
    and "server_socket (g_network w') = server_socket (g_network w)"
    and "broadcast_socket (g_network w') = broadcast_socket (g_network w)"
    and "last_discovery_time (g_network w') = last_discovery_time (g_network w)"
    and "local_player_id (g_network w') = local_player_id (g_network w)"
proof -
  have eq: "session_part (g_network w') = session_part (g_network w)"
    using assms by (simp add: same_session_def)
  show "players (g_network w') = players (g_network w)"
    using arg_cong [OF eq, of players] by (simp add: session_part_def)
  show "player_count (g_network w') = player_count (g_network w)"
    using arg_cong [OF eq, of player_count] by (simp add: session_part_def)
  show "discovered_games (g_network w') = discovered_games (g_network w)"
    using arg_cong [OF eq, of discovered_games] by (simp add: session_part_def)
  show "discovered_game_count (g_network w') = discovered_game_count (g_network w)"
    using arg_cong [OF eq, of discovered_game_count] by (simp add: session_part_def)
  show "is_host (g_network w') = is_host (g_network w)"
    using arg_cong [OF eq, of is_host] by (simp add: session_part_def)
  show "state (g_network w') = state (g_network w)"
    using arg_cong [OF eq, of state] by (simp add: session_part_def)
  show "server_socket (g_network w') = server_socket (g_network w)"
    using arg_cong [OF eq, of server_socket] by (simp add: session_part_def)
  show "broadcast_socket (g_network w') = broadcast_socket (g_network w)"
    using arg_cong [OF eq, of broadcast_socket] by (simp add: session_part_def)
  show "last_discovery_time (g_network w') = last_discovery_time (g_network w)"
    using arg_cong [OF eq, of last_discovery_time] by (simp add: session_part_def)
  show "local_player_id (g_network w') = local_player_id (g_network w)"
    using arg_cong [OF eq, of local_player_id] by (simp add: session_part_def)
qed

lemma session_inv_same: "same_session w w' \<Longrightarrow> session_inv w' = session_inv w"
  by (simp add: session_inv_def Let_def same_session_fields)

lemma send_message_same: "same_session w (snd (network_send_message e sock addr type data w))"
  by (simp add: network_send_message_def Let_def session_part_def same_session_def)

lemma send_to_all_loop_same: "same_session w (snd (send_to_all_loop e type data i c w))"
proof (induction e type data i c w rule: send_to_all_loop.induct)
  case (1 e type data i c w)
  show ?case
  proof (cases "i < player_count (g_network w)")
    case False
    then show ?thesis by (simp add: send_to_all_loop.simps [of e type data i c w])
  next
    case True
    note lt = True
    show ?thesis
    proof (cases "connected (players (g_network w) ! i)")
      case True
      from "1.IH"(1) [OF refl lt True refl] send_message_same
      have "same_session w (snd (send_to_all_loop e type data (i + 1)
          (if fst (network_send_message e (server_socket (g_network w))
                (player_addr (players (g_network w) ! i)) type data w) \<noteq> 0 then c + 1 else c)
          (snd (network_send_message e (server_socket (g_network w))
                (player_addr (players (g_network w) ! i)) type data w))))"
        by (rule same_session_trans [rotated])
      with lt True show ?thesis
        by (simp add: send_to_all_loop.simps [of e type data i c w] Let_def)
    next
      case False
      with lt "1.IH"(2) [OF refl lt False] show ?thesis
        by (simp add: send_to_all_loop.simps [of e type data i c w] Let_def)
    qed
  qed
qed

lemma send_to_all_same: "same_session w (snd (network_send_to_all e type data w))"
  by (simp add: network_send_to_all_def send_to_all_loop_same)

lemma send_to_player_same: "same_session w (snd (network_send_to_player e pid type data w))"
  by (simp add: network_send_to_player_def Let_def send_message_same split: option.split)

lemma broadcast_discovery_same: "same_session w (snd (network_broadcast_discovery e w))"
  by (simp add: network_broadcast_discovery_def send_message_same)

lemma receive_message_same:
  "same_session w (snd (snd (snd (snd (network_receive_message e sock w)))))"
  by (simp add: network_receive_message_def Let_def same_session_def session_part_def
      count_error_def count_received_def split: recv_result.split)

lemma inv_start: "session_inv program_start"
  by (simp add: session_inv_def program_start_def zero_context_def NETWORK_MAX_PLAYERS_def)

lemma inv_init: "session_inv w \<Longrightarrow> session_inv (snd (network_init e w))"
  by (simp add: network_init_def network_generate_player_id_def session_inv_def Let_def
      zero_context_def NETWORK_MAX_PLAYERS_def)

lemma inv_send_message: "session_inv w \<Longrightarrow> session_inv (snd (network_send_message e sock addr type data w))"
  by (simp add: session_inv_same [OF send_message_same])

lemma inv_send_to_all: "session_inv w \<Longrightarrow> session_inv (snd (network_send_to_all e type data w))"
  by (simp add: session_inv_same [OF send_to_all_same])

lemma inv_send_to_player: "session_inv w \<Longrightarrow> session_inv (snd (network_send_to_player e pid type data w))"
  by (simp add: session_inv_same [OF send_to_player_same])

lemma inv_broadcast_discovery: "session_inv w \<Longrightarrow> session_inv (snd (network_broadcast_discovery e w))"
  by (simp add: session_inv_same [OF broadcast_discovery_same])

lemma inv_set_sockets [simp]:
  "session_inv (set_server_socket s w) = session_inv w"
  "session_inv (set_broadcast_socket s w) = session_inv w"
  "session_inv (CLOSE_SOCKET s w) = session_inv w"
  by (simp_all add: session_inv_def set_server_socket_def set_broadcast_socket_def CLOSE_SOCKET_def)

lemma inv_host_game: "session_inv w \<Longrightarrow> session_inv (snd (network_host_game e gname p w))"
  apply (simp add: network_host_game_def Let_def split: prod.split)
  apply (auto simp: session_inv_def Let_def set_server_socket_def set_broadcast_socket_def)
  done

lemma state_set_sockets [simp]:
  "g_network (CLOSE_SOCKET s w) = g_network w"
  by (simp_all add: CLOSE_SOCKET_def)

lemma inv_join_game: "session_inv w \<Longrightarrow> session_inv (snd (network_join_game e h p pname w))"
proof -
  assume inv: "session_inv w"
  have a: "\<And>s ip d. session_inv (snd (network_send_message e s ip MSG_JOIN_REQUEST d (set_server_socket s w)))"
    using inv by (simp add: inv_send_message)
  have off: "state (g_network w) = NETWORK_STATE_DISCONNECTED \<Longrightarrow> player_count (g_network w) = 0"
    using inv by (auto simp: session_inv_def Let_def)
  have b: "\<And>w'. session_inv w' \<Longrightarrow> player_count (g_network w') = 0 \<Longrightarrow>
     session_inv (w'\<lparr>g_network := (g_network w')\<lparr>is_host := False, state := NETWORK_STATE_CONNECTING\<rparr>\<rparr>)"
    by (simp add: session_inv_def Let_def)
  have c: "\<And>s ip d. player_count (g_network (snd (network_send_message e s ip MSG_JOIN_REQUEST d (set_server_socket s w))))
      = player_count (g_network w)"
    by (simp add: same_session_fields [OF send_message_same] set_server_socket_def)
  show ?thesis
    using inv off
    by (simp add: network_join_game_def Let_def case_prod_beta a b c split: option.split)
qed

lemma inv_disconnect: "session_inv w \<Longrightarrow> session_inv (network_disconnect e w)"
  by (simp add: network_disconnect_def Let_def session_inv_def NETWORK_MAX_PLAYERS_def
      set_server_socket_def set_broadcast_socket_def
      same_session_fields [OF send_to_all_same])

lemma inv_shutdown: "session_inv w \<Longrightarrow> session_inv (network_shutdown e w)"
  using inv_disconnect [of w e] by (simp add: network_shutdown_def session_inv_def)

lemma inv_start_discovery: "session_inv w \<Longrightarrow> session_inv (snd (network_start_discovery e w))"
proof -
  assume inv: "session_inv w"
  have "\<And>s t. session_inv (set_broadcast_socket s w\<lparr>g_network := g_network (set_broadcast_socket s w)
            \<lparr>discovered_game_count := 0, last_discovery_time := t\<rparr>\<rparr>)"
    using inv by (simp add: session_inv_def Let_def set_broadcast_socket_def)
  then show ?thesis using inv
    by (simp add: network_start_discovery_def Let_def inv_broadcast_discovery split: prod.split)
qed

lemma inv_stop_discovery: "session_inv w \<Longrightarrow> session_inv (network_stop_discovery w)"
  by (simp add: network_stop_discovery_def)

lemma inv_set_callbacks: "session_inv w \<Longrightarrow> session_inv (network_set_callbacks c w)"
  by (simp add: network_set_callbacks_def session_inv_def split: option.split)

lemma length_compact_players [simp]: "length (compact_players ps n j) = length ps"
proof (induction ps n j rule: compact_players.induct)
  case (1 ps n j)
  then show ?case by (simp add: compact_players.simps [of ps n j])
qed

lemma fire_same: "same_session w (fire ev w)"
  by (simp add: fire_def same_session_def)

lemma inv_fire [simp]: "session_inv (fire ev w) = session_inv w"
  by (simp add: session_inv_same [OF fire_same])

lemma inv_handle_discovery_request:
  "session_inv w \<Longrightarrow> session_inv (handle_discovery_request e from_addr w)"
  by (simp add: handle_discovery_request_def Let_def inv_send_message)

lemma find_game_by_id_Some:
  "find_game_by_id gs n gid i0 = Some i \<Longrightarrow>
     i0 \<le> i \<and> i < n \<and> game_id (gs ! i) = gid \<and> (\<forall>k. i0 \<le> k \<and> k < i \<longrightarrow> game_id (gs ! k) \<noteq> gid)"
proof (induction gs n gid i0 rule: find_game_by_id.induct)
  case (1 gs n gid i0)
  show ?case
  proof (cases "i0 < n")
    case False
    with "1.prems" show ?thesis by (simp add: find_game_by_id.simps [of gs n gid i0])
  next
    case True
    note lt = True
    show ?thesis
    proof (cases "game_id (gs ! i0) = gid")
      case True
      with lt "1.prems" show ?thesis by (auto simp: find_game_by_id.simps [of gs n gid i0])
    next
      case False
      with lt "1.prems" have "find_game_by_id gs n gid (i0 + 1) = Some i"
        by (simp add: find_game_by_id.simps [of gs n gid i0])
      from "1.IH" [OF lt False this] False show ?thesis
        by (metis Suc_eq_plus1 Suc_leD le_antisym not_less_eq_eq)
    qed
  qed
qed

lemma find_game_by_id_None:
  "find_game_by_id gs n gid i0 = None \<Longrightarrow> \<forall>k. i0 \<le> k \<and> k < n \<longrightarrow> game_id (gs ! k) \<noteq> gid"
proof (induction gs n gid i0 rule: find_game_by_id.induct)
  case (1 gs n gid i0)
  show ?case
  proof (cases "i0 < n")
    case False
    then show ?thesis by auto
  next
    case True
    with "1.prems" have ne: "game_id (gs ! i0) \<noteq> gid"
      by (auto simp: find_game_by_id.simps [of gs n gid i0] split: if_splits)
    with True "1.prems" have "find_game_by_id gs n gid (i0 + 1) = None"
      by (simp add: find_game_by_id.simps [of gs n gid i0])
    from "1.IH" [OF True ne this] ne show ?thesis
      by (metis Suc_eq_plus1 le_antisym not_less_eq_eq)
  qed
qed

lemma distinct_ids_overwrite:
  assumes "distinct (map game_id (take n gs))" and "i < n" and "n \<le> length gs"
    and "game_id gi = game_id (gs ! i)"
  shows "distinct (map game_id (take n (gs[i := gi])))"
proof -
  have "map game_id (take n (gs[i := gi])) = (map game_id (take n gs))[i := game_id (gs ! i)]"
    using assms(4) by (simp add: take_update_swap map_update)
  also have "\<dots> = map game_id (take n gs)"
    using assms(2,3) by (metis length_map length_take list_update_id min.absorb2 nth_map nth_take)
  finally show ?thesis using assms(1) by simp
qed

lemma distinct_ids_append:
  assumes "distinct (map game_id (take n gs))" and "n < length gs"
    and "\<forall>k. k < n \<longrightarrow> game_id (gs ! k) \<noteq> game_id gi"
  shows "distinct (map game_id (take (Suc n) (gs[n := gi])))"
proof -
  have "take (Suc n) (gs[n := gi]) = take n gs @ [gi]"
    using assms(2) by (simp add: take_Suc_conv_app_nth)
  moreover have "game_id gi \<notin> set (map game_id (take n gs))"
  proof
    assume "game_id gi \<in> set (map game_id (take n gs))"
    then obtain k where "k < length (take n gs)" "game_id (take n gs ! k) = game_id gi"
      by (auto simp: in_set_conv_nth)
    with assms(2,3) show False by simp
  qed
  ultimately show ?thesis using assms(1) by simp
qed

lemma inv_handle_discovery_response:
  assumes "session_inv w"
  shows "session_inv (handle_discovery_response e data w)"
proof (cases "length data = sizeof_game_info_t \<and> discovered_game_count (g_network w) < 16")
  case False
  with assms show ?thesis by (auto simp: handle_discovery_response_def Let_def)
next
  case True
  let ?g = "g_network w"
  let ?gi = "(game_info_of_bytes data)\<lparr>last_seen := get_timestamp e\<rparr>"
  from assms have len: "length (discovered_games ?g) = 16"
    and dist: "distinct (map game_id (take (discovered_game_count ?g) (discovered_games ?g)))"
    by (simp_all add: session_inv_def)
  show ?thesis
  proof (cases "find_game_by_id (discovered_games ?g) (discovered_game_count ?g) (game_id ?gi) 0")
    case None
    from find_game_by_id_None [OF None]
    have "\<forall>k. k < discovered_game_count ?g \<longrightarrow> game_id (discovered_games ?g ! k) \<noteq> game_id ?gi"
      by simp
    with dist True len
    have "distinct (map game_id (take (Suc (discovered_game_count ?g))
             ((discovered_games ?g)[discovered_game_count ?g := ?gi])))"
      by (intro distinct_ids_append) simp_all
    with assms True None show ?thesis
      by (simp add: handle_discovery_response_def Let_def session_inv_def)
  next
    case (Some i)
    from find_game_by_id_Some [OF Some]
    have i: "i < discovered_game_count ?g" "game_id (discovered_games ?g ! i) = game_id ?gi"
      by simp_all
    with dist True len
    have "distinct (map game_id (take (discovered_game_count ?g) ((discovered_games ?g)[i := ?gi])))"
      by (intro distinct_ids_overwrite) simp_all
    with assms True Some show ?thesis
      by (simp add: handle_discovery_response_def Let_def session_inv_def)
  qed
qed

lemma inv_handle_join_request:
  assumes "session_inv w"
  shows "session_inv (handle_join_request e from_addr data rest w)"
proof (cases "is_host (g_network w) \<and> player_count (g_network w) < NETWORK_MAX_PLAYERS")
  case False
  with assms show ?thesis by (auto simp: handle_join_request_def Let_def)
next
  case True
  have "\<And>pl. session_inv ((snd (network_generate_player_id e w))\<lparr>g_network := (g_network w)
          \<lparr>players := (players (g_network w))[player_count (g_network w) := pl],
           player_count := player_count (g_network w) + 1\<rparr>\<rparr>)"
    using assms True by (simp add: session_inv_def network_generate_player_id_def)
  then show ?thesis
    using True
    by (simp add: handle_join_request_def Let_def case_prod_beta inv_send_message)
qed

lemma inv_handle_join_response:
  "session_inv w \<Longrightarrow> session_inv (handle_join_response data w)"
  by (auto simp: handle_join_response_def Let_def session_inv_def)

lemma inv_handle_player_disconnect:
  "session_inv w \<Longrightarrow> session_inv (handle_player_disconnect from_addr w)"
  by (auto simp: handle_player_disconnect_def Let_def session_inv_def fire_def split: option.split)

lemma inv_handle_message:
  "session_inv w \<Longrightarrow> session_inv (network_handle_message e from_addr type data rest w)"
  by (simp add: network_handle_message_def inv_handle_discovery_request
      inv_handle_discovery_response inv_handle_join_request inv_handle_join_response
      inv_handle_player_disconnect handle_game_data_def handle_chat_def)

lemma inv_receive_message:
  "session_inv w \<Longrightarrow> session_inv (snd (snd (snd (snd (network_receive_message e sock w)))))"
  by (simp add: session_inv_same [OF receive_message_same])

lemma inv_poll_socket: "session_inv w \<Longrightarrow> session_inv (snd (poll_socket e sock md w))"
proof -
  assume inv: "session_inv w"
  obtain r f t d w1 where rc: "network_receive_message e sock w = (r, f, t, d, w1)"
    by (metis prod_cases5)
  have "session_inv w1" using inv_receive_message [OF inv, of e sock] by (simp add: rc)
  then show ?thesis using inv
    by (simp add: poll_socket_def Let_def rc inv_handle_message split: option.split)
qed

lemma inv_periodic_discovery: "session_inv w \<Longrightarrow> session_inv (periodic_discovery e w)"
proof -
  assume inv: "session_inv w"
  have "\<And>w' t. session_inv w' \<Longrightarrow> session_inv (w'\<lparr>g_network := (g_network w')\<lparr>last_discovery_time := t\<rparr>\<rparr>)"
    by (simp add: session_inv_def)
  with inv show ?thesis
    by (simp add: periodic_discovery_def Let_def inv_broadcast_discovery)
qed

lemma inv_update: "session_inv w \<Longrightarrow> session_inv (network_update e w)"
  by (simp add: network_update_def Let_def case_prod_beta inv_poll_socket inv_periodic_discovery)

lemma reachable_inv: "reachable w \<Longrightarrow> session_inv w"
proof (induction rule: reachable.induct)
  case r_start
  show ?case by (rule inv_start)
next
  case (r_send_chat w e message)
  then show ?case
    by (simp add: network_send_chat_def inv_send_to_all split: option.split)
qed (simp_all add: inv_init inv_shutdown inv_update inv_host_game inv_join_game inv_disconnect
      inv_start_discovery inv_stop_discovery inv_broadcast_discovery inv_send_to_player
      inv_send_to_all network_send_game_state_def network_send_turn_data_def inv_set_callbacks)

subsection \<open>One tick with one datagram\<close>

lemma same_session_wiring: "same_session w w' \<Longrightarrow> wiring w' = wiring w"
  by (simp add: wiring_def same_session_fields) (simp add: same_session_def)

lemma handle_message_wiring:
  "wiring (network_handle_message e from_addr type data rest w) = wiring w"
proof -
  have 1: "wiring (handle_discovery_request e from_addr w) = wiring w"
    by (simp add: handle_discovery_request_def Let_def same_session_wiring [OF send_message_same])
  have 2: "wiring (handle_discovery_response e data w) = wiring w"
    by (simp add: handle_discovery_response_def Let_def wiring_def split: option.split)
  have 3: "wiring (handle_join_request e from_addr data rest w) = wiring w"
  proof -
    have a: "\<And>w' ev. wiring (fire ev w') = wiring w'"
      by (simp add: same_session_wiring [OF fire_same])
    have b: "\<And>w' s a t d. wiring (snd (network_send_message e s a t d w')) = wiring w'"
      by (simp add: same_session_wiring [OF send_message_same])
    show ?thesis
      by (simp add: handle_join_request_def Let_def case_prod_beta a b)
         (simp add: wiring_def network_generate_player_id_def)
  qed
  have 4: "wiring (handle_join_response data w) = wiring w"
    by (simp add: handle_join_response_def Let_def wiring_def)
  have 5: "wiring (handle_game_data from_addr data w) = wiring w"
    by (simp add: handle_game_data_def same_session_wiring [OF fire_same])
  have 6: "wiring (handle_chat from_addr data rest w) = wiring w"
    by (simp add: handle_chat_def same_session_wiring [OF fire_same])
  have 7: "wiring (handle_player_disconnect from_addr w) = wiring w"
    by (simp add: handle_player_disconnect_def Let_def wiring_def fire_def split: option.split)
  show ?thesis
    by (simp add: network_handle_message_def 1 2 3 4 5 6 7)
qed

lemma poll_socket_quiet:
  "env_recvfrom e sock = Recv_Fail SOCKET_WOULD_BLOCK \<Longrightarrow> poll_socket e sock md w = (md, w)"
  by (simp add: poll_socket_def network_receive_message_def)

lemma poll_socket_delivering:
  assumes "sock \<noteq> INVALID_SOCKET_VALUE" and "length data \<le> NETWORK_MAX_MESSAGE_SIZE" and "type \<le> 0xFFFF"
    and "env_recvfrom e sock = Recv_Datagram from_addr (build_message type data seq ts)"
  shows "poll_socket e sock md w =
         (message_data_after e type data (drop (length data) md)
            (count_received (20 + length data) w),
          network_handle_message e from_addr type data (drop (length data) md)
            (count_received (20 + length data) w))"
  using assms(1) by (simp add: poll_socket_def Let_def receive_built_message [OF assms(2,3,4)])

lemma update_on_session_socket:
  assumes "network_initialized w" and "state (g_network w) \<noteq> NETWORK_STATE_DISCONNECTED"
    and "server_socket (g_network w) = sock" and "sock \<noteq> INVALID_SOCKET_VALUE"
    and "env_recvfrom e sock = Recv_Datagram from_addr (build_message type data seq ts)"
    and "env_recvfrom e (broadcast_socket (g_network w)) = Recv_Fail SOCKET_WOULD_BLOCK"
    and "length data \<le> NETWORK_MAX_MESSAGE_SIZE" and "type \<le> 0xFFFF"
  shows "network_update e w =
         periodic_discovery e
           (network_handle_message e from_addr type data (drop (length data) (env_message_data e))
              (count_received (20 + length data) w))"
proof -
  let ?v = "count_received (20 + length data) w"
  let ?u = "network_handle_message e from_addr type data (drop (length data) (env_message_data e)) ?v"
  let ?md = "message_data_after e type data (drop (length data) (env_message_data e)) ?v"
  have p1: "poll_socket e sock (env_message_data e) w = (?md, ?u)"
    using assms(4,7,8,5) by (rule poll_socket_delivering)
  have "wiring ?u = wiring ?v" by (rule handle_message_wiring)
  moreover have "wiring ?v = wiring w" by (simp add: wiring_def count_received_def)
  ultimately have "broadcast_socket (g_network ?u) = broadcast_socket (g_network w)"
    by (simp add: wiring_def)
  with assms(6) have "env_recvfrom e (broadcast_socket (g_network ?u)) = Recv_Fail SOCKET_WOULD_BLOCK"
    by simp
  then have p2: "poll_socket e (broadcast_socket (g_network ?u)) ?md ?u = (?md, ?u)"
    by (rule poll_socket_quiet)
  show ?thesis
    using assms(1,2,3) by (simp add: network_update_def Let_def p1 p2)
qed

lemma update_on_discovery_socket:
  assumes "network_initialized w" and "state (g_network w) \<noteq> NETWORK_STATE_DISCONNECTED"
    and "broadcast_socket (g_network w) = sock" and "sock \<noteq> INVALID_SOCKET_VALUE"
    and "env_recvfrom e sock = Recv_Datagram from_addr (build_message type data seq ts)"
    and "env_recvfrom e (server_socket (g_network w)) = Recv_Fail SOCKET_WOULD_BLOCK"
    and "length data \<le> NETWORK_MAX_MESSAGE_SIZE" and "type \<le> 0xFFFF"
  shows "network_update e w =
         periodic_discovery e
           (network_handle_message e from_addr type data (drop (length data) (env_message_data e))
              (count_received (20 + length data) w))"
proof -
  have p1: "poll_socket e (server_socket (g_network w)) (env_message_data e) w =
      (env_message_data e, w)"
    using assms(6) by (rule poll_socket_quiet)
  have p2: "poll_socket e sock (env_message_data e) w =
      (message_data_after e type data (drop (length data) (env_message_data e))
         (count_received (20 + length data) w),
       network_handle_message e from_addr type data (drop (length data) (env_message_data e))
         (count_received (20 + length data) w))"
    using assms(4,7,8,5) by (rule poll_socket_delivering)
  show ?thesis
    using assms(1,2,3) by (simp add: network_update_def Let_def p1 p2)
qed

lemma update_quiet:
  assumes "network_initialized w" and "state (g_network w) \<noteq> NETWORK_STATE_DISCONNECTED"
    and "env_recvfrom e (server_socket (g_network w)) = Recv_Fail SOCKET_WOULD_BLOCK"
    and "env_recvfrom e (broadcast_socket (g_network w)) = Recv_Fail SOCKET_WOULD_BLOCK"
  shows "network_update e w = periodic_discovery e w"
  using assms(1,2)
  by (simp add: network_update_def Let_def poll_socket_quiet [OF assms(3)]
      poll_socket_quiet [OF assms(4)])


lemma hosting_world_facts:
  "network_initialized hosting_world"
  "state (g_network hosting_world) = NETWORK_STATE_HOSTING"
  "is_host (g_network hosting_world)"
  "server_socket (g_network hosting_world) = 3"
  "broadcast_socket (g_network hosting_world) = 4"
  "player_count (g_network hosting_world) = 0"
  "counter hosting_world = 2"
  "effects hosting_world = []"
  "g_network_callbacks hosting_world = all_callbacks"
  by (simp_all add: hosting_world_def network_host_game_def network_init_def Let_def
      network_set_callbacks_def
      network_generate_player_id_def program_start_def network_create_socket_def
      network_set_nonblocking_def network_bind_socket_def quiet_env_def INVALID_SOCKET_VALUE_def
      set_server_socket_def set_broadcast_socket_def zero_context_def)

lemma reachable_hosting_world: "reachable hosting_world"
  unfolding hosting_world_def by (intro reachable.intros)

lemma reachable_joined: "reachable (joined as)"
  by (induction as) (simp_all add: joined.simps reachable_hosting_world reachable.intros)

subsection \<open>Join requests\<close>

lemma generate_player_id_simps [simp]:
  "fst (network_generate_player_id e w) = (get_timestamp e AND 0xFFFFFF00) OR (counter w AND 0xFF)"
  "snd (network_generate_player_id e w) = w\<lparr>counter := counter w + 1\<rparr>"
  by (simp_all add: network_generate_player_id_def)

lemma fill_player_slot_fields [simp]:
  "player_id (fill_player_slot e from_addr data rest count pid slot) = pid"
  "ip_address (fill_player_slot e from_addr data rest count pid slot) = sin_addr from_addr"
  "port (fill_player_slot e from_addr data rest count pid slot) = sin_port from_addr"
  "connected (fill_player_slot e from_addr data rest count pid slot)"
  by (simp_all add: fill_player_slot_def)

lemma handle_join_request_admits:
  assumes "is_host (g_network w)" and "player_count (g_network w) < NETWORK_MAX_PLAYERS"
    and "length (players (g_network w)) = NETWORK_MAX_PLAYERS"
    and "w' = handle_join_request e from_addr data rest w"
    and "n = player_count (g_network w)"
    and "pid = fst (network_generate_player_id e w)"
  shows "player_count (g_network w') = n + 1"
    and "take n (players (g_network w')) = take n (players (g_network w))"
    and "length (players (g_network w')) = NETWORK_MAX_PLAYERS"
    and "player_id (players (g_network w') ! n) = pid"
    and "ip_address (players (g_network w') ! n) = sin_addr from_addr"
    and "port (players (g_network w') ! n) = sin_port from_addr"
    and "connected (players (g_network w') ! n)"
    and "counter w' = counter w + 1"
    and "state (g_network w') = state (g_network w)"
proof -
  let ?player = "fill_player_slot e from_addr data rest n pid (players (g_network w) ! n)"
  let ?w2 = "w\<lparr>counter := counter w + 1,
               g_network := (g_network w)\<lparr>players := (players (g_network w))[n := ?player],
                        player_count := n + 1\<rparr>\<rparr>"
  let ?w3 = "snd (network_send_message e (server_socket (g_network w)) from_addr
                         MSG_JOIN_RESPONSE (store_le32 pid) ?w2)"
  have w': "w' = (if on_player_joined (g_network_callbacks ?w3)
            then fire (Player_joined pid (c_str (name ?player))) ?w3 else ?w3)"
    using assms(1,2) unfolding assms(4) handle_join_request_def Let_def case_prod_beta
    by (simp add: assms(5,6))
  have s3: "same_session ?w2 ?w3" by (rule send_message_same)
  have s: "same_session ?w2 w'"
    unfolding w' using s3 fire_same same_session_trans by (cases "on_player_joined (g_network_callbacks ?w3)") auto
  note f = same_session_fields [OF s]
  have lt: "n < length (players (g_network w))" using assms(2,3,5) by simp
  show "player_count (g_network w') = n + 1" by (simp add: f)
  show "take n (players (g_network w')) = take n (players (g_network w))" by (simp add: f)
  show "length (players (g_network w')) = NETWORK_MAX_PLAYERS" by (simp add: f assms(3))
  show "player_id (players (g_network w') ! n) = pid" using lt by (simp add: f)
  show "ip_address (players (g_network w') ! n) = sin_addr from_addr" using lt by (simp add: f)
  show "port (players (g_network w') ! n) = sin_port from_addr" using lt by (simp add: f)
  show "connected (players (g_network w') ! n)" using lt by (simp add: f)
  show "counter w' = counter w + 1" using s by (simp add: same_session_def)
  show "state (g_network w') = state (g_network w)" by (simp add: f)
qed

lemmas msg_defs = MSG_DISCOVERY_REQUEST_def MSG_DISCOVERY_RESPONSE_def
      MSG_JOIN_REQUEST_def MSG_JOIN_RESPONSE_def MSG_PLAYER_LIST_def MSG_GAME_START_def
      MSG_GAME_DATA_def MSG_PLAYER_DISCONNECT_def MSG_PING_def MSG_PONG_def MSG_CHAT_def
      MSG_GAME_STATE_SYNC_def MSG_TURN_DATA_def MSG_ERROR_def

lemma handle_message_cases:
  "network_handle_message e a MSG_DISCOVERY_REQUEST d r w = handle_discovery_request e a w"
  "network_handle_message e a MSG_DISCOVERY_RESPONSE d r w = handle_discovery_response e d w"
  "network_handle_message e a MSG_JOIN_REQUEST d r w = handle_join_request e a d r w"
  "network_handle_message e a MSG_JOIN_RESPONSE d r w = handle_join_response d w"
  "network_handle_message e a MSG_GAME_DATA d r w = handle_game_data a d w"
  "network_handle_message e a MSG_CHAT d r w = handle_chat a d r w"
  "network_handle_message e a MSG_PLAYER_DISCONNECT d r w = handle_player_disconnect a w"
  by (simp_all add: network_handle_message_def msg_defs)

lemma count_received_same: "same_session w (count_received n w)"
  by (simp add: count_received_def same_session_def session_part_def)

lemma count_received_fields [simp]:
  "effects (count_received n w) = effects w"
  "counter (count_received n w) = counter w"
  "network_initialized (count_received n w) = network_initialized w"
  "g_network_callbacks (count_received n w) = g_network_callbacks w"
  "players (g_network (count_received n w)) = players (g_network w)"
  "player_count (g_network (count_received n w)) = player_count (g_network w)"
  "discovered_games (g_network (count_received n w)) = discovered_games (g_network w)"
  "discovered_game_count (g_network (count_received n w)) = discovered_game_count (g_network w)"
  "is_host (g_network (count_received n w)) = is_host (g_network w)"
  "state (g_network (count_received n w)) = state (g_network w)"
  "server_socket (g_network (count_received n w)) = server_socket (g_network w)"
  "broadcast_socket (g_network (count_received n w)) = broadcast_socket (g_network w)"
  "last_discovery_time (g_network (count_received n w)) = last_discovery_time (g_network w)"
  "local_player_id (g_network (count_received n w)) = local_player_id (g_network w)"
  "next_sequence (g_network (count_received n w)) = next_sequence (g_network w)"
  "bytes_sent (g_network (count_received n w)) = bytes_sent (g_network w)"
  "messages_sent (g_network (count_received n w)) = messages_sent (g_network w)"
  "errors (g_network (count_received n w)) = errors (g_network w)"
  by (simp_all add: count_received_def)

lemma periodic_discovery_host: "is_host (g_network w) \<Longrightarrow> periodic_discovery e w = w"
  by (simp add: periodic_discovery_def)

lemma wiring_is_host: "wiring w' = wiring w \<Longrightarrow> is_host (g_network w') = is_host (g_network w)"
  by (simp add: wiring_def)

lemma update_join_request:
  assumes "network_initialized w" and "is_host (g_network w)"
    and "state (g_network w) = NETWORK_STATE_HOSTING"
    and "server_socket (g_network w) = sock" and "sock \<noteq> INVALID_SOCKET_VALUE"
    and "env_recvfrom e sock = Recv_Datagram from_addr (build_message MSG_JOIN_REQUEST data seq ts)"
    and "env_recvfrom e (broadcast_socket (g_network w)) = Recv_Fail SOCKET_WOULD_BLOCK"
    and "length data \<le> NETWORK_MAX_MESSAGE_SIZE"
  shows "network_update e w =
         handle_join_request e from_addr data (drop (length data) (env_message_data e))
           (count_received (20 + length data) w)"
proof -
  let ?v = "count_received (20 + length data) w"
  let ?rest = "drop (length data) (env_message_data e)"
  have t: "MSG_JOIN_REQUEST \<le> 0xFFFF" by (simp add: MSG_JOIN_REQUEST_def)
  have st: "state (g_network w) \<noteq> NETWORK_STATE_DISCONNECTED" using assms(3) by simp
  have u: "network_update e w = periodic_discovery e (handle_join_request e from_addr data ?rest ?v)"
    using update_on_session_socket [OF assms(1) st assms(4,5,6,7,8) t]
    by (simp add: handle_message_cases)
  have "wiring (handle_join_request e from_addr data ?rest ?v) = wiring ?v"
    using handle_message_wiring [of e from_addr MSG_JOIN_REQUEST data ?rest ?v]
    by (simp add: handle_message_cases)
  moreover have "wiring ?v = wiring w" by (rule same_session_wiring [OF count_received_same])
  ultimately have "is_host (g_network (handle_join_request e from_addr data ?rest ?v))"
    using assms(2) by (simp add: wiring_def)
  then show ?thesis unfolding u by (rule periodic_discovery_host)
qed

lemma joined_facts:
  "length as \<le> 8 \<Longrightarrow>
     network_initialized (joined as) \<and> is_host (g_network (joined as)) \<and>
     state (g_network (joined as)) = NETWORK_STATE_HOSTING \<and>
     server_socket (g_network (joined as)) = 3 \<and> broadcast_socket (g_network (joined as)) = 4 \<and>
     player_count (g_network (joined as)) = length as \<and>
     counter (joined as) = 2 + of_nat (length as) \<and>
     g_network_callbacks (joined as) = all_callbacks \<and>
     (\<forall>k<length as.
         ip_address (players (g_network (joined as)) ! k) = sin_addr (rev as ! k) \<and>
         port (players (g_network (joined as)) ! k) = sin_port (rev as ! k) \<and>
         player_id (players (g_network (joined as)) ! k) = 0x1300 OR ((2 + of_nat k) AND 0xFF))"
proof (induction as)
  case Nil
  show ?case by (simp add: joined.simps hosting_world_facts)
next
  case (Cons a as)
  define n where "n = length as"
  let ?w = "joined as"
  let ?data = "literal ''Nova'' @ [0]"
  let ?e = "join_request_from a"
  let ?rest = "drop (length ?data) (env_message_data ?e)"
  let ?v = "count_received (20 + length ?data) ?w"
  let ?r = "joined (a # as)"
  from Cons have f: "network_initialized ?w" "is_host (g_network ?w)"
     "state (g_network ?w) = NETWORK_STATE_HOSTING"
     "server_socket (g_network ?w) = 3" "broadcast_socket (g_network ?w) = 4"
     "player_count (g_network ?w) = n" "counter ?w = 2 + of_nat n"
     "g_network_callbacks ?w = all_callbacks"
     and old: "\<forall>k<n. ip_address (players (g_network ?w) ! k) = sin_addr (rev as ! k) \<and>
             port (players (g_network ?w) ! k) = sin_port (rev as ! k) \<and>
             player_id (players (g_network ?w) ! k) = 0x1300 OR ((2 + of_nat k) AND 0xFF)"
    by (simp_all add: n_def)
  have u: "?r = handle_join_request ?e a ?data ?rest ?v"
    using update_join_request [OF f(1,2,3,4), of ?e a ?data 1 5000]
    by (simp add: joined.simps f INVALID_SOCKET_VALUE_def NETWORK_MAX_MESSAGE_SIZE_def
        join_request_from_def delivering_def literal_def)
  have s0: "same_session ?w ?v" by (rule count_received_same)
  have len: "length (players (g_network ?v)) = NETWORK_MAX_PLAYERS"
    using reachable_inv [OF reachable_joined [of as]] by (simp add: session_inv_def)
  have h: "is_host (g_network ?v)" by (simp add: f)
  have c: "player_count (g_network ?v) < NETWORK_MAX_PLAYERS"
    using Cons.prems by (simp add: f n_def NETWORK_MAX_PLAYERS_def)
  note a = handle_join_request_admits [OF h c len u refl refl]
  have wi: "wiring ?r = wiring ?w"
    unfolding u using handle_message_wiring [of ?e a MSG_JOIN_REQUEST ?data ?rest ?v]
      same_session_wiring [OF s0] by (simp add: handle_message_cases)
  have cnt: "counter ?v = counter ?w" by simp
  have ts: "get_timestamp ?e AND 0xFFFFFF00 = 0x1300"
    by (simp add: get_timestamp_def join_request_from_def delivering_def quiet_env_def)
  have addr: "\<forall>k<Suc n. ip_address (players (g_network ?r) ! k) = sin_addr (rev (a # as) ! k) \<and>
             port (players (g_network ?r) ! k) = sin_port (rev (a # as) ! k) \<and>
             player_id (players (g_network ?r) ! k) = 0x1300 OR ((2 + of_nat k) AND 0xFF)"
  proof (intro allI impI)
    fix k assume k: "k < Suc n"
    show "ip_address (players (g_network ?r) ! k) = sin_addr (rev (a # as) ! k) \<and>
             port (players (g_network ?r) ! k) = sin_port (rev (a # as) ! k) \<and>
             player_id (players (g_network ?r) ! k) = 0x1300 OR ((2 + of_nat k) AND 0xFF)"
    proof (cases "k = n")
      case True
      then have "rev (a # as) ! k = a" by (simp add: n_def nth_append)
      with True a(4,5,6) show ?thesis by (simp add: f ts)
    next
      case False
      with k have kn: "k < n" by simp
      then have rv: "rev (a # as) ! k = rev as ! k" by (simp add: n_def nth_append)
      have "players (g_network ?r) ! k = take n (players (g_network ?r)) ! k"
        using kn by simp
      also have "\<dots> = take n (players (g_network ?v)) ! k" using a(2) by (simp add: f)
      also have "\<dots> = players (g_network ?w) ! k" using kn by simp
      finally show ?thesis using old kn rv by simp
    qed
  qed
  from wi f have "network_initialized ?r" "is_host (g_network ?r)"
     "server_socket (g_network ?r) = 3" "broadcast_socket (g_network ?r) = 4"
     "g_network_callbacks ?r = all_callbacks"
    by (simp_all add: wiring_def)
  moreover have "state (g_network ?r) = NETWORK_STATE_HOSTING"
    using a(9) by (simp add: f)
  moreover have "player_count (g_network ?r) = Suc n"
    using a(1) by (simp add: f)
  moreover have "counter ?r = 2 + of_nat (Suc n)"
    using a(8) by (simp add: cnt f)
  ultimately show ?case using addr by (simp add: n_def)
qed

lemma full_roster_facts:
  "reachable full_roster" "player_count (g_network full_roster) = 8"
  using joined_facts [of "[peer_a, peer_a, peer_a, peer_a, peer_a, peer_a, peer_a, peer_a]"]
  by (simp_all add: full_roster_def reachable_joined)

lemma twice_a_facts:
  "reachable twice_a" "is_host (g_network twice_a)" "player_count (g_network twice_a) = 2"
  "counter twice_a = 4"
  "ip_address (players (g_network twice_a) ! 0) = sin_addr peer_a"
  "port (players (g_network twice_a) ! 0) = sin_port peer_a"
  "player_id (players (g_network twice_a) ! 0) = 0x1302"
  "ip_address (players (g_network twice_a) ! 1) = sin_addr peer_a"
  "port (players (g_network twice_a) ! 1) = sin_port peer_a"
  "player_id (players (g_network twice_a) ! 1) = 0x1303"
  using joined_facts [of "[peer_a, peer_a]"]
  by (simp_all add: twice_a_def reachable_joined)

lemma three_peers_facts:
  "reachable three_peers" "player_count (g_network three_peers) = 3"
  "g_network_callbacks three_peers = all_callbacks"
  "ip_address (players (g_network three_peers) ! 0) = sin_addr peer_a"
  "port (players (g_network three_peers) ! 0) = sin_port peer_a"
  "player_id (players (g_network three_peers) ! 0) = 0x1302"
  "ip_address (players (g_network three_peers) ! 1) = sin_addr peer_b"
  "port (players (g_network three_peers) ! 1) = sin_port peer_b"
  "player_id (players (g_network three_peers) ! 1) = 0x1303"
  "ip_address (players (g_network three_peers) ! 2) = sin_addr peer_c"
  "port (players (g_network three_peers) ! 2) = sin_port peer_c"
  "player_id (players (g_network three_peers) ! 2) = 0x1304"
  using joined_facts [of "[peer_c, peer_b, peer_a]"]
  by (simp_all add: three_peers_def reachable_joined)

lemma length_store_le32 [simp]: "length (store_le32 v) = 4"
  by (simp add: store_le32_def)

lemma handle_join_request_effects:
  assumes "is_host (g_network w)" and "player_count (g_network w) < NETWORK_MAX_PLAYERS"
    and "length (players (g_network w)) = NETWORK_MAX_PLAYERS"
    and "w' = handle_join_request e from_addr data rest w"
    and "n = player_count (g_network w)"
    and "pid = fst (network_generate_player_id e w)"
    and "dgram = build_message MSG_JOIN_RESPONSE (store_le32 pid) (next_sequence (g_network w))
                   (get_timestamp e)"
  shows "effects w' =
           effects w @
           [Sendto (server_socket (g_network w)) from_addr dgram
              (env_sendto e (server_socket (g_network w)) from_addr dgram)] @
           (if on_player_joined (g_network_callbacks w)
            then [Player_joined pid (c_str (name (players (g_network w') ! n)))] else [])"
proof -
  define player where "player = fill_player_slot e from_addr data rest n pid (players (g_network w) ! n)"
  define a where "a = w\<lparr>counter := counter w + 1,
               g_network := (g_network w)\<lparr>players := (players (g_network w))[n := player],
                        player_count := n + 1\<rparr>\<rparr>"
  define b where "b = snd (network_send_message e (server_socket (g_network w)) from_addr
                         MSG_JOIN_RESPONSE (store_le32 pid) a)"
  have w': "w' = (if on_player_joined (g_network_callbacks b)
            then fire (Player_joined pid (c_str (name player))) b else b)"
    using assms(1,2) unfolding assms(4) handle_join_request_def Let_def case_prod_beta
    by (simp add: assms(5,6) b_def a_def player_def)
  have sb: "same_session a b" unfolding b_def by (rule send_message_same)
  have s: "same_session a w'"
    unfolding w' using sb fire_same same_session_trans
    by (cases "on_player_joined (g_network_callbacks b)") auto
  have lt: "n < length (players (g_network w))" using assms(2,3,5) by simp
  have pl: "players (g_network w') ! n = player"
    using lt by (simp add: same_session_fields [OF s] a_def)
  have cb: "g_network_callbacks b = g_network_callbacks w"
    using sb by (simp add: same_session_def a_def)
  have "effects b = effects a @ [Sendto (server_socket (g_network w)) from_addr dgram
              (env_sendto e (server_socket (g_network w)) from_addr dgram)]"
    unfolding b_def
    by (rule send_message_effects) (simp_all add: NETWORK_MAX_MESSAGE_SIZE_def assms(7) a_def)
  moreover have "effects a = effects w" by (simp add: a_def)
  ultimately have eb: "effects b = effects w @ [Sendto (server_socket (g_network w)) from_addr dgram
              (env_sendto e (server_socket (g_network w)) from_addr dgram)]"
    by simp
  show ?thesis
    unfolding pl unfolding w' cb by (simp add: eb fire_def)
qed

subsection \<open>Rejected datagrams\<close>

lemma decode_error_result:
  assumes "env_recvfrom e sock = Recv_Datagram from_addr dgram"
    and "buf = take NETWORK_BUFFER_SIZE dgram" and "buf \<noteq> []"
    and "length buf < sizeof_message_header_t \<or>
         h_magic (header_of_buffer buf) \<noteq> NETWORK_MAGIC \<or>
         h_version (header_of_buffer buf) \<noteq> NETWORK_PROTOCOL_VERSION \<or>
         unat (h_size (header_of_buffer buf)) > NETWORK_MAX_MESSAGE_SIZE \<or>
         length buf \<noteq> sizeof_message_header_t + unat (h_size (header_of_buffer buf))"
  shows "\<exists>ty. network_receive_message e sock w = (-1, Some from_addr, ty, None, count_error w)"
  using assms(3,4) unfolding network_receive_message_def assms(1) recv_result.case Let_def
    assms(2) [symmetric]
  by auto

lemma count_error_counts:
  "errors (g_network (count_error w)) = errors (g_network w) + 1"
  "effects (count_error w) = effects w"
  by (simp_all add: count_error_def)

text \<open>
  C2 (decode rejection). Every buffer that fails a check of the decoder and is not empty
  is answered with \<open>-1\<close>, one more error counted and no payload written
  (\<open>decode_error_result\<close>, \<open>count_error_counts\<close>). The empty datagram is shorter than
  the header too, but \<open>recvfrom\<close> returns 0 for it and the test \<open>received <= 0\<close> takes it
  for a failed call; \<open>errno\<close>, which \<open>recvfrom\<close> has not set, then decides. Where it
  still holds \<open>EWOULDBLOCK\<close> from an earlier poll that found nothing, the call returns 0,
  the would-block result, and counts no error: the evaluation below.
\<close>

theorem empty_datagram_reported_as_no_data:
  "env_recvfrom (delivering 3 peer_a []) 3 = Recv_Datagram peer_a [] \<and>
   env_errno (delivering 3 peer_a []) = SOCKET_WOULD_BLOCK \<and>
   server_socket (g_network hosting_world) = 3 \<and>
   network_receive_message (delivering 3 peer_a []) 3 hosting_world =
     (0, Some peer_a, None, None, hosting_world)"
  by (simp add: network_receive_message_def delivering_def quiet_env_def hosting_world_facts)

subsection \<open>Strings read at the data pointer\<close>

text \<open>
  A payload that does not carry its terminating zero byte: the name stored by the join
  case and the text handed to the chat callback run on into what the array holds
  behind the two bytes received, here 29 and 1022 bytes of the stack.
\<close>

lemma unterminated_name:
  "name (fill_player_slot e from_addr (literal ''AB'') (behind (literal ''AB'')) count pid
           zero_player) =
     literal ''AB'' @ replicate 29 0x5A @ [0]"
  by (simp add: fill_player_slot_def strncpy_def c_str_def overwrite_def literal_def behind_def
      quiet_env_def NETWORK_MAX_MESSAGE_SIZE_def zero_player_def
      list_update_append replicate_add [symmetric] flip: replicate_append_same)

lemma unterminated_chat:
  "on_chat (g_network_callbacks w) \<Longrightarrow>
   effects (network_handle_message e from_addr MSG_CHAT (literal ''AB'')
              (behind (literal ''AB'')) w) =
     effects w @
     [Chat (sender_id_of (g_network w) from_addr) (literal ''AB'' @ replicate 1022 0x5A)]"
  by (simp add: handle_message_cases handle_chat_def fire_def c_str_def literal_def behind_def
      quiet_env_def NETWORK_MAX_MESSAGE_SIZE_def)

lemma terminated_name:
  "c_str (name (fill_player_slot e from_addr (literal ''Nova'' @ [0])
                  (behind (literal ''Nova'' @ [0])) count pid zero_player)) = literal ''Nova''"
  by (simp add: fill_player_slot_def strncpy_def c_str_def overwrite_def literal_def
      zero_player_def list_update_append takeWhile_append1 [where x = 0])

subsection \<open>The roster never overflows\<close>

text \<open>
  C3 (roster capacity). In every reachable world \<open>player_count\<close> is at most
  \<open>NETWORK_MAX_PLAYERS\<close> (8), and a join request dispatched while the roster holds 8
  peers leaves the world exactly as it was: no peer added, no join response handed to
  \<open>sendto\<close>, no callback invoked, \<open>player_count\<close> still 8.
\<close>

theorem roster_capacity:
  assumes "reachable w"
  shows "player_count (g_network w) \<le> NETWORK_MAX_PLAYERS \<and>
         (player_count (g_network w) = NETWORK_MAX_PLAYERS \<longrightarrow>
            network_handle_message e from_addr MSG_JOIN_REQUEST data rest w = w)"
proof
  from reachable_inv [OF assms] show "player_count (g_network w) \<le> NETWORK_MAX_PLAYERS"
    by (simp add: session_inv_def)
next
  show "player_count (g_network w) = NETWORK_MAX_PLAYERS \<longrightarrow>
            network_handle_message e from_addr MSG_JOIN_REQUEST data rest w = w"
    by (simp add: handle_message_cases handle_join_request_def)
qed

theorem roster_capacity_witness:
  "reachable full_roster \<and>
   player_count (g_network full_roster) = NETWORK_MAX_PLAYERS \<and>
   player_count (g_network full_roster) \<le> NETWORK_MAX_PLAYERS \<and>
   network_handle_message (join_request_from peer_b) peer_b MSG_JOIN_REQUEST
     (literal ''Nova'' @ [0]) (behind (literal ''Nova'' @ [0])) full_roster = full_roster"
proof -
  have r: "reachable full_roster" by (rule full_roster_facts)
  have c: "player_count (g_network full_roster) = NETWORK_MAX_PLAYERS"
    by (simp add: full_roster_facts NETWORK_MAX_PLAYERS_def)
  from roster_capacity [OF r, of "join_request_from peer_b" peer_b "literal ''Nova'' @ [0]"
      "behind (literal ''Nova'' @ [0])"] r c
  show ?thesis by simp
qed

subsection \<open>Repeated join requests\<close>

text \<open>
  C10 (no admission dedup by address). The join case admits on the \<open>is_host\<close> flag and
  the remaining capacity alone, whatever the sender and whatever the roster holds: the
  request adds the entry with index \<open>player_count\<close>, carrying the sender's address and
  port and the id that a new call of \<open>_network_generate_player_id\<close> returns (which
  advances the counter), leaves the earlier entries as they are, sends the join
  response and invokes \<open>on_player_joined\<close> when it is registered. The witness is a
  roster that already holds two entries of one peer and admits a third for it.
\<close>

theorem join_request_not_deduplicated:
  assumes "reachable w" and "is_host (g_network w)"
    and "player_count (g_network w) < NETWORK_MAX_PLAYERS"
    and "w' = network_handle_message e from_addr MSG_JOIN_REQUEST data rest w"
    and "n = player_count (g_network w)"
    and "pid = fst (network_generate_player_id e w)"
    and "dgram = build_message MSG_JOIN_RESPONSE (store_le32 pid) (next_sequence (g_network w))
                   (get_timestamp e)"
  shows "player_count (g_network w') = n + 1 \<and>
         take n (players (g_network w')) = take n (players (g_network w)) \<and>
         player_id (players (g_network w') ! n) = pid \<and>
         ip_address (players (g_network w') ! n) = sin_addr from_addr \<and>
         port (players (g_network w') ! n) = sin_port from_addr \<and>
         counter w' = counter w + 1 \<and>
         effects w' =
           effects w @
           [Sendto (server_socket (g_network w)) from_addr dgram
              (env_sendto e (server_socket (g_network w)) from_addr dgram)] @
           (if on_player_joined (g_network_callbacks w)
            then [Player_joined pid (c_str (name (players (g_network w') ! n)))] else [])"
proof -
  have len: "length (players (g_network w)) = NETWORK_MAX_PLAYERS"
    using reachable_inv [OF assms(1)] by (simp add: session_inv_def)
  have w': "w' = handle_join_request e from_addr data rest w"
    by (simp add: assms(4) handle_message_cases)
  note a = handle_join_request_admits [OF assms(2,3) len w' assms(5,6)]
  note b = handle_join_request_effects [OF assms(2,3) len w' assms(5,6,7)]
  from a(1,2,4,5,6,8) b show ?thesis by (simp only: simp_thms)
qed

theorem join_request_not_deduplicated_witness:
  "reachable twice_a \<and> is_host (g_network twice_a) \<and>
   player_count (g_network twice_a) = 2 \<and>
   player_count (g_network twice_a) < NETWORK_MAX_PLAYERS \<and>
   ip_address (players (g_network twice_a) ! 0) = sin_addr peer_a \<and>
   port (players (g_network twice_a) ! 0) = sin_port peer_a \<and>
   player_id (players (g_network twice_a) ! 0) = 0x1302 \<and>
   player_count (g_network (network_handle_message (join_request_from peer_a) peer_a
      MSG_JOIN_REQUEST (literal ''Nova'' @ [0]) (behind (literal ''Nova'' @ [0]))
      twice_a)) = 3 \<and>
   ip_address (players (g_network (network_handle_message (join_request_from peer_a) peer_a
      MSG_JOIN_REQUEST (literal ''Nova'' @ [0]) (behind (literal ''Nova'' @ [0]))
      twice_a)) ! 2) = sin_addr peer_a \<and>
   port (players (g_network (network_handle_message (join_request_from peer_a) peer_a
      MSG_JOIN_REQUEST (literal ''Nova'' @ [0]) (behind (literal ''Nova'' @ [0]))
      twice_a)) ! 2) = sin_port peer_a \<and>
   player_id (players (g_network (network_handle_message (join_request_from peer_a) peer_a
      MSG_JOIN_REQUEST (literal ''Nova'' @ [0]) (behind (literal ''Nova'' @ [0]))
      twice_a)) ! 2) = 0x1304 \<and>
   take 2 (players (g_network (network_handle_message (join_request_from peer_a) peer_a
      MSG_JOIN_REQUEST (literal ''Nova'' @ [0]) (behind (literal ''Nova'' @ [0]))
      twice_a))) = take 2 (players (g_network twice_a))"
proof -
  let ?e = "join_request_from peer_a"
  let ?r = "network_handle_message ?e peer_a MSG_JOIN_REQUEST (literal ''Nova'' @ [0])
              (behind (literal ''Nova'' @ [0])) twice_a"
  have r: "reachable twice_a" by (rule twice_a_facts)
  have f: "is_host (g_network twice_a)" "player_count (g_network twice_a) = 2"
    "counter twice_a = 4"
    "ip_address (players (g_network twice_a) ! 0) = sin_addr peer_a"
    "port (players (g_network twice_a) ! 0) = sin_port peer_a"
    "player_id (players (g_network twice_a) ! 0) = 0x1302"
    by (simp_all add: twice_a_facts)
  have c: "player_count (g_network twice_a) < NETWORK_MAX_PLAYERS"
    by (simp add: f NETWORK_MAX_PLAYERS_def)
  have ts: "get_timestamp ?e AND 0xFFFFFF00 = 0x1300"
    by (simp add: get_timestamp_def join_request_from_def delivering_def quiet_env_def)
  have pid: "fst (network_generate_player_id ?e twice_a) = 0x1304"
    by (simp add: ts f)
  from join_request_not_deduplicated [where e = ?e and from_addr = peer_a
      and data = "literal ''Nova'' @ [0]" and rest = "behind (literal ''Nova'' @ [0])",
      OF r f(1) c refl refl refl refl]
  have "player_count (g_network ?r) = 3" "ip_address (players (g_network ?r) ! 2) = sin_addr peer_a"
    "port (players (g_network ?r) ! 2) = sin_port peer_a"
    "player_id (players (g_network ?r) ! 2) = 0x1304"
    "take 2 (players (g_network ?r)) = take 2 (players (g_network twice_a))"
    unfolding pid f(2) by simp_all
  with r f c show ?thesis by (simp only: simp_thms)
qed

subsection \<open>Removing a peer\<close>

lemma find_player_by_addr_Some:
  "find_player_by_addr ps n a i0 = Some i \<Longrightarrow>
     i0 \<le> i \<and> i < n \<and> sent_by (ps ! i) a \<and> (\<forall>k. i0 \<le> k \<and> k < i \<longrightarrow> \<not> sent_by (ps ! k) a)"
proof (induction ps n a i0 rule: find_player_by_addr.induct)
  case (1 ps n a i0)
  show ?case
  proof (cases "i0 < n")
    case False
    with "1.prems" show ?thesis by (simp add: find_player_by_addr.simps [of ps n a i0])
  next
    case True
    note lt = True
    show ?thesis
    proof (cases "sent_by (ps ! i0) a")
      case True
      with lt "1.prems" show ?thesis
        by (auto simp: find_player_by_addr.simps [of ps n a i0] sent_by_def)
    next
      case False
      then have ne: "\<not> (ip_address (ps ! i0) = sin_addr a \<and> port (ps ! i0) = sin_port a)"
        by (simp add: sent_by_def)
      with lt "1.prems" have "find_player_by_addr ps n a (i0 + 1) = Some i"
        by (simp add: find_player_by_addr.simps [of ps n a i0])
      from "1.IH" [OF lt ne this] False show ?thesis
        by (metis Suc_eq_plus1 Suc_leD le_antisym not_less_eq_eq)
    qed
  qed
qed

lemma find_player_by_addr_None:
  "find_player_by_addr ps n a i0 = None \<Longrightarrow> \<forall>k. i0 \<le> k \<and> k < n \<longrightarrow> \<not> sent_by (ps ! k) a"
proof (induction ps n a i0 rule: find_player_by_addr.induct)
  case (1 ps n a i0)
  show ?case
  proof (cases "i0 < n")
    case False
    then show ?thesis by auto
  next
    case True
    with "1.prems" have ne: "\<not> (ip_address (ps ! i0) = sin_addr a \<and> port (ps ! i0) = sin_port a)"
      by (auto simp: find_player_by_addr.simps [of ps n a i0] split: if_splits)
    with True "1.prems" have "find_player_by_addr ps n a (i0 + 1) = None"
      by (simp add: find_player_by_addr.simps [of ps n a i0])
    from "1.IH" [OF True ne this] ne show ?thesis
      by (metis Suc_eq_plus1 le_antisym not_less_eq_eq sent_by_def)
  qed
qed

lemma find_player_by_addr_first:
  assumes "i < n" and "sent_by (ps ! i) a" and "\<forall>k<i. \<not> sent_by (ps ! k) a"
  shows "find_player_by_addr ps n a 0 = Some i"
proof (cases "find_player_by_addr ps n a 0")
  case None
  from find_player_by_addr_None [OF None] assms(1,2) show ?thesis by auto
next
  case (Some j)
  from find_player_by_addr_Some [OF Some]
  have j: "j < n" "sent_by (ps ! j) a" "\<forall>k<j. \<not> sent_by (ps ! k) a" by auto
  have "j = i"
  proof (rule ccontr)
    assume "j \<noteq> i"
    then consider "j < i" | "i < j" by linarith
    then show False using assms(2,3) j(2,3) by cases auto
  qed
  with Some show ?thesis by simp
qed

lemma find_player_by_addr_absent:
  assumes "\<forall>k<n. \<not> sent_by (ps ! k) a"
  shows "find_player_by_addr ps n a 0 = None"
proof (cases "find_player_by_addr ps n a 0")
  case None
  then show ?thesis .
next
  case (Some j)
  from find_player_by_addr_Some [OF Some] assms show ?thesis by auto
qed

lemma compact_players_eq:
  "n \<le> length ps \<Longrightarrow> j < n \<Longrightarrow>
     compact_players ps n j = take j ps @ drop (Suc j) (take n ps) @ [ps ! (n - 1)] @ drop n ps"
proof (induction ps n j rule: compact_players.induct)
  case (1 ps n j)
  show ?case
  proof (cases "j < n - 1")
    case False
    with "1.prems" have j: "j = n - 1" "Suc j = n" by simp_all
    have "take j ps @ [ps ! j] @ drop (Suc j) ps = ps"
      using "1.prems" j by (metis append_Cons append_Nil id_take_nth_drop less_le_trans)
    moreover have "compact_players ps n j = ps"
      using False by (simp add: compact_players.simps [of ps n j])
    ultimately show ?thesis using j "1.prems" by simp
  next
    case True
    let ?ps = "ps[j := ps ! Suc j]"
    have sj: "Suc j < n" using True by simp
    have len: "n \<le> length (ps[j := ps ! (j + 1)])" using "1.prems" by simp
    from "1.IH" [OF True len] sj
    have ih: "compact_players ?ps n (Suc j) =
        take (Suc j) ?ps @ drop (Suc (Suc j)) (take n ?ps) @ [?ps ! (n - 1)] @ drop n ?ps"
      by simp
    have a: "take (Suc j) ?ps = take j ps @ [ps ! Suc j]"
      using sj "1.prems" by (simp add: take_Suc_conv_app_nth)
    have b: "drop (Suc (Suc j)) (take n ?ps) = drop (Suc (Suc j)) (take n ps)"
      by (simp add: take_update_swap)
    have c: "?ps ! (n - 1) = ps ! (n - 1)" using True by simp
    have d: "drop n ?ps = drop n ps" using "1.prems" by simp
    have e: "drop (Suc j) (take n ps) = ps ! Suc j # drop (Suc (Suc j)) (take n ps)"
      using sj "1.prems" by (simp add: Cons_nth_drop_Suc [symmetric])
    show ?thesis
      using True by (simp add: compact_players.simps [of ps n j] ih a b c d e)
  qed
qed

lemma compact_players_live:
  assumes "n \<le> length ps" and "j < n"
  shows "take (n - 1) (compact_players ps n j) = take j ps @ drop (Suc j) (take n ps)"
proof -
  have "length (take j ps @ drop (Suc j) (take n ps)) = n - 1"
    using assms by simp
  then show ?thesis
    using assms by (simp add: compact_players_eq)
qed

text \<open>
  C9 (peer removal). A player-disconnect message is attributed to the first roster entry
  \<open>i\<close> whose address and port are the sender's. Then \<open>on_player_left\<close>, when it is
  registered, is invoked once with the id that entry holds before the removal, the
  entries after it move down by one in their order (the live roster becomes the entries
  before \<open>i\<close> followed by the entries after it), and \<open>player_count\<close> drops by exactly
  one. When no live entry matches, the world stays as it is: no callback, no change of
  the roster.
\<close>

theorem peer_removal:
  assumes "reachable w"
    and "w' = network_handle_message e from_addr MSG_PLAYER_DISCONNECT data rest w"
    and "ps = players (g_network w)" and "n = player_count (g_network w)"
  shows "(i < n \<and> sent_by (ps ! i) from_addr \<and> (\<forall>k<i. \<not> sent_by (ps ! k) from_addr) \<longrightarrow>
            effects w' =
              effects w @ (if on_player_left (g_network_callbacks w)
                           then [Player_left (player_id (ps ! i))] else []) \<and>
            player_count (g_network w') + 1 = n \<and>
            take (player_count (g_network w')) (players (g_network w')) =
              take i ps @ drop (Suc i) (take n ps)) \<and>
         ((\<forall>k<n. \<not> sent_by (ps ! k) from_addr) \<longrightarrow> w' = w)"
proof (intro conjI impI)
  assume "\<forall>k<n. \<not> sent_by (ps ! k) from_addr"
  then have "find_player_by_addr ps n from_addr 0 = None"
    by (rule find_player_by_addr_absent)
  then show "w' = w"
    by (simp add: assms(2,3,4) handle_message_cases handle_player_disconnect_def)
next
  assume a: "i < n \<and> sent_by (ps ! i) from_addr \<and> (\<forall>k<i. \<not> sent_by (ps ! k) from_addr)"
  then have fnd: "find_player_by_addr ps n from_addr 0 = Some i"
    by (intro find_player_by_addr_first) simp_all
  have len: "n \<le> length ps"
    using reachable_inv [OF assms(1)] by (simp add: session_inv_def assms(3,4))
  define w1 where "w1 = (if on_player_left (g_network_callbacks w)
                     then fire (Player_left (player_id (ps ! i))) w else w)"
  have w': "w' = w1\<lparr>g_network := (g_network w)
                   \<lparr>players := compact_players ps n i, player_count := n - 1\<rparr>\<rparr>"
    using fnd by (simp add: assms(2) handle_message_cases handle_player_disconnect_def
        assms(3) [symmetric] assms(4) [symmetric] w1_def)
  show "effects w' = effects w @ (if on_player_left (g_network_callbacks w)
                           then [Player_left (player_id (ps ! i))] else [])"
    by (simp add: w' w1_def fire_def)
  show "player_count (g_network w') + 1 = n" using a by (simp add: w')
  show "take (player_count (g_network w')) (players (g_network w')) =
              take i ps @ drop (Suc i) (take n ps)"
  proof -
    have "take (n - 1) (compact_players ps n i) = take i ps @ drop (Suc i) (take n ps)"
      using len a by (intro compact_players_live) simp_all
    then show ?thesis by (simp add: w')
  qed
qed

theorem peer_removal_witness:
  "reachable three_peers \<and> player_count (g_network three_peers) = 3 \<and>
   sent_by (players (g_network three_peers) ! 1) peer_b \<and>
   \<not> sent_by (players (g_network three_peers) ! 0) peer_b \<and>
   effects (network_handle_message quiet_env peer_b MSG_PLAYER_DISCONNECT [] (behind [])
     three_peers) =
     effects three_peers @ [Player_left 0x1303] \<and>
   player_count (g_network (network_handle_message quiet_env peer_b MSG_PLAYER_DISCONNECT [] (behind [])
     three_peers)) = 2 \<and>
   map player_id (take 2 (players (g_network (network_handle_message quiet_env peer_b
     MSG_PLAYER_DISCONNECT [] (behind []) three_peers)))) = [0x1302, 0x1304] \<and>
   network_handle_message quiet_env \<lparr>sin_addr = 0x0D00000A, sin_port = 40004\<rparr>
     MSG_PLAYER_DISCONNECT [] (behind []) three_peers = three_peers"
proof -
  let ?ps = "players (g_network three_peers)"
  let ?d = "\<lparr>sin_addr = 0x0D00000A, sin_port = 40004\<rparr> :: sockaddr_in"
  let ?r = "network_handle_message quiet_env peer_b MSG_PLAYER_DISCONNECT [] (behind []) three_peers"
  note f = three_peers_facts
  note f' = three_peers_facts [unfolded One_nat_def]
  have len: "length ?ps = 8"
    using reachable_inv [OF f(1)] by (simp add: session_inv_def NETWORK_MAX_PLAYERS_def)
  have m1: "sent_by (?ps ! 1) peer_b" by (simp add: sent_by_def f')
  have m0: "\<not> sent_by (?ps ! 0) peer_b" by (simp add: sent_by_def f peer_a_def peer_b_def)
  have first: "1 < (3::nat) \<and> sent_by (?ps ! 1) peer_b \<and> (\<forall>k<1. \<not> sent_by (?ps ! k) peer_b)"
    using m1 m0 by simp
  have none: "\<forall>k<3. \<not> sent_by (?ps ! k) ?d"
  proof (intro allI impI)
    fix k :: nat assume "k < 3"
    then consider "k = 0" | "k = 1" | "k = 2" by linarith
    then show "\<not> sent_by (?ps ! k) ?d"
      by cases (simp_all add: sent_by_def f f' peer_a_def peer_b_def peer_c_def)
  qed
  note x = peer_removal [where i = 1 and from_addr = peer_b and e = quiet_env and data = "[]"
      and rest = "behind []", OF f(1) refl refl f(2) [symmetric],
      THEN conjunct1, THEN mp, OF first]
  from x have r1: "effects ?r = effects three_peers @ [Player_left 0x1303]"
    by (simp add: f f' all_callbacks_def)
  from x have c: "player_count (g_network ?r) = 2" by simp
  from x have t: "take (player_count (g_network ?r)) (players (g_network ?r)) =
      take 1 ?ps @ drop (Suc 1) (take 3 ?ps)" by blast
  have e: "take 1 ?ps @ drop (Suc 1) (take 3 ?ps) = [?ps ! 0, ?ps ! 2]"
    using len by (simp add: list_eq_iff_nth_eq nth_append less_Suc_eq numeral_2_eq_2)
  have "map player_id (take 2 (players (g_network ?r))) = [0x1302, 0x1304]"
    using t [unfolded c e] by (simp add: f)
  moreover from peer_removal [where i = 1 and from_addr = ?d and e = quiet_env and data = "[]"
      and rest = "behind []", OF f(1) refl refl f(2) [symmetric]] none
  have "network_handle_message quiet_env ?d MSG_PLAYER_DISCONNECT [] (behind []) three_peers = three_peers"
    by simp
  ultimately show ?thesis using f(1,2) m1 m0 r1 c by (simp only: simp_thms)
qed

subsection \<open>Sends outside a session\<close>

lemma send_to_all_loop_empty:
  "player_count (g_network w) = 0 \<Longrightarrow> send_to_all_loop e type data 0 0 w = (0, w)"
  by (simp add: send_to_all_loop.simps [of e type data 0 0 w])

lemma find_player_by_id_empty: "find_player_by_id ps 0 pid 0 = None"
  by (simp add: find_player_by_id.simps [of ps 0 pid 0])

lemma only_host_sends:
  assumes "reachable w" and "state (g_network w) \<noteq> NETWORK_STATE_HOSTING"
  shows "network_send_to_all e type data w = (0, w)"
    and "network_send_to_player e pid type data w = (0, w)"
proof -
  from reachable_inv [OF assms(1)] assms(2) have z: "player_count (g_network w) = 0"
    by (simp add: session_inv_def)
  show "network_send_to_all e type data w = (0, w)"
    by (simp add: network_send_to_all_def send_to_all_loop_empty [OF z])
  show "network_send_to_player e pid type data w = (0, w)"
    by (simp add: network_send_to_player_def Let_def z find_player_by_id_empty)
qed

lemma idle_world_facts:
  "reachable idle_world" "state (g_network idle_world) = NETWORK_STATE_DISCONNECTED"
  "network_initialized idle_world"
  "server_socket (g_network idle_world) = INVALID_SOCKET_VALUE"
  "broadcast_socket (g_network idle_world) = INVALID_SOCKET_VALUE"
  "counter idle_world = 2" "effects idle_world = []"
  "bytes_sent (g_network idle_world) = 0" "messages_sent (g_network idle_world) = 0"
  "errors (g_network idle_world) = 0"
proof -
  show "reachable idle_world"
    unfolding idle_world_def by (intro reachable.intros)
qed (simp_all add: idle_world_def network_init_def program_start_def zero_context_def Let_def
      network_generate_player_id_def)

text \<open>
  C6 (state gating of sends). In every reachable world whose state is neither Hosting nor
  Connected (Disconnected in particular), \<open>network_send_game_state\<close> and each of the other
  send operations of the roster (\<open>network_send_turn_data\<close>, \<open>network_send_chat\<close>,
  \<open>network_send_to_all\<close>, \<open>network_send_to_player\<close>) returns 0 and returns the world as
  it was: nothing is handed to \<open>sendto\<close> and no statistics counter moves. Each of them
  is a total function of the world: there is no state in which it fails to return.
\<close>

theorem sends_gated_by_state:
  assumes "reachable w"
    and "state (g_network w) \<noteq> NETWORK_STATE_HOSTING"
    and "state (g_network w) \<noteq> NETWORK_STATE_CONNECTED"
  shows "network_send_game_state e data w = (0, w) \<and>
         network_send_turn_data e data w = (0, w) \<and>
         network_send_chat e message w = (0, w) \<and>
         network_send_to_all e type data w = (0, w) \<and>
         network_send_to_player e pid type data w = (0, w)"
  using only_host_sends [OF assms(1,2)]
  by (simp add: network_send_game_state_def network_send_turn_data_def network_send_chat_def
      split: option.split)

theorem sends_gated_by_state_witness:
  "reachable idle_world \<and>
   state (g_network idle_world) = NETWORK_STATE_DISCONNECTED \<and>
   state (g_network idle_world) \<noteq> NETWORK_STATE_HOSTING \<and>
   state (g_network idle_world) \<noteq> NETWORK_STATE_CONNECTED \<and>
   network_send_game_state quiet_env [1, 2, 3] idle_world = (0, idle_world) \<and>
   effects (snd (network_send_game_state quiet_env [1, 2, 3] idle_world)) = [] \<and>
   bytes_sent (g_network (snd (network_send_game_state quiet_env [1, 2, 3] idle_world))) = 0 \<and>
   messages_sent (g_network (snd (network_send_game_state quiet_env [1, 2, 3] idle_world))) = 0"
proof -
  note f = idle_world_facts
  have a: "state (g_network idle_world) \<noteq> NETWORK_STATE_HOSTING"
    and b: "state (g_network idle_world) \<noteq> NETWORK_STATE_CONNECTED"
    by (simp_all add: f)
  from sends_gated_by_state [OF f(1) a b, of quiet_env "[1, 2, 3]"]
  have "network_send_game_state quiet_env [1, 2, 3] idle_world = (0, idle_world)" by blast
  with f a b show ?thesis by simp
qed

subsection \<open>A client joins\<close>

lemma load_store_le32: "load_le32 (xs @ store_le32 v @ ys) (length xs) = v"
proof -
  have "ucast (ucast v :: byte) OR push_bit 8 (ucast (ucast (drop_bit 8 v) :: byte)) OR
        push_bit 16 (ucast (ucast (drop_bit 16 v) :: byte)) OR
        push_bit 24 (ucast (ucast (drop_bit 24 v) :: byte)) = v"
  proof (rule bit_word_eqI)
    fix n assume "n < LENGTH(32)"
    then show "bit (ucast (ucast v :: byte) OR push_bit 8 (ucast (ucast (drop_bit 8 v) :: byte)) OR
        push_bit 16 (ucast (ucast (drop_bit 16 v) :: byte)) OR
        (push_bit 24 (ucast (ucast (drop_bit 24 v) :: byte)) :: uint32_t)) n = bit v n"
      by (cases "n < 8"; cases "n < 16"; cases "n < 24") (auto simp: bit_simps)
  qed
  then show ?thesis
    by (simp add: load_le32_def store_le32_def nth_append)
qed

lemma load_store_le32_whole [simp]: "load_le32 (store_le32 v) 0 = v"
  using load_store_le32 [of "[]" v "[]"] by simp

lemma connecting_client_facts:
  "reachable connecting_client"
  "network_initialized connecting_client"
  "state (g_network connecting_client) = NETWORK_STATE_CONNECTING"
  "\<not> is_host (g_network connecting_client)"
  "server_socket (g_network connecting_client) = 5"
  "broadcast_socket (g_network connecting_client) = 3"
  "last_discovery_time (g_network connecting_client) = 5000"
  "player_count (g_network connecting_client) = 0"
  "next_sequence (g_network connecting_client) = 3"
  "discovered_game_count (g_network connecting_client) = 0"
  "effects connecting_client =
     [Sendto 3 \<lparr>sin_addr = INADDR_BROADCAST, sin_port = NETWORK_BROADCAST_PORT\<rparr>
        (build_message MSG_DISCOVERY_REQUEST [] 1 5000) 20,
      Sendto 5 host_addr (build_message MSG_JOIN_REQUEST (literal ''Nova'' @ [0]) 2 5000) 25]"
proof -
  show "reachable connecting_client"
    unfolding connecting_client_def idle_world_def by (intro reachable.intros)
qed (simp_all add: connecting_client_def network_join_game_def network_start_discovery_def
      network_broadcast_discovery_def network_send_message_def network_create_socket_def
      network_set_nonblocking_def Let_def idle_world_def network_init_def program_start_def
      zero_context_def network_generate_player_id_def set_server_socket_def
      set_broadcast_socket_def second_sockets_def quiet_env_def INVALID_SOCKET_VALUE_def
      NETWORK_MAX_MESSAGE_SIZE_def sizeof_message_header_t_def get_timestamp_def literal_def
      c_str_def host_addr_def)

lemma connected_client_step:
  "connected_client =
     handle_join_response (store_le32 0x1302) (count_received 24 connecting_client)"
proof -
  let ?e = "delivering 5 host_addr (build_message MSG_JOIN_RESPONSE (store_le32 0x1302) 1 5000)"
  note f = connecting_client_facts
  have st: "state (g_network connecting_client) \<noteq> NETWORK_STATE_DISCONNECTED" by (simp add: f)
  have u: "connected_client =
      periodic_discovery ?e (handle_join_response (store_le32 0x1302)
         (count_received (20 + length (store_le32 0x1302)) connecting_client))"
    unfolding connected_client_def
    by (subst update_on_session_socket [OF f(2) st f(5), where from_addr = host_addr
          and type = MSG_JOIN_RESPONSE and data = "store_le32 0x1302" and seq = 1 and ts = 5000])
       (simp_all add: delivering_def f INVALID_SOCKET_VALUE_def NETWORK_MAX_MESSAGE_SIZE_def
          MSG_JOIN_RESPONSE_def handle_message_cases [unfolded MSG_JOIN_RESPONSE_def])
  have "periodic_discovery ?e (handle_join_response (store_le32 0x1302)
         (count_received 24 connecting_client)) =
        handle_join_response (store_le32 0x1302) (count_received 24 connecting_client)"
    by (simp add: periodic_discovery_def handle_join_response_def Let_def f sizeof_uint32_t_def
        get_timestamp_def delivering_def quiet_env_def NETWORK_DISCOVERY_INTERVAL_def)
  with u show ?thesis by simp
qed

lemma connected_client_facts:
  "reachable connected_client"
  "network_initialized connected_client"
  "state (g_network connected_client) = NETWORK_STATE_CONNECTED"
  "\<not> is_host (g_network connected_client)"
  "server_socket (g_network connected_client) = 5"
  "broadcast_socket (g_network connected_client) = 3"
  "last_discovery_time (g_network connected_client) = 5000"
  "player_count (g_network connected_client) = 0"
  "next_sequence (g_network connected_client) = 3"
  "local_player_id (g_network connected_client) = 0x1302"
  "effects connected_client = effects connecting_client"
proof -
  show "reachable connected_client"
    unfolding connected_client_def using connecting_client_facts(1) by (rule reachable.intros)
qed (simp_all add: connected_client_step handle_join_response_def Let_def
      connecting_client_facts sizeof_uint32_t_def)

subsection \<open>The periodic discovery request\<close>

lemma is_discovery_request_simps [simp]:
  "\<not> is_discovery_request (Close s)"
  "\<not> is_discovery_request (Player_joined pid nm)"
  "\<not> is_discovery_request (Player_left pid)"
  "\<not> is_discovery_request (Game_data pid d)"
  "\<not> is_discovery_request (Chat pid d)"
  by (simp_all add: is_discovery_request_def)

lemma is_discovery_request_built:
  assumes "type \<le> 0xFFFF"
  shows "is_discovery_request (Sendto s a (build_message type data seq ts) r) \<longleftrightarrow>
         type = MSG_DISCOVERY_REQUEST"
proof -
  have h: "h_type (header_of_buffer (build_message type data seq ts)) = ucast type"
    by (simp add: build_message_def header_of_buffer_bytes)
  have "(ucast type :: uint16_t) = ucast MSG_DISCOVERY_REQUEST \<longleftrightarrow> type = MSG_DISCOVERY_REQUEST"
  proof
    assume "(ucast type :: uint16_t) = ucast MSG_DISCOVERY_REQUEST"
    then have "(ucast (ucast type :: uint16_t) :: message_type_t) =
               ucast (ucast MSG_DISCOVERY_REQUEST :: uint16_t)" by simp
    then show "type = MSG_DISCOVERY_REQUEST"
      using ucast_type_back [OF assms] ucast_type_back [of MSG_DISCOVERY_REQUEST]
      by (simp add: MSG_DISCOVERY_REQUEST_def)
  qed simp
  then show ?thesis
    by (simp add: is_discovery_request_def h sizeof_message_header_t_def)
qed

lemma discovery_requests_append [simp]:
  "discovery_requests (w\<lparr>effects := effects w @ [ef]\<rparr>) =
     discovery_requests w + (if is_discovery_request ef then 1 else 0)"
  by (simp add: discovery_requests_def)

lemma send_message_discovery_requests:
  assumes "type \<le> 0xFFFF"
  shows "discovery_requests (snd (network_send_message e s a type data w)) =
           discovery_requests w +
           (if type = MSG_DISCOVERY_REQUEST \<and> length data \<le> NETWORK_MAX_MESSAGE_SIZE then 1 else 0)"
proof (cases "length data \<le> NETWORK_MAX_MESSAGE_SIZE")
  case False
  then show ?thesis by (simp add: network_send_message_def)
next
  case True
  from send_message_effects [OF True refl, of e s a type w]
  have "discovery_requests (snd (network_send_message e s a type data w)) =
        length (filter is_discovery_request
          (effects w @ [Sendto s a (build_message type data (next_sequence (g_network w))
             (get_timestamp e)) (env_sendto e s a (build_message type data
             (next_sequence (g_network w)) (get_timestamp e)))]))"
    by (simp add: discovery_requests_def)
  then show ?thesis
    using True by (simp add: discovery_requests_def is_discovery_request_built [OF assms])
qed

lemma same_effects_requests:
  "effects w' = effects w \<Longrightarrow> discovery_requests w' = discovery_requests w"
  by (simp add: discovery_requests_def)

lemma fire_discovery_requests:
  "\<not> is_discovery_request ev \<Longrightarrow> discovery_requests (fire ev w) = discovery_requests w"
  by (simp add: fire_def)

lemma handle_message_discovery_requests:
  "discovery_requests (network_handle_message e from_addr type data rest w) = discovery_requests w"
proof -
  have t2: "MSG_DISCOVERY_RESPONSE \<le> 0xFFFF" "MSG_DISCOVERY_RESPONSE \<noteq> MSG_DISCOVERY_REQUEST"
    and t4: "MSG_JOIN_RESPONSE \<le> 0xFFFF" "MSG_JOIN_RESPONSE \<noteq> MSG_DISCOVERY_REQUEST"
    by (simp_all add: msg_defs)
  have 1: "discovery_requests (handle_discovery_request e from_addr w) = discovery_requests w"
    by (simp add: handle_discovery_request_def Let_def send_message_discovery_requests [OF t2(1)] t2(2))
  have 2: "discovery_requests (handle_discovery_response e data w) = discovery_requests w"
    by (rule same_effects_requests)
       (simp add: handle_discovery_response_def Let_def split: option.split)
  have 3: "discovery_requests (handle_join_request e from_addr data rest w) = discovery_requests w"
  proof -
    have "\<And>w' d. discovery_requests (snd (network_send_message e (server_socket (g_network w))
              from_addr MSG_JOIN_RESPONSE d w')) = discovery_requests w'"
      by (simp add: send_message_discovery_requests [OF t4(1)] t4(2))
    moreover have "\<And>g. discovery_requests (snd (network_generate_player_id e w)\<lparr>g_network := g\<rparr>) =
        discovery_requests w"
      by (simp add: discovery_requests_def)
    ultimately show ?thesis
      by (simp add: handle_join_request_def Let_def case_prod_beta fire_discovery_requests)
  qed
  have 4: "discovery_requests (handle_join_response data w) = discovery_requests w"
    by (rule same_effects_requests) (simp add: handle_join_response_def Let_def)
  have 5: "discovery_requests (handle_game_data from_addr data w) = discovery_requests w"
    by (simp add: handle_game_data_def fire_discovery_requests)
  have 6: "discovery_requests (handle_chat from_addr data rest w) = discovery_requests w"
    by (simp add: handle_chat_def fire_discovery_requests)
  have 7: "discovery_requests (handle_player_disconnect from_addr w) = discovery_requests w"
    by (simp add: handle_player_disconnect_def Let_def discovery_requests_def fire_def
        split: option.split)
  show ?thesis
    by (simp add: network_handle_message_def 1 2 3 4 5 6 7)
qed

lemma receive_message_effects:
  "effects (snd (snd (snd (snd (network_receive_message e sock w))))) = effects w"
  by (simp add: network_receive_message_def Let_def count_error_def count_received_def
      split: recv_result.split)

lemma poll_socket_keeps:
  "discovery_requests (snd (poll_socket e sock md w)) = discovery_requests w"
  "wiring (snd (poll_socket e sock md w)) = wiring w"
proof -
  obtain r f t d w1 where rc: "network_receive_message e sock w = (r, f, t, d, w1)"
    by (metis prod_cases5)
  have e1: "effects w1 = effects w" using receive_message_effects [of e sock w] by (simp add: rc)
  have "same_session w w1" using receive_message_same [of w e sock] by (simp add: rc)
  then have w1: "wiring w1 = wiring w" by (rule same_session_wiring)
  have d1: "discovery_requests w1 = discovery_requests w"
    using e1 by (rule same_effects_requests)
  show "discovery_requests (snd (poll_socket e sock md w)) = discovery_requests w"
    by (simp add: poll_socket_def Let_def rc d1 handle_message_discovery_requests split: option.split)
  show "wiring (snd (poll_socket e sock md w)) = wiring w"
    by (simp add: poll_socket_def Let_def rc w1 handle_message_wiring split: option.split)
qed

lemma periodic_discovery_requests:
  "discovery_requests (periodic_discovery e w) =
     discovery_requests w +
     (if broadcast_socket (g_network w) \<noteq> INVALID_SOCKET_VALUE \<and> \<not> is_host (g_network w) \<and>
         get_timestamp e - last_discovery_time (g_network w) > NETWORK_DISCOVERY_INTERVAL
      then 1 else 0)"
proof -
  have t: "MSG_DISCOVERY_REQUEST \<le> 0xFFFF" by (simp add: msg_defs)
  have "\<And>w' t. discovery_requests (w'\<lparr>g_network := (g_network w')\<lparr>last_discovery_time := t\<rparr>\<rparr>)
      = discovery_requests w'"
    by (simp add: discovery_requests_def)
  then show ?thesis
    by (simp add: periodic_discovery_def Let_def network_broadcast_discovery_def
        send_message_discovery_requests [OF t] NETWORK_MAX_MESSAGE_SIZE_def)
qed

lemma broadcast_discovery_requests:
  "discovery_requests (snd (network_broadcast_discovery e w)) =
     discovery_requests w + (if broadcast_socket (g_network w) \<noteq> INVALID_SOCKET_VALUE then 1 else 0)"
proof -
  have t: "MSG_DISCOVERY_REQUEST \<le> 0xFFFF" by (simp add: msg_defs)
  show ?thesis
    by (simp add: network_broadcast_discovery_def send_message_discovery_requests [OF t]
        NETWORK_MAX_MESSAGE_SIZE_def)
qed

lemma broadcast_discovery_wiring:
  "wiring (snd (network_broadcast_discovery e w)) = wiring w"
  by (rule same_session_wiring [OF broadcast_discovery_same])

lemma periodic_discovery_time:
  "last_discovery_time (g_network (periodic_discovery e w)) =
     (if broadcast_socket (g_network w) \<noteq> INVALID_SOCKET_VALUE \<and> \<not> is_host (g_network w) \<and>
         get_timestamp e - last_discovery_time (g_network w) > NETWORK_DISCOVERY_INTERVAL
      then get_timestamp e else last_discovery_time (g_network w))"
  by (simp add: periodic_discovery_def Let_def)

lemma start_discovery_time:
  assumes "fst (network_create_socket e 0) \<noteq> 0"
  shows "last_discovery_time (g_network (snd (network_start_discovery e w))) = get_timestamp e"
proof -
  have "\<And>v. last_discovery_time (g_network (snd (network_broadcast_discovery e v))) =
      last_discovery_time (g_network v)"
    using broadcast_discovery_wiring by (simp add: wiring_def)
  then show ?thesis
    using assms by (simp add: network_start_discovery_def Let_def case_prod_beta)
qed

text \<open>
  C5 (gating of the periodic discovery request), as the code has it. One call of
  \<open>network_update\<close> hands exactly one discovery request to \<open>sendto\<close> when the module is
  initialised, the state is not Disconnected, the discovery socket exists, the
  \<open>is_host\<close> flag is clear and \<open>get_timestamp() - g_network.last_discovery_time\<close>, a
  difference of unsigned 32-bit values that wraps around, exceeds
  \<open>NETWORK_DISCOVERY_INTERVAL\<close>; in every other situation it hands none. Whether the
  client is still Connecting or already Connected is not tested. The field
  \<open>last_discovery_time\<close> receives the timestamp in two places: in \<open>network_update\<close>
  when it re-broadcasts, and in \<open>network_start_discovery\<close> once it has its socket.
  \<open>network_broadcast_discovery\<close>, called by the application, sends its request and
  leaves the field as it is. So the field is not the time of the last broadcast in
  general, and the difference is not an elapsed time once the clock has stepped back.
  The witness has, besides a tick that re-broadcasts after two seconds and two that do
  not, a tick that re-broadcasts in the very millisecond of a broadcast by the
  application, and a tick that re-broadcasts because the clock reads one second less
  than the field.
\<close>

theorem rebroadcast_gate:
  "discovery_requests (network_update e w) =
     discovery_requests w + (if rebroadcast_due e w then 1 else 0) \<and>
   last_discovery_time (g_network (network_update e w)) =
     (if rebroadcast_due e w then get_timestamp e else last_discovery_time (g_network w)) \<and>
   discovery_requests (snd (network_broadcast_discovery e w)) =
     discovery_requests w +
     (if broadcast_socket (g_network w) \<noteq> INVALID_SOCKET_VALUE then 1 else 0) \<and>
   last_discovery_time (g_network (snd (network_broadcast_discovery e w))) =
     last_discovery_time (g_network w) \<and>
   (fst (network_create_socket e 0) \<noteq> 0 \<longrightarrow>
      last_discovery_time (g_network (snd (network_start_discovery e w))) = get_timestamp e)"
proof -
  have upd: "discovery_requests (network_update e w) =
       discovery_requests w + (if rebroadcast_due e w then 1 else 0) \<and>
     last_discovery_time (g_network (network_update e w)) =
       (if rebroadcast_due e w then get_timestamp e else last_discovery_time (g_network w))"
  proof (cases "\<not> network_initialized w \<or> state (g_network w) = NETWORK_STATE_DISCONNECTED")
    case True
    then show ?thesis by (auto simp: network_update_def rebroadcast_due_def)
  next
    case False
    define p1 where "p1 = poll_socket e (server_socket (g_network w)) (env_message_data e) w"
    define w1 where "w1 = snd p1"
    define w2 where "w2 = snd (poll_socket e (broadcast_socket (g_network w1)) (fst p1) w1)"
    have u: "network_update e w = periodic_discovery e w2"
      using False by (simp add: network_update_def Let_def case_prod_beta w1_def w2_def p1_def)
    have d: "discovery_requests w2 = discovery_requests w"
      by (simp add: w2_def w1_def p1_def poll_socket_keeps)
    have "wiring w2 = wiring w"
      by (simp add: w2_def w1_def p1_def poll_socket_keeps)
    then have k: "broadcast_socket (g_network w2) = broadcast_socket (g_network w)"
      "is_host (g_network w2) = is_host (g_network w)"
      "last_discovery_time (g_network w2) = last_discovery_time (g_network w)"
      by (simp_all add: wiring_def)
    show ?thesis
      using False
      by (simp add: u periodic_discovery_requests periodic_discovery_time d k rebroadcast_due_def)
  qed
  have "last_discovery_time (g_network (snd (network_broadcast_discovery e w))) =
      last_discovery_time (g_network w)"
    using broadcast_discovery_wiring [of e w] by (simp add: wiring_def)
  with upd show ?thesis
    by (simp add: broadcast_discovery_requests start_discovery_time)
qed

theorem rebroadcast_gate_witness:
  "rebroadcast_due two_seconds_later connected_client \<and>
   discovery_requests (network_update two_seconds_later connected_client) =
     discovery_requests connected_client + 1 \<and>
   last_discovery_time (g_network (network_update two_seconds_later connected_client)) = 7000 \<and>
   \<not> rebroadcast_due quiet_env connected_client \<and>
   discovery_requests (network_update quiet_env connected_client) =
     discovery_requests connected_client \<and>
   \<not> rebroadcast_due two_seconds_later hosting_world \<and>
   discovery_requests (network_update two_seconds_later hosting_world) =
     discovery_requests hosting_world \<and>
   discovery_requests (snd (network_broadcast_discovery two_seconds_later connected_client)) =
     discovery_requests connected_client + 1 \<and>
   last_discovery_time
     (g_network (snd (network_broadcast_discovery two_seconds_later connected_client))) = 5000 \<and>
   rebroadcast_due two_seconds_later
     (snd (network_broadcast_discovery two_seconds_later connected_client)) \<and>
   discovery_requests (network_update two_seconds_later
       (snd (network_broadcast_discovery two_seconds_later connected_client))) =
     discovery_requests connected_client + 2 \<and>
   get_timestamp one_second_earlier = 4000 \<and>
   rebroadcast_due one_second_earlier connected_client \<and>
   discovery_requests (network_update one_second_earlier connected_client) =
     discovery_requests connected_client + 1"
proof -
  note f = connected_client_facts
  let ?b = "snd (network_broadcast_discovery two_seconds_later connected_client)"
  have t7: "get_timestamp two_seconds_later = 7000"
    by (simp add: two_seconds_later_def get_timestamp_def)
  have t4: "get_timestamp one_second_earlier = 4000"
    by (simp add: one_second_earlier_def get_timestamp_def)
  have a: "rebroadcast_due two_seconds_later connected_client"
    by (simp add: rebroadcast_due_def f t7 INVALID_SOCKET_VALUE_def NETWORK_DISCOVERY_INTERVAL_def)
  have b: "\<not> rebroadcast_due quiet_env connected_client"
    by (simp add: rebroadcast_due_def f quiet_env_def get_timestamp_def
        NETWORK_DISCOVERY_INTERVAL_def)
  have c: "\<not> rebroadcast_due two_seconds_later hosting_world"
    by (simp add: rebroadcast_due_def hosting_world_facts)
  have d: "rebroadcast_due one_second_earlier connected_client"
    by (simp add: rebroadcast_due_def f t4 INVALID_SOCKET_VALUE_def NETWORK_DISCOVERY_INTERVAL_def)
  have s: "broadcast_socket (g_network connected_client) \<noteq> INVALID_SOCKET_VALUE"
    by (simp add: f INVALID_SOCKET_VALUE_def)
  have wb: "wiring ?b = wiring connected_client" by (rule broadcast_discovery_wiring)
  have sb: "state (g_network ?b) = state (g_network connected_client)"
    by (rule same_session_fields(6) [OF broadcast_discovery_same])
  have g: "rebroadcast_due two_seconds_later ?b"
    using a wb sb by (simp add: rebroadcast_due_def wiring_def)
  from rebroadcast_gate [of two_seconds_later connected_client]
    rebroadcast_gate [of quiet_env connected_client]
    rebroadcast_gate [of two_seconds_later hosting_world]
    rebroadcast_gate [of two_seconds_later ?b]
    rebroadcast_gate [of one_second_earlier connected_client] a b c d g s t7 t4 f(7)
  show ?thesis by simp
qed

text \<open>
  The periodic request is also sent by a client that is already Connected: the client
  of the example, two seconds after its discovery broadcast, with its discovery socket
  still open.
\<close>

theorem rebroadcast_while_connected:
  "reachable connected_client \<and>
   state (g_network connected_client) = NETWORK_STATE_CONNECTED \<and>
   effects (network_update two_seconds_later connected_client) =
     effects connected_client @
     [Sendto 3 \<lparr>sin_addr = INADDR_BROADCAST, sin_port = NETWORK_BROADCAST_PORT\<rparr>
        (build_message MSG_DISCOVERY_REQUEST [] 3 7000) 20] \<and>
   is_discovery_request
     (Sendto 3 \<lparr>sin_addr = INADDR_BROADCAST, sin_port = NETWORK_BROADCAST_PORT\<rparr>
        (build_message MSG_DISCOVERY_REQUEST [] 3 7000) 20)"
proof -
  note f = connected_client_facts
  have st: "state (g_network connected_client) \<noteq> NETWORK_STATE_DISCONNECTED" by (simp add: f)
  have u: "network_update two_seconds_later connected_client =
           periodic_discovery two_seconds_later connected_client"
    by (rule update_quiet [OF f(2) st]) (simp_all add: two_seconds_later_def quiet_env_def)
  have e: "effects (periodic_discovery two_seconds_later connected_client) =
     effects connected_client @
     [Sendto 3 \<lparr>sin_addr = INADDR_BROADCAST, sin_port = NETWORK_BROADCAST_PORT\<rparr>
        (build_message MSG_DISCOVERY_REQUEST [] 3 7000) 20]"
    by (simp add: periodic_discovery_def network_broadcast_discovery_def Let_def f
        network_send_message_def two_seconds_later_def quiet_env_def get_timestamp_def
        INVALID_SOCKET_VALUE_def NETWORK_DISCOVERY_INTERVAL_def NETWORK_MAX_MESSAGE_SIZE_def
        sizeof_message_header_t_def)
  have t: "MSG_DISCOVERY_REQUEST \<le> 0xFFFF" by (simp add: msg_defs)
  show ?thesis
    using f(1,3) by (simp add: u e is_discovery_request_built [OF t])
qed


subsection \<open>Completing a join\<close>

lemma join_response_completes:
  assumes "state (g_network w) = NETWORK_STATE_CONNECTING" and "length data = sizeof_uint32_t"
  shows "network_handle_message e from_addr MSG_JOIN_RESPONSE data rest w =
           w\<lparr>g_network := (g_network w)\<lparr>local_player_id := load_le32 data 0,
                                           state := NETWORK_STATE_CONNECTED\<rparr>\<rparr>"
  using assms by (simp add: handle_message_cases handle_join_response_def)

lemma join_response_ignored:
  assumes "state (g_network w) \<noteq> NETWORK_STATE_CONNECTING \<or> length data \<noteq> sizeof_uint32_t"
  shows "network_handle_message e from_addr MSG_JOIN_RESPONSE data rest w = w"
  using assms by (auto simp: handle_message_cases handle_join_response_def)

lemma join_response_carries_id:
  "length (store_le32 pid) = sizeof_uint32_t" "load_le32 (store_le32 pid) 0 = pid"
  by (simp_all add: sizeof_uint32_t_def)

lemma disconnect_counter: "counter (network_disconnect e w) = counter w"
proof -
  have "same_session w (snd (network_send_to_all e MSG_PLAYER_DISCONNECT [] w))"
    by (rule send_to_all_same)
  then have "counter (snd (network_send_to_all e MSG_PLAYER_DISCONNECT [] w)) = counter w"
    by (simp add: same_session_def)
  then show ?thesis
    by (simp add: network_disconnect_def Let_def set_server_socket_def set_broadcast_socket_def
        CLOSE_SOCKET_def)
qed

lemma restarts_facts:
  "reachable (restarts n) \<and> \<not> network_initialized (restarts n) \<and>
   counter (restarts n) = 1 + of_nat n"
proof (induction n)
  case 0
  have "reachable (restarts 0)" unfolding restarts.simps by (rule reachable.intros)
  then show ?case by (simp add: restarts.simps program_start_def)
next
  case (Suc n)
  then have r: "reachable (restarts n)" and i: "\<not> network_initialized (restarts n)"
    and c: "counter (restarts n) = 1 + of_nat n" by simp_all
  let ?a = "snd (network_init quiet_env (restarts n))"
  have ia: "network_initialized ?a" "counter ?a = 2 + of_nat n"
    using i c by (simp_all add: network_init_def Let_def case_prod_beta)
  have "reachable (restarts (Suc n))"
    unfolding restarts.simps using r by (intro reachable.intros)
  moreover have "\<not> network_initialized (restarts (Suc n))"
    by (simp add: restarts.simps network_shutdown_def ia)
  moreover have "counter (restarts (Suc n)) = 1 + of_nat (Suc n)"
    by (simp add: restarts.simps network_shutdown_def ia disconnect_counter)
  ultimately show ?case by simp
qed

lemma rollover_host_facts:
  "reachable rollover_host"
  "network_initialized rollover_host"
  "state (g_network rollover_host) = NETWORK_STATE_HOSTING"
  "is_host (g_network rollover_host)"
  "server_socket (g_network rollover_host) = 3"
  "broadcast_socket (g_network rollover_host) = 4"
  "player_count (g_network rollover_host) = 0"
  "counter rollover_host = 256"
  "effects rollover_host = effects (restarts 254)"
  "g_network_callbacks rollover_host = all_callbacks"
  "next_sequence (g_network rollover_host) = 1"
proof -
  show "reachable rollover_host"
    unfolding rollover_host_def using restarts_facts [of 254] by (intro reachable.intros) simp
qed (insert restarts_facts [of 254],
     simp_all add: rollover_host_def network_host_game_def network_init_def Let_def
      network_set_callbacks_def
      network_generate_player_id_def network_create_socket_def
      network_set_nonblocking_def network_bind_socket_def quiet_env_def INVALID_SOCKET_VALUE_def
      set_server_socket_def set_broadcast_socket_def zero_context_def)

lemma zero_hour_facts:
  "get_timestamp zero_hour = 0"
  "env_recvfrom zero_hour 3 =
     Recv_Datagram peer_a (build_message MSG_JOIN_REQUEST (literal ''Nova'' @ [0]) 1 5000)"
  "env_recvfrom zero_hour 4 = Recv_Fail SOCKET_WOULD_BLOCK"
  "env_sendto zero_hour s a m = int (length m)"
  by (simp_all add: zero_hour_def join_request_from_def delivering_def quiet_env_def
      get_timestamp_def)

text \<open>
  C7 (join completion). A join response of four bytes received in state Connecting moves
  the state to Connected and stores the carried id as \<open>local_player_id\<close>
  (\<open>join_response_completes\<close>, \<open>join_response_carries_id\<close>); in any other state, or with
  another payload size, it changes nothing (\<open>join_response_ignored\<close>). The id itself is
  \<open>(get_timestamp() & 0xFFFFFF00) | (counter++ & 0xFF)\<close>, and nothing keeps it away from
  0, the value the dispatcher uses for an unknown sender: a host whose id counter stands
  at a multiple of 256 and whose clock reads a timestamp below 256 assigns the id 0,
  sends it in the join response, and the client that receives it becomes Connected
  with \<open>local_player_id = 0\<close>. The evaluation below runs this on a reachable host.
\<close>

theorem zero_player_id_assigned:
  "reachable rollover_host \<and> counter rollover_host = 256 \<and> get_timestamp zero_hour = 0 \<and>
   player_count (g_network (network_update zero_hour rollover_host)) = 1 \<and>
   ip_address (players (g_network (network_update zero_hour rollover_host)) ! 0) = sin_addr peer_a \<and>
   player_id (players (g_network (network_update zero_hour rollover_host)) ! 0) = 0 \<and>
   destinations (drop (length (effects rollover_host))
     (effects (network_update zero_hour rollover_host))) = [peer_a] \<and>
   hd (drop (length (effects rollover_host)) (effects (network_update zero_hour rollover_host))) =
     Sendto 3 peer_a (build_message MSG_JOIN_RESPONSE [0, 0, 0, 0] 1 0) 24 \<and>
   state (g_network (network_handle_message quiet_env host_addr MSG_JOIN_RESPONSE [0, 0, 0, 0]
     (behind [0, 0, 0, 0]) connecting_client)) = NETWORK_STATE_CONNECTED \<and>
   local_player_id (g_network (network_handle_message quiet_env host_addr MSG_JOIN_RESPONSE
     [0, 0, 0, 0] (behind [0, 0, 0, 0]) connecting_client)) = 0"
proof -
  note f = rollover_host_facts
  let ?data = "literal ''Nova'' @ [0]"
  let ?v = "count_received (20 + length ?data) rollover_host"
  let ?r = "network_update zero_hour rollover_host"
  have u: "?r = handle_join_request zero_hour peer_a ?data
                  (drop (length ?data) (env_message_data zero_hour)) ?v"
    by (rule update_join_request [OF f(2,4,3,5), where seq = 1 and ts = 5000])
       (simp_all add: f zero_hour_facts INVALID_SOCKET_VALUE_def NETWORK_MAX_MESSAGE_SIZE_def
          literal_def)
  have len: "length (players (g_network ?v)) = NETWORK_MAX_PLAYERS"
    using reachable_inv [OF f(1)] by (simp add: session_inv_def)
  have h: "is_host (g_network ?v)" by (simp add: f)
  have c: "player_count (g_network ?v) < NETWORK_MAX_PLAYERS"
    by (simp add: f NETWORK_MAX_PLAYERS_def)
  have pid: "fst (network_generate_player_id zero_hour ?v) = 0"
    by (simp add: zero_hour_facts f)
  note a = handle_join_request_admits [OF h c len u refl refl, unfolded pid]
  note b = handle_join_request_effects [OF h c len u refl refl refl, unfolded pid]
  have z: "store_le32 0 = [0, 0, 0, 0]" by (simp add: store_le32_def)
  have e: "effects ?r = effects rollover_host @
      [Sendto 3 peer_a (build_message MSG_JOIN_RESPONSE [0, 0, 0, 0] 1 0) 24,
       Player_joined 0 (c_str (name (players (g_network ?r) ! 0)))]"
    using b by (simp add: f zero_hour_facts all_callbacks_def z)
  have "player_count (g_network ?r) = 1" using a(1) by (simp add: f)
  moreover have "ip_address (players (g_network ?r) ! 0) = sin_addr peer_a"
    using a(5) by (simp add: f)
  moreover have "player_id (players (g_network ?r) ! 0) = 0"
    using a(4) by (simp add: f)
  moreover have "network_handle_message quiet_env host_addr MSG_JOIN_RESPONSE [0, 0, 0, 0]
      (behind [0, 0, 0, 0])
      connecting_client =
      connecting_client\<lparr>g_network := (g_network connecting_client)
         \<lparr>local_player_id := load_le32 [0, 0, 0, 0] 0, state := NETWORK_STATE_CONNECTED\<rparr>\<rparr>"
    by (rule join_response_completes) (simp_all add: connecting_client_facts sizeof_uint32_t_def)
  moreover have "load_le32 [0, 0, 0, 0] 0 = 0" by (simp add: load_le32_def)
  ultimately show ?thesis
    using f(1,8) zero_hour_facts(1) by (simp add: e)
qed


text \<open>
  The tick of that run is a full one: the host is initialised and not Disconnected, so
  \<open>network_update\<close> does poll its sockets.
\<close>

theorem zero_player_id_assigned_witness:
  "network_initialized rollover_host \<and>
   state (g_network rollover_host) \<noteq> NETWORK_STATE_DISCONNECTED \<and>
   player_count (g_network (network_update zero_hour rollover_host)) = 1 \<and>
   player_id (players (g_network (network_update zero_hour rollover_host)) ! 0) = 0"
  using zero_player_id_assigned rollover_host_facts(2,3) by simp

subsection \<open>Leaving a session\<close>

lemma destinations_append [simp]:
  "destinations (xs @ ys) = destinations xs @ destinations ys"
  by (induction xs rule: destinations.induct) simp_all

lemma send_message_destinations:
  "length data \<le> NETWORK_MAX_MESSAGE_SIZE \<Longrightarrow>
   destinations (effects (snd (network_send_message e s a type data w))) =
     destinations (effects w) @ [a]"
  by (simp add: send_message_effects [OF _ refl])

lemma send_to_all_loop_destinations:
  "length data \<le> NETWORK_MAX_MESSAGE_SIZE \<Longrightarrow>
   player_count (g_network w) \<le> length (players (g_network w)) \<Longrightarrow>
   destinations (effects (snd (send_to_all_loop e type data i c w))) =
     destinations (effects w) @
     map player_addr (filter connected
       (drop i (take (player_count (g_network w)) (players (g_network w)))))"
proof (induction e type data i c w rule: send_to_all_loop.induct)
  case (1 e type data i c w)
  let ?g = "g_network w"
  show ?case
  proof (cases "i < player_count ?g")
    case False
    then show ?thesis by (simp add: send_to_all_loop.simps [of e type data i c w])
  next
    case True
    note lt = True
    have dr: "drop i (take (player_count ?g) (players ?g)) =
              players ?g ! i # drop (Suc i) (take (player_count ?g) (players ?g))"
    proof -
      have "i < length (take (player_count ?g) (players ?g))"
        using lt "1.prems"(2) by simp
      then have "drop i (take (player_count ?g) (players ?g)) =
          take (player_count ?g) (players ?g) ! i #
          drop (Suc i) (take (player_count ?g) (players ?g))"
        by (rule Cons_nth_drop_Suc [symmetric])
      then show ?thesis using lt by simp
    qed
    show ?thesis
    proof (cases "connected (players ?g ! i)")
      case False
      from "1.IH"(2) [OF refl lt False "1.prems"] lt False show ?thesis
        by (simp add: send_to_all_loop.simps [of e type data i c w] dr)
    next
      case True
      define r where "r = network_send_message e (server_socket ?g) (player_addr (players ?g ! i))
                            type data w"
      have ss: "same_session w (snd r)" unfolding r_def by (rule send_message_same)
      note k = same_session_fields(1,2) [OF ss]
      have len: "player_count (g_network (snd r)) \<le> length (players (g_network (snd r)))"
        using "1.prems"(2) by (simp add: k)
      have d: "destinations (effects (snd r)) =
               destinations (effects w) @ [player_addr (players ?g ! i)]"
        unfolding r_def using "1.prems"(1) by (rule send_message_destinations)
      from "1.IH"(1) [OF refl lt True r_def "1.prems"(1) len]
      have "destinations (effects (snd (send_to_all_loop e type data (i + 1)
                 (if fst r \<noteq> 0 then c + 1 else c) (snd r)))) =
            destinations (effects (snd r)) @
            map player_addr (filter connected
              (drop (i + 1) (take (player_count ?g) (players ?g))))"
        by (simp add: k)
      then show ?thesis
        using lt True
        by (simp add: send_to_all_loop.simps [of e type data i c w] Let_def r_def [symmetric] d dr)
    qed
  qed
qed

lemma send_to_all_destinations:
  assumes "reachable w" and "server_socket (g_network w) \<noteq> INVALID_SOCKET_VALUE"
    and "length data \<le> NETWORK_MAX_MESSAGE_SIZE"
  shows "destinations (effects (snd (network_send_to_all e type data w))) =
           destinations (effects w) @
           map player_addr (filter connected
             (take (player_count (g_network w)) (players (g_network w))))"
proof -
  have "player_count (g_network w) \<le> length (players (g_network w))"
    using reachable_inv [OF assms(1)] by (simp add: session_inv_def)
  from send_to_all_loop_destinations [OF assms(3) this, of e type 0 0] assms(2)
  show ?thesis by (simp add: network_send_to_all_def)
qed

lemma disconnect_when_disconnected:
  "state (g_network w) = NETWORK_STATE_DISCONNECTED \<Longrightarrow> network_disconnect e w = w"
  by (simp add: network_disconnect_def)

lemma disconnect_teardown:
  assumes "state (g_network w) \<noteq> NETWORK_STATE_DISCONNECTED"
  shows "state (g_network (network_disconnect e w)) = NETWORK_STATE_DISCONNECTED"
    and "player_count (g_network (network_disconnect e w)) = 0"
    and "\<not> is_host (g_network (network_disconnect e w))"
    and "server_socket (g_network (network_disconnect e w)) = INVALID_SOCKET_VALUE"
    and "broadcast_socket (g_network (network_disconnect e w)) = INVALID_SOCKET_VALUE"
    and "players (g_network (network_disconnect e w)) = replicate NETWORK_MAX_PLAYERS zero_player"
  using assms
  by (simp_all add: network_disconnect_def Let_def set_server_socket_def set_broadcast_socket_def
      CLOSE_SOCKET_def)

lemma disconnect_effects:
  assumes "state (g_network w) = NETWORK_STATE_HOSTING \<or> state (g_network w) = NETWORK_STATE_CONNECTED"
  shows "effects (network_disconnect e w) =
           effects (snd (network_send_to_all e MSG_PLAYER_DISCONNECT [] w)) @
           (if server_socket (g_network w) \<noteq> INVALID_SOCKET_VALUE
            then [Close (server_socket (g_network w))] else []) @
           (if broadcast_socket (g_network w) \<noteq> INVALID_SOCKET_VALUE
            then [Close (broadcast_socket (g_network w))] else [])"
proof -
  have ss: "same_session w (snd (network_send_to_all e MSG_PLAYER_DISCONNECT [] w))"
    by (rule send_to_all_same)
  note k = same_session_fields(7,8) [OF ss]
  show ?thesis
    using assms
    by (auto simp: network_disconnect_def Let_def set_server_socket_def set_broadcast_socket_def
        CLOSE_SOCKET_def k)
qed

text \<open>
  C8 (disconnect teardown). \<open>network_disconnect\<close> does nothing in state Disconnected
  (\<open>disconnect_when_disconnected\<close>). From Hosting or Connected it first calls
  \<open>network_send_to_all(MSG_PLAYER_DISCONNECT)\<close>, which sends one datagram to every roster
  entry marked connected, in roster order (\<open>send_to_all_destinations\<close>), then closes the
  two sockets and resets state, roster and \<open>player_count\<close> (\<open>disconnect_effects\<close>,
  \<open>disconnect_teardown\<close>). The notification goes to the roster, and a client has none:
  \<open>network_join_game\<close> keeps the host's address in a local variable only. So the
  disconnect of a Connected client, though the code tests for that state before it
  sends, reaches nobody: the trace below gains the two \<open>close\<close> calls and no datagram,
  the only datagrams ever sent being the discovery broadcast and the join request.
\<close>

theorem client_disconnect_notifies_nobody:
  "reachable connected_client \<and>
   state (g_network connected_client) = NETWORK_STATE_CONNECTED \<and>
   effects (network_disconnect quiet_env connected_client) =
     effects connected_client @ [Close 5, Close 3] \<and>
   destinations (effects connected_client) =
     [\<lparr>sin_addr = INADDR_BROADCAST, sin_port = NETWORK_BROADCAST_PORT\<rparr>, host_addr] \<and>
   state (g_network (network_disconnect quiet_env connected_client)) = NETWORK_STATE_DISCONNECTED"
proof -
  note f = connected_client_facts
  have ne: "state (g_network connected_client) \<noteq> NETWORK_STATE_HOSTING" by (simp add: f)
  have s: "network_send_to_all quiet_env MSG_PLAYER_DISCONNECT [] connected_client =
           (0, connected_client)"
    using only_host_sends(1) [OF f(1) ne] .
  show ?thesis
    by (simp add: network_disconnect_def Let_def f s set_server_socket_def
        set_broadcast_socket_def CLOSE_SOCKET_def INVALID_SOCKET_VALUE_def
        connecting_client_facts)
qed

subsection \<open>The discovery registry\<close>

lemma load_store_le16: "load_le16 (xs @ store_le16 v @ ys) (length xs) = v"
  unfolding load_le16_def store_le16_def
  apply (simp add: nth_append)
  apply (rule bit_word_eqI)
  apply (auto simp: bit_simps)
  done

lemma length_store_le16 [simp]: "length (store_le16 v) = 2"
  by (simp add: store_le16_def)

lemma length_game_info_bytes:
  "length (game_name gi) = 64 \<Longrightarrow> length (host_name gi) = 32 \<Longrightarrow>
   length (game_info_bytes gi) = sizeof_game_info_t"
  by (simp add: game_info_bytes_def sizeof_game_info_t_def)

lemma game_info_of_bytes_bytes:
  assumes "length (game_name gi) = 64" and "length (host_name gi) = 32"
  shows "game_info_of_bytes (game_info_bytes gi) = gi"
proof -
  let ?n = "game_name gi" and ?h = "host_name gi"
  let ?ip = "store_le32 (host_ip gi)" and ?p = "store_le16 (host_port gi)"
  let ?c = "[current_players gi, max_players gi]"
  let ?i = "store_le32 (game_id gi)" and ?s = "store_le32 (last_seen gi)"
  let ?b = "game_info_bytes gi"
  have b: "?b = ?n @ ?h @ ?ip @ ?p @ ?c @ ?i @ ?s" by (simp add: game_info_bytes_def)
  have 1: "take 64 ?b = ?n" using assms by (simp add: b)
  have 2: "take 32 (drop 64 ?b) = ?h" using assms by (simp add: b)
  have 3: "load_le32 ?b 96 = host_ip gi"
    using load_store_le32 [of "?n @ ?h" "host_ip gi" "?p @ ?c @ ?i @ ?s"] assms by (simp add: b)
  have 4: "load_le16 ?b 100 = host_port gi"
    using load_store_le16 [of "?n @ ?h @ ?ip" "host_port gi" "?c @ ?i @ ?s"] assms by (simp add: b)
  have 5: "?b ! 102 = current_players gi" "?b ! 103 = max_players gi"
    using assms by (simp_all add: b nth_append)
  have 6: "load_le32 ?b 104 = game_id gi"
    using load_store_le32 [of "?n @ ?h @ ?ip @ ?p @ ?c" "game_id gi" "?s"] assms by (simp add: b)
  have 7: "load_le32 ?b 108 = last_seen gi"
    using load_store_le32 [of "?n @ ?h @ ?ip @ ?p @ ?c @ ?i" "last_seen gi" "[]"] assms
    by (simp add: b)
  show ?thesis
    by (simp add: game_info_of_bytes_def 1 2 3 4 5 6 7)
qed

lemma advert_fields [simp]:
  "game_id (advert gid cur) = gid" "current_players (advert gid cur) = cur"
  "length (game_name (advert gid cur)) = 64" "length (host_name (advert gid cur)) = 32"
  by (simp_all add: advert_def zero_game_info_def NETWORK_MAX_GAME_NAME_def)

lemma advert_parsed [simp]: "game_info_of_bytes (game_info_bytes (advert gid cur)) = advert gid cur"
  by (rule game_info_of_bytes_bytes) simp_all

lemma advert_length [simp]: "length (game_info_bytes (advert gid cur)) = 112"
  using length_game_info_bytes [of "advert gid cur"] by (simp add: sizeof_game_info_t_def)

lemma find_game_by_id_absent:
  assumes "\<forall>k<n. game_id (gs ! k) \<noteq> gid"
  shows "find_game_by_id gs n gid 0 = None"
proof (cases "find_game_by_id gs n gid 0")
  case None
  then show ?thesis .
next
  case (Some j)
  from find_game_by_id_Some [OF Some] assms show ?thesis by auto
qed

lemma distinct_ids_index:
  assumes "distinct (map game_id (take n gs))" and "n \<le> length gs"
    and "i < n" and "j < n" and "game_id (gs ! i) = game_id (gs ! j)"
  shows "i = j"
proof -
  let ?m = "map game_id (take n gs)"
  have li: "i < length ?m" and lj: "j < length ?m" using assms(2,3,4) by simp_all
  have eq: "?m ! i = ?m ! j" using assms(2,3,4,5) by simp
  from nth_eq_iff_index_eq [OF assms(1) li lj] eq show ?thesis by blast
qed

lemma find_game_by_id_present:
  assumes "distinct (map game_id (take n gs))" and "n \<le> length gs"
    and "i < n" and "game_id (gs ! i) = gid"
  shows "find_game_by_id gs n gid 0 = Some i"
proof (cases "find_game_by_id gs n gid 0")
  case None
  from find_game_by_id_None [OF None] assms(3,4) show ?thesis by auto
next
  case (Some j)
  from find_game_by_id_Some [OF Some] have "j < n" "game_id (gs ! j) = gid" by simp_all
  with assms have "i = j" by (intro distinct_ids_index [OF assms(1,2)]) simp_all
  with Some show ?thesis by simp
qed

lemma update_discovery_response:
  assumes "network_initialized w" and "state (g_network w) \<noteq> NETWORK_STATE_DISCONNECTED"
    and "broadcast_socket (g_network w) = sock" and "sock \<noteq> INVALID_SOCKET_VALUE"
    and "env_recvfrom e sock = Recv_Datagram from_addr (build_message MSG_DISCOVERY_RESPONSE data seq ts)"
    and "env_recvfrom e (server_socket (g_network w)) = Recv_Fail SOCKET_WOULD_BLOCK"
    and "length data \<le> NETWORK_MAX_MESSAGE_SIZE"
    and "\<not> get_timestamp e - last_discovery_time (g_network w) > NETWORK_DISCOVERY_INTERVAL"
  shows "network_update e w =
           handle_discovery_response e data (count_received (20 + length data) w)"
proof -
  let ?v = "count_received (20 + length data) w"
  let ?u = "handle_discovery_response e data ?v"
  have t: "MSG_DISCOVERY_RESPONSE \<le> 0xFFFF" by (simp add: msg_defs)
  have u: "network_update e w = periodic_discovery e ?u"
    using update_on_discovery_socket [OF assms(1,2,3,4,5,6,7) t]
    by (simp add: handle_message_cases)
  have "wiring ?u = wiring ?v"
    using handle_message_wiring [of e from_addr MSG_DISCOVERY_RESPONSE data "[]" ?v]
    by (simp add: handle_message_cases)
  moreover have "wiring ?v = wiring w" by (rule same_session_wiring [OF count_received_same])
  ultimately have "last_discovery_time (g_network ?u) = last_discovery_time (g_network w)"
    by (simp add: wiring_def)
  with assms(8) have "periodic_discovery e ?u = ?u"
    by (simp add: periodic_discovery_def)
  with u show ?thesis by simp
qed

lemma reachable_discovered: "reachable (discovered xs)"
  by (induction xs)
     (simp_all add: discovered.simps connecting_client_facts(1) reachable.intros)

lemma discovered_facts:
  "distinct (map fst xs) \<Longrightarrow> length xs \<le> 16 \<Longrightarrow>
     network_initialized (discovered xs) \<and>
     state (g_network (discovered xs)) = NETWORK_STATE_CONNECTING \<and>
     server_socket (g_network (discovered xs)) = 5 \<and>
     broadcast_socket (g_network (discovered xs)) = 3 \<and>
     last_discovery_time (g_network (discovered xs)) = 5000 \<and>
     discovered_game_count (g_network (discovered xs)) = length xs \<and>
     (\<forall>k<length xs. discovered_games (g_network (discovered xs)) ! k =
         (advert (fst (rev xs ! k)) (snd (rev xs ! k)))\<lparr>last_seen := 5000\<rparr>)"
proof (induction xs)
  case Nil
  show ?case by (simp add: discovered.simps connecting_client_facts)
next
  case (Cons x xs)
  define n where "n = length xs"
  define gid where "gid = fst x"
  define cur where "cur = snd x"
  let ?w = "discovered xs"
  let ?e = "discovery_response_from gid cur"
  let ?data = "game_info_bytes (advert gid cur)"
  let ?v = "count_received (20 + length ?data) ?w"
  let ?r = "discovered (x # xs)"
  let ?gi = "(advert gid cur)\<lparr>last_seen := 5000\<rparr>"
  from Cons have f: "network_initialized ?w"
     "state (g_network ?w) = NETWORK_STATE_CONNECTING"
     "server_socket (g_network ?w) = 5" "broadcast_socket (g_network ?w) = 3"
     "last_discovery_time (g_network ?w) = 5000"
     "discovered_game_count (g_network ?w) = n"
     and old: "\<forall>k<n. discovered_games (g_network ?w) ! k =
         (advert (fst (rev xs ! k)) (snd (rev xs ! k)))\<lparr>last_seen := 5000\<rparr>"
    by (simp_all add: n_def)
  have st: "state (g_network ?w) \<noteq> NETWORK_STATE_DISCONNECTED" by (simp add: f)
  have env: "env_recvfrom ?e 3 = Recv_Datagram host_addr (build_message MSG_DISCOVERY_RESPONSE ?data 1 5000)"
    "env_recvfrom ?e 5 = Recv_Fail SOCKET_WOULD_BLOCK" "get_timestamp ?e = 5000"
    by (simp_all add: discovery_response_from_def delivering_def quiet_env_def get_timestamp_def)
  have u: "?r = handle_discovery_response ?e ?data ?v"
    unfolding discovered.simps gid_def [symmetric] cur_def [symmetric]
    by (rule update_discovery_response [OF f(1) st f(4) _ env(1)])
       (simp_all add: f env INVALID_SOCKET_VALUE_def NETWORK_MAX_MESSAGE_SIZE_def
          NETWORK_DISCOVERY_INTERVAL_def)
  have n16: "n < 16" using Cons.prems(2) by (simp add: n_def)
  have fresh: "\<forall>k<n. game_id (discovered_games (g_network ?w) ! k) \<noteq> gid"
  proof (intro allI impI)
    fix k assume k: "k < n"
    have "rev xs ! k \<in> set xs" using k by (metis length_rev n_def nth_mem set_rev)
    then have "fst (rev xs ! k) \<in> set (map fst xs)" by simp
    moreover have "gid \<notin> set (map fst xs)" using Cons.prems(1) by (simp add: gid_def)
    ultimately show "game_id (discovered_games (g_network ?w) ! k) \<noteq> gid"
      using old k by auto
  qed
  then have none: "find_game_by_id (discovered_games (g_network ?w)) n gid 0 = None"
    by (rule find_game_by_id_absent)
  have r: "?r = ?v\<lparr>g_network := (g_network ?v)
            \<lparr>discovered_games := (discovered_games (g_network ?w))[n := ?gi],
             discovered_game_count := n + 1\<rparr>\<rparr>"
    unfolding u using n16 none
    by (simp add: handle_discovery_response_def Let_def f sizeof_game_info_t_def env)
  have len: "length (discovered_games (g_network ?w)) = 16"
    using reachable_inv [OF reachable_discovered [of xs]] by (simp add: session_inv_def)
  have entries: "\<forall>k<Suc n. discovered_games (g_network ?r) ! k =
         (advert (fst (rev (x # xs) ! k)) (snd (rev (x # xs) ! k)))\<lparr>last_seen := 5000\<rparr>"
  proof (intro allI impI)
    fix k assume k: "k < Suc n"
    show "discovered_games (g_network ?r) ! k =
         (advert (fst (rev (x # xs) ! k)) (snd (rev (x # xs) ! k)))\<lparr>last_seen := 5000\<rparr>"
    proof (cases "k = n")
      case True
      then have "rev (x # xs) ! k = x" by (simp add: n_def nth_append)
      with True n16 len show ?thesis by (simp add: r gid_def cur_def)
    next
      case False
      with k have kn: "k < n" by simp
      then have "rev (x # xs) ! k = rev xs ! k" by (simp add: n_def nth_append)
      with kn old False show ?thesis by (simp add: r)
    qed
  qed
  show ?case
    using entries by (simp add: r f n_def)
qed

text \<open>
  C4 (discovery registry: dedup and capacity), as the code has it. A discovery response
  of the size of \<open>game_info_t\<close> is stamped with the time of receipt and then, while the
  registry holds fewer than 16 entries: if a live entry has its game id, that entry is
  overwritten in place and the count stays; otherwise it is stored behind the last live
  entry and the count grows by one; either way exactly one live entry then carries that
  game id, and it holds the values of this response. While the registry holds 16
  entries every response is dropped and the world stays as it is, whether or not its
  game id is in the registry.
\<close>

theorem discovery_registry_update:
  assumes "reachable w" and "length data = sizeof_game_info_t"
    and "gi = (game_info_of_bytes data)\<lparr>last_seen := get_timestamp e\<rparr>"
    and "gs = discovered_games (g_network w)" and "n = discovered_game_count (g_network w)"
    and "w' = network_handle_message e from_addr MSG_DISCOVERY_RESPONSE data rest w"
  shows "(n < 16 \<and> i < n \<and> game_id (gs ! i) = game_id gi \<longrightarrow>
           w' = w\<lparr>g_network := (g_network w)\<lparr>discovered_games := gs[i := gi]\<rparr>\<rparr>) \<and>
         (n < 16 \<and> (\<forall>k<n. game_id (gs ! k) \<noteq> game_id gi) \<longrightarrow>
           w' = w\<lparr>g_network := (g_network w)
                   \<lparr>discovered_games := gs[n := gi], discovered_game_count := n + 1\<rparr>\<rparr>) \<and>
         (n < 16 \<longrightarrow>
           (\<exists>j<discovered_game_count (g_network w').
              discovered_games (g_network w') ! j = gi \<and>
              (\<forall>k<discovered_game_count (g_network w').
                 game_id (discovered_games (g_network w') ! k) = game_id gi \<longrightarrow> k = j))) \<and>
         (n = 16 \<longrightarrow> w' = w)"
proof -
  have inv: "length gs = 16" "n \<le> 16" "distinct (map game_id (take n gs))"
    using reachable_inv [OF assms(1)] by (simp_all add: session_inv_def assms(4,5))
  have w': "w' = handle_discovery_response e data w"
    by (simp add: assms(6) handle_message_cases)
  have ngs: "n \<le> length gs" using inv by simp
  have full: "n = 16 \<longrightarrow> w' = w"
    by (simp add: w' handle_discovery_response_def Let_def assms(5) [symmetric])
  have over: "w' = w\<lparr>g_network := (g_network w)\<lparr>discovered_games := gs[i := gi]\<rparr>\<rparr>"
    if "n < 16" "i < n" "game_id (gs ! i) = game_id gi" for i
  proof -
    have "find_game_by_id gs n (game_id gi) 0 = Some i"
      using inv(3) ngs that(2,3) by (rule find_game_by_id_present)
    then show ?thesis
      using that(1)
      by (simp add: w' handle_discovery_response_def Let_def assms(2)
          assms(3) [symmetric] assms(4) [symmetric] assms(5) [symmetric])
  qed
  have app: "w' = w\<lparr>g_network := (g_network w)
                   \<lparr>discovered_games := gs[n := gi], discovered_game_count := n + 1\<rparr>\<rparr>"
    if "n < 16" "\<forall>k<n. game_id (gs ! k) \<noteq> game_id gi"
  proof -
    have "find_game_by_id gs n (game_id gi) 0 = None"
      using that(2) by (rule find_game_by_id_absent)
    then show ?thesis
      using that(1)
      by (simp add: w' handle_discovery_response_def Let_def assms(2)
          assms(3) [symmetric] assms(4) [symmetric] assms(5) [symmetric])
  qed
  have one: "\<exists>j<discovered_game_count (g_network w').
              discovered_games (g_network w') ! j = gi \<and>
              (\<forall>k<discovered_game_count (g_network w').
                 game_id (discovered_games (g_network w') ! k) = game_id gi \<longrightarrow> k = j)"
    if lt: "n < 16"
  proof (cases "\<exists>i<n. game_id (gs ! i) = game_id gi")
    case True
    then obtain i where i: "i < n" "game_id (gs ! i) = game_id gi" by blast
    note o = over [OF lt i]
    have "discovered_games (g_network w') ! i = gi" using i(1) ngs by (simp add: o)
    moreover have "k = i"
      if "k < discovered_game_count (g_network w')"
         "game_id (discovered_games (g_network w') ! k) = game_id gi" for k
    proof (rule ccontr)
      assume ne: "k \<noteq> i"
      from that have kn: "k < n" and "game_id (gs ! k) = game_id gi"
        using ne by (simp_all add: o assms(5))
      with i have "game_id (gs ! k) = game_id (gs ! i)" by simp
      from distinct_ids_index [OF inv(3) ngs kn i(1) this] ne show False by simp
    qed
    moreover have "i < discovered_game_count (g_network w')" using i(1) by (simp add: o assms(5))
    ultimately show ?thesis by blast
  next
    case False
    then have none: "\<forall>k<n. game_id (gs ! k) \<noteq> game_id gi" by blast
    note a = app [OF lt none]
    have "discovered_games (g_network w') ! n = gi" using lt inv(1) by (simp add: a)
    moreover have "k = n"
      if "k < discovered_game_count (g_network w')"
         "game_id (discovered_games (g_network w') ! k) = game_id gi" for k
    proof (rule ccontr)
      assume ne: "k \<noteq> n"
      from that(1) ne have kn: "k < n" by (simp add: a)
      with that(2) ne have "game_id (gs ! k) = game_id gi" by (simp add: a)
      with none kn show False by blast
    qed
    moreover have "n < discovered_game_count (g_network w')" by (simp add: a)
    ultimately show ?thesis by blast
  qed
  show ?thesis using full over app one by blast
qed

lemma two_games_facts:
  "reachable two_games" "discovered_game_count (g_network two_games) = 2"
  "discovered_games (g_network two_games) ! 0 = (advert 100 1)\<lparr>last_seen := 5000\<rparr>"
  "discovered_games (g_network two_games) ! 1 = (advert 101 2)\<lparr>last_seen := 5000\<rparr>"
  "length (discovered_games (g_network two_games)) = 16"
proof -
  show r: "reachable two_games" unfolding two_games_def by (rule reachable_discovered)
  show "length (discovered_games (g_network two_games)) = 16"
    using reachable_inv [OF r] by (simp add: session_inv_def)
qed (insert discovered_facts [of "[(101, 2), (100, 1)]"], simp_all add: two_games_def)

lemma full_registry_facts:
  "reachable full_registry" "discovered_game_count (g_network full_registry) = 16"
  "discovered_games (g_network full_registry) ! 0 = (advert 100 1)\<lparr>last_seen := 5000\<rparr>"
proof -
  show "reachable full_registry" unfolding full_registry_def by (rule reachable_discovered)
qed (insert discovered_facts [of "[(115, 1), (114, 1), (113, 1), (112, 1), (111, 1), (110, 1),
        (109, 1), (108, 1), (107, 1), (106, 1), (105, 1), (104, 1), (103, 1), (102, 1), (101, 1),
        (100, 1)]"], simp_all add: full_registry_def)

theorem discovery_registry_update_witness:
  "reachable two_games \<and> discovered_game_count (g_network two_games) = 2 \<and>
   game_id (discovered_games (g_network two_games) ! 0) = 100 \<and>
   current_players (discovered_games (g_network two_games) ! 0) = 1 \<and>
   discovered_game_count (g_network (network_handle_message quiet_env host_addr
     MSG_DISCOVERY_RESPONSE (game_info_bytes (advert 100 5)) (behind (game_info_bytes (advert 100 5))) two_games)) = 2 \<and>
   discovered_games (g_network (network_handle_message quiet_env host_addr
     MSG_DISCOVERY_RESPONSE (game_info_bytes (advert 100 5)) (behind (game_info_bytes (advert 100 5))) two_games)) ! 0 =
     (advert 100 5)\<lparr>last_seen := 5000\<rparr> \<and>
   discovered_games (g_network (network_handle_message quiet_env host_addr
     MSG_DISCOVERY_RESPONSE (game_info_bytes (advert 100 5)) (behind (game_info_bytes (advert 100 5))) two_games)) ! 1 =
     (advert 101 2)\<lparr>last_seen := 5000\<rparr> \<and>
   discovered_game_count (g_network (network_handle_message quiet_env host_addr
     MSG_DISCOVERY_RESPONSE (game_info_bytes (advert 102 3)) (behind (game_info_bytes (advert 102 3))) two_games)) = 3 \<and>
   discovered_games (g_network (network_handle_message quiet_env host_addr
     MSG_DISCOVERY_RESPONSE (game_info_bytes (advert 102 3)) (behind (game_info_bytes (advert 102 3))) two_games)) ! 2 =
     (advert 102 3)\<lparr>last_seen := 5000\<rparr> \<and>
   reachable full_registry \<and> discovered_game_count (g_network full_registry) = 16 \<and>
   network_handle_message quiet_env host_addr MSG_DISCOVERY_RESPONSE
     (game_info_bytes (advert 116 1)) (behind (game_info_bytes (advert 116 1))) full_registry =
     full_registry"
proof -
  note f = two_games_facts
  note f' = two_games_facts [unfolded One_nat_def]
  let ?gs = "discovered_games (g_network two_games)"
  have ts: "get_timestamp quiet_env = 5000" by (simp add: get_timestamp_def quiet_env_def)
  have sz: "\<And>g c. length (game_info_bytes (advert g c)) = sizeof_game_info_t"
    by (simp add: sizeof_game_info_t_def)
  \<comment> \<open>a response for game 100, which the registry holds at index 0\<close>
  let ?a = "network_handle_message quiet_env host_addr MSG_DISCOVERY_RESPONSE
              (game_info_bytes (advert 100 5)) (behind (game_info_bytes (advert 100 5))) two_games"
  have "(2::nat) < 16 \<and> (0::nat) < 2 \<and>
        game_id (?gs ! 0) = game_id ((game_info_of_bytes (game_info_bytes (advert 100 5)))
                                        \<lparr>last_seen := get_timestamp quiet_env\<rparr>)"
    by (simp add: f)
  with discovery_registry_update [where w = two_games
      and data = "game_info_bytes (advert 100 5)"
      and rest = "behind (game_info_bytes (advert 100 5))" and e = quiet_env and from_addr = host_addr
      and i = 0, OF f(1) sz refl refl f(2) [symmetric] refl]
  have a: "?a = two_games\<lparr>g_network := (g_network two_games)
              \<lparr>discovered_games := ?gs[0 := (advert 100 5)\<lparr>last_seen := 5000\<rparr>]\<rparr>\<rparr>"
    by (simp add: ts)
  \<comment> \<open>a response for game 102, which the registry does not hold\<close>
  let ?b = "network_handle_message quiet_env host_addr MSG_DISCOVERY_RESPONSE
              (game_info_bytes (advert 102 3)) (behind (game_info_bytes (advert 102 3))) two_games"
  have "\<forall>k<2. game_id (?gs ! k) \<noteq>
          game_id ((game_info_of_bytes (game_info_bytes (advert 102 3)))
                     \<lparr>last_seen := get_timestamp quiet_env\<rparr>)"
  proof (intro allI impI)
    fix k :: nat assume "k < 2"
    then consider "k = 0" | "k = 1" by linarith
    then show "game_id (?gs ! k) \<noteq>
          game_id ((game_info_of_bytes (game_info_bytes (advert 102 3)))
                     \<lparr>last_seen := get_timestamp quiet_env\<rparr>)"
      by cases (simp_all add: f f')
  qed
  with discovery_registry_update [where w = two_games
      and data = "game_info_bytes (advert 102 3)"
      and rest = "behind (game_info_bytes (advert 102 3))" and e = quiet_env and from_addr = host_addr
      and i = 0, OF f(1) sz refl refl f(2) [symmetric] refl]
  have b: "?b = two_games\<lparr>g_network := (g_network two_games)
              \<lparr>discovered_games := ?gs[2 := (advert 102 3)\<lparr>last_seen := 5000\<rparr>],
               discovered_game_count := 2 + 1\<rparr>\<rparr>"
    by (simp add: ts)
  \<comment> \<open>any response while the registry is full\<close>
  note g = full_registry_facts
  from discovery_registry_update [where w = full_registry
      and data = "game_info_bytes (advert 116 1)"
      and rest = "behind (game_info_bytes (advert 116 1))" and e = quiet_env and from_addr = host_addr
      and i = 0, OF g(1) sz refl refl g(2) [symmetric] refl]
  have c: "network_handle_message quiet_env host_addr MSG_DISCOVERY_RESPONSE
     (game_info_bytes (advert 116 1)) (behind (game_info_bytes (advert 116 1))) full_registry =
     full_registry"
    by simp
  show ?thesis
    by (simp add: a b c f f' g)
qed

text \<open>
  A registry of sixteen games whose first entry is game 100 with one player: the
  response of game 100 with five players is dropped and the entry keeps its old values.
\<close>

theorem full_registry_ignores_refresh:
  "reachable full_registry \<and>
   discovered_game_count (g_network full_registry) = 16 \<and>
   game_id (discovered_games (g_network full_registry) ! 0) = 100 \<and>
   current_players (discovered_games (g_network full_registry) ! 0) = 1 \<and>
   length (game_info_bytes (advert 100 5)) = sizeof_game_info_t \<and>
   game_id (game_info_of_bytes (game_info_bytes (advert 100 5))) = 100 \<and>
   current_players (game_info_of_bytes (game_info_bytes (advert 100 5))) = 5 \<and>
   network_handle_message quiet_env host_addr MSG_DISCOVERY_RESPONSE
     (game_info_bytes (advert 100 5)) (behind (game_info_bytes (advert 100 5))) full_registry =
     full_registry"
  by (simp add: full_registry_facts sizeof_game_info_t_def handle_message_cases
      handle_discovery_response_def)


end
